theory Spec2Isabelle
  imports Complex_Main
begin

section \<open>Dates, times and timestamps\<close>

text \<open>
  The strategies read calendar dates and wall-clock times off each bar. A Python
  \<open>datetime.date\<close> is a year, a month and a day; a \<open>datetime.time\<close> is kept as the
  number of seconds since midnight, which orders times exactly as Python compares them.
  Bars and option candles are stamped at whole seconds and carry no time zone.
\<close>

record date =
  year :: int
  month :: int
  day :: int

record datetime =
  date_of :: date
  time_of :: int

definition dtime :: "int \<Rightarrow> int \<Rightarrow> int" where
  \<comment> \<open>\<open>datetime.time(h, m)\<close>\<close>
  "dtime h m = h * 3600 + m * 60"

definition is_leap :: "int \<Rightarrow> bool" where
  "is_leap y = (y mod 4 = 0 \<and> (y mod 100 \<noteq> 0 \<or> y mod 400 = 0))"

definition days_before_year :: "int \<Rightarrow> int" where
  "days_before_year y = (y - 1) * 365 + (y - 1) div 4 - (y - 1) div 100 + (y - 1) div 400"

definition days_in_month :: "int \<Rightarrow> int \<Rightarrow> int" where
  "days_in_month y m =
     (if m = 2 then (if is_leap y then 29 else 28)
      else if m = 4 \<or> m = 6 \<or> m = 9 \<or> m = 11 then 30 else 31)"

definition days_before_month :: "int \<Rightarrow> int \<Rightarrow> int" where
  "days_before_month y m =
     (if m = 1 then 0 else if m = 2 then 31 else if m = 3 then 59 else if m = 4 then 90
      else if m = 5 then 120 else if m = 6 then 151 else if m = 7 then 181
      else if m = 8 then 212 else if m = 9 then 243 else if m = 10 then 273
      else if m = 11 then 304 else 334)
     + (if 2 < m \<and> is_leap y then 1 else 0)"

definition toordinal :: "date \<Rightarrow> int" where
  \<comment> \<open>proleptic Gregorian ordinal, day 1 is 0001-01-01\<close>
  "toordinal d = days_before_year (year d) + days_before_month (year d) (month d) + day d"

datatype error = ValueError | AttributeError

definition mk_date :: "int \<Rightarrow> int \<Rightarrow> int \<Rightarrow> error + date" where
  \<comment> \<open>\<open>datetime.date(y, m, d)\<close> raises ValueError outside the calendar\<close>
  "mk_date y m d =
     (if 1 \<le> y \<and> y \<le> 9999 \<and> 1 \<le> m \<and> m \<le> 12 \<and> 1 \<le> d \<and> d \<le> days_in_month y m
      then Inr \<lparr>year = y, month = m, day = d\<rparr> else Inl ValueError)"

definition days_between :: "date \<Rightarrow> date \<Rightarrow> int" where
  \<comment> \<open>\<open>(a - b).days\<close>\<close>
  "days_between a b = toordinal a - toordinal b"

definition pd_Timestamp :: "datetime \<Rightarrow> int" where
  \<comment> \<open>seconds since 1970-01-01 00:00:00, whose ordinal is 719163\<close>
  "pd_Timestamp dt = (toordinal (date_of dt) - 719163) * 86400 + time_of dt"

section \<open>Contract series and as-of lookup\<close>

text \<open>
  An option file is a table indexed by timestamp. Only the columns the strategies read
  are kept. A file that is missing or fails to parse is absent from the folder map: both
  are turned into \<open>None\<close> at the load boundary.
\<close>

record candle =
  high :: real
  low :: real
  close :: real

record ind_candle = candle +
  EMA19_Close :: real
  EMA50_High :: real
  EMA50_Low :: real

type_synonym 'r frame = "(int \<times> 'r) list"

type_synonym folder = "string \<Rightarrow> candle frame option"

definition sort_index :: "'r frame \<Rightarrow> 'r frame" where
  \<comment> \<open>\<open>if not df.index.is_monotonic_increasing: df.sort_index(inplace=True)\<close>\<close>
  "sort_index df = (if sorted (map fst df) then df else sort_key fst df)"

fun asof :: "int list \<Rightarrow> int \<Rightarrow> int option" where
  \<comment> \<open>\<open>Index.asof\<close> on a sorted index: the label itself when present, else the
      previous label, else NaT\<close>
  "asof [] ts = None"
| "asof (t # rest) ts =
     (if t \<le> ts then (case asof rest ts of None \<Rightarrow> Some t | Some u \<Rightarrow> Some u) else None)"

definition loc :: "'r frame \<Rightarrow> int \<Rightarrow> 'r list" where
  \<comment> \<open>\<open>df.loc[idx]\<close>: every row that carries the label, in index order\<close>
  "loc df idx = map snd (filter (\<lambda>x. fst x = idx) df)"

text \<open>
  For a label that occurs once \<open>df.loc[idx]\<close> is that row and \<open>df.loc[idx]['close']\<close> a
  number. For a repeated label it is the table of all rows with that label, and the
  strategies hold a column where they expect a number. The bar functions below are
  written for the single row: \<open>the_row\<close> reads the row of the label and, where several
  rows carry it, goes on with the first of them.
\<close>

definition the_row :: "'r list \<Rightarrow> 'r option" where
  "the_row rs = (case rs of [] \<Rightarrow> None | r # rest \<Rightarrow> Some r)"

section \<open>Ledger and summary rows\<close>

definition py_round2 :: "real \<Rightarrow> real" where
  \<comment> \<open>\<open>round(x, 2)\<close>: nearest hundredth, a tie going to the even neighbour\<close>
  "py_round2 x =
     (let y = x * 100; f = \<lfloor>y\<rfloor>; d = y - of_int f
      in (if d < 1 / 2 then of_int f
          else if 1 / 2 < d then of_int (f + 1)
          else if even f then of_int f else of_int (f + 1)) / 100)"

datatype leg = CE | PE

datatype stop_mode = NONE | COST | TRAILING

record ledger_row =
  Date :: date
  Time :: int
  Event :: string
  Ticker :: string
  Price :: real
  PnL_INR :: real
  Info :: string

record buy_ledger_row = ledger_row +
  SL_Price :: real
  SL_Mode :: stop_mode

record summary_row =
  TradeID :: nat
  ScripName :: string
  BuyDateTime :: datetime
  SellDateTime :: datetime
  BuyPrice :: real
  SellPrice :: real
  PnL :: real
  ExitReason :: string

record sell_summary_row = summary_row +
  Type :: "leg option"
  Side :: string

section \<open>Strategy state\<close>

text \<open>
  Both strategy classes keep the same position fields; the buying class adds the day
  counters and the trailing stop. \<open>trade_files\<close> is the folder of per-trade ledgers
  written at each close, keyed by trade number, contract and entry date.
\<close>

record ('r, 'lg, 'sm) strategy =
  total_trades_count :: nat
  position_active :: bool
  pos_type :: "leg option"
  entry_price :: real
  entry_time :: "datetime option"
  active_scrip :: string
  active_option_df :: "'r frame option"
  summary_log :: "'sm list"
  current_trade_ledger :: "'lg list"
  trade_files :: "((nat \<times> string \<times> date) \<times> 'lg list) list"

record buying = "(candle, buy_ledger_row, summary_row) strategy" +
  current_date :: "date option"
  trades_today :: nat
  sl_mode :: stop_mode
  current_sl_price :: real
  max_pnl_reached :: real

type_synonym selling = "(ind_candle, ledger_row, sell_summary_row) strategy"

record bar =
  time :: datetime
  expiry_day :: int
  expiry_month :: int
  expiry_year :: int
  icici_scrip_code_ce :: string
  icici_scrip_code_pe :: string

text \<open>
  The buying strategy reads three backtrader indicator lines on the spot feed, at the
  current bar (\<open>[0]\<close>) and at the previous one (\<open>[-1]\<close>); they arrive with the bar.
\<close>

record buy_bar = bar +
  ema5 :: real
  ema20_high :: real
  ema20_low :: real
  ema5_prev :: real
  ema20_high_prev :: real
  ema20_low_prev :: real

section \<open>Configuration\<close>

definition LOT_SIZE :: real where "LOT_SIZE = 120"
definition MAX_TRADES_DAY :: nat where "MAX_TRADES_DAY = 2"
definition TSL_TRIGGER :: real where "TSL_TRIGGER = 3000"
definition TSL_STEP :: real where "TSL_STEP = 500"
definition TSL_INCREMENT :: real where "TSL_INCREMENT = 500"
definition qty :: real where "qty = LOT_SIZE"

definition EMA_FAST :: real where "EMA_FAST = 19"
definition EMA_SLOW :: real where "EMA_SLOW = 50"
definition TARGET_LTP :: real where "TARGET_LTP = 30"
definition ROLLOVER_DAYS :: int where "ROLLOVER_DAYS = 4"
definition ENTRY_START :: int where "ENTRY_START = dtime 14 0"
definition ENTRY_END :: int where "ENTRY_END = dtime 15 30"

section \<open>Buying strategy\<close>

definition buy_init :: buying where
  "buy_init =
     \<lparr>total_trades_count = 0, position_active = False, pos_type = None, entry_price = 0,
      entry_time = None, active_scrip = [], active_option_df = None, summary_log = [],
      current_trade_ledger = [], trade_files = [],
      current_date = None, trades_today = 0, sl_mode = NONE, current_sl_price = 0,
      max_pnl_reached = 0\<rparr>"

definition price_at :: "candle frame \<Rightarrow> datetime \<Rightarrow> real option" where
  \<comment> \<open>second half of \<open>get_option_price\<close>: as-of label, then its close\<close>
  "price_at df check_datetime =
     (case asof (map fst df) (pd_Timestamp check_datetime) of
        None \<Rightarrow> None
      | Some idx \<Rightarrow> map_option close (the_row (loc df idx)))"

definition get_option_price ::
  "folder \<Rightarrow> string \<Rightarrow> datetime \<Rightarrow> buying \<Rightarrow> real option \<times> buying" where
  "get_option_price files scrip_code check_datetime s =
     (if active_option_df s = None \<or> active_scrip s \<noteq> scrip_code then
        (case files scrip_code of
           None \<Rightarrow> (None, s)
         | Some raw \<Rightarrow>
             (let df = sort_index raw
              in (price_at df check_datetime,
                  s\<lparr>active_option_df := Some df, active_scrip := scrip_code\<rparr>)))
      else (case active_option_df s of
              None \<Rightarrow> (None, s)
            | Some df \<Rightarrow> (price_at df check_datetime, s)))"

definition buy_log_trade_step ::
  "datetime \<Rightarrow> string \<Rightarrow> real \<Rightarrow> real \<Rightarrow> real \<Rightarrow> string \<Rightarrow> buying \<Rightarrow> buying" where
  "buy_log_trade_step dt event price pnl_val sl_price info s =
     s\<lparr>current_trade_ledger := current_trade_ledger s @
         [\<lparr>Date = date_of dt, Time = time_of dt, Event = event, Ticker = active_scrip s,
           Price = py_round2 price, PnL_INR = py_round2 pnl_val, Info = info,
           SL_Price = (if 0 < sl_price then py_round2 sl_price else 0),
           SL_Mode = sl_mode s\<rparr>]\<rparr>"

definition buy_close_trade :: "string \<Rightarrow> datetime \<Rightarrow> real \<Rightarrow> buying \<Rightarrow> error + buying" where
  "buy_close_trade reason dt price s0 =
     (let pnl = (price - entry_price s0) * qty;
          s = buy_log_trade_step dt ''EXIT'' price pnl (current_sl_price s0) reason s0
      in case entry_time s of
           None \<Rightarrow> Inl AttributeError
         | Some et \<Rightarrow>
             Inr (s\<lparr>summary_log := summary_log s @
                      [\<lparr>TradeID = total_trades_count s, ScripName = active_scrip s,
                        BuyDateTime = et, SellDateTime = dt,
                        BuyPrice = py_round2 (entry_price s), SellPrice = py_round2 price,
                        PnL = py_round2 pnl, ExitReason = reason\<rparr>],
                    trade_files := trade_files s @
                      [((total_trades_count s, active_scrip s, date_of et),
                        current_trade_ledger s)],
                    position_active := False, pos_type := None, active_scrip := []\<rparr>))"

definition entry_setup :: "folder \<Rightarrow> leg \<Rightarrow> buy_bar \<Rightarrow> buying \<Rightarrow> buying" where
  "entry_setup files type' row s0 =
     (let dt = time row;
          scrip = (if type' = CE then icici_scrip_code_ce row else icici_scrip_code_pe row);
          (price, s) = get_option_price files scrip dt s0
      in case price of
           None \<Rightarrow> s
         | Some p \<Rightarrow>
             if p = 0 then s
             else buy_log_trade_step dt ''ENTRY'' p 0 0
                    (''Signal '' @ (if type' = CE then ''CE'' else ''PE''))
                    (s\<lparr>total_trades_count := total_trades_count s + 1,
                       position_active := True, pos_type := Some type', entry_price := p,
                       active_scrip := scrip, entry_time := Some dt,
                       trades_today := trades_today s + 1,
                       sl_mode := NONE, current_sl_price := 0, max_pnl_reached := 0,
                       current_trade_ledger := []\<rparr>))"

definition new_day_reset :: "date \<Rightarrow> buying \<Rightarrow> buying" where
  "new_day_reset d s =
     (if current_date s \<noteq> Some d
      then s\<lparr>current_date := Some d, trades_today := 0, active_option_df := None\<rparr>
      else s)"

definition is_expiry_today :: "date \<Rightarrow> buy_bar \<Rightarrow> bool" where
  "is_expiry_today d row =
     (day d = expiry_day row \<and> month d = expiry_month row \<and> year d = expiry_year row)"

definition tsl_trigger :: "datetime \<Rightarrow> real \<Rightarrow> real \<Rightarrow> buying \<Rightarrow> buying" where
  \<comment> \<open>first TSL block: move the stop to cost once the profit reaches the trigger\<close>
  "tsl_trigger dt curr_opt_price pnl_val s =
     (if sl_mode s = NONE \<and> TSL_TRIGGER \<le> pnl_val then
        (let s1 = s\<lparr>sl_mode := COST, current_sl_price := entry_price s,
                     max_pnl_reached := pnl_val\<rparr>
         in buy_log_trade_step dt ''TSL_UPDATE'' curr_opt_price pnl_val (current_sl_price s1)
              ''Moved to Cost'' s1)
      else s)"

definition tsl_step :: "datetime \<Rightarrow> real \<Rightarrow> real \<Rightarrow> buying \<Rightarrow> buying" where
  \<comment> \<open>second TSL block: high-water mark and stepped ratchet\<close>
  "tsl_step dt curr_opt_price pnl_val s =
     (if sl_mode s = COST \<or> sl_mode s = TRAILING then
        (let s1 = (if max_pnl_reached s < pnl_val then s\<lparr>max_pnl_reached := pnl_val\<rparr> else s);
             excess = max_pnl_reached s1 - TSL_TRIGGER
         in if TSL_STEP \<le> excess then
              (let steps = \<lfloor>excess / TSL_STEP\<rfloor>;
                   new_sl = entry_price s1 + (of_int steps * TSL_INCREMENT) / qty
               in if current_sl_price s1 < new_sl then
                    (let s2 = s1\<lparr>current_sl_price := new_sl, sl_mode := TRAILING\<rparr>
                     in buy_log_trade_step dt ''TSL_UPDATE'' curr_opt_price pnl_val
                          (current_sl_price s2) ''Stepped Up'' s2)
                  else s1)
            else s1)
      else s)"

definition buy_hold :: "folder \<Rightarrow> buy_bar \<Rightarrow> buying \<Rightarrow> error + buying" where
  \<comment> \<open>the \<open>if self.position_active:\<close> branch of \<open>next\<close>\<close>
  "buy_hold files row s0 =
     (let dt_full = time row; cur_date = date_of dt_full; current_time = time_of dt_full
      in if is_expiry_today cur_date row \<and> dtime 15 15 \<le> current_time then
           (let (p, s) = get_option_price files (active_scrip s0) dt_full s0;
                curr_opt_price = (case p of None \<Rightarrow> entry_price s | Some v \<Rightarrow> v)
            in buy_close_trade ''EXPIRY_FORCE'' dt_full curr_opt_price s)
         else
           (case get_option_price files (active_scrip s0) dt_full s0 of
              (None, s) \<Rightarrow> Inr s
            | (Some curr_opt_price, s) \<Rightarrow>
                (let pnl_val = (curr_opt_price - entry_price s) * qty;
                     s1 = buy_log_trade_step dt_full ''HOLD'' curr_opt_price pnl_val
                            (current_sl_price s) ''Monitoring'' s;
                     s2 = tsl_trigger dt_full curr_opt_price pnl_val s1;
                     s3 = tsl_step dt_full curr_opt_price pnl_val s2
                 in if sl_mode s3 \<noteq> NONE \<and> curr_opt_price \<le> current_sl_price s3 then
                      buy_close_trade ''TSL_HIT'' dt_full (current_sl_price s3) s3
                    else if pos_type s3 = Some CE \<and> ema5 row < ema20_low row then
                      buy_close_trade ''EMA_REVERSAL'' dt_full curr_opt_price s3
                    else if pos_type s3 = Some PE \<and> ema20_high row < ema5 row then
                      buy_close_trade ''EMA_REVERSAL'' dt_full curr_opt_price s3
                    else Inr s3)))"

definition buy_entry :: "folder \<Rightarrow> buy_bar \<Rightarrow> buying \<Rightarrow> buying" where
  \<comment> \<open>the \<open>elif not self.position_active:\<close> branch of \<open>next\<close>\<close>
  "buy_entry files row s =
     (let current_time = time_of (time row)
      in if \<not> (dtime 9 20 \<le> current_time \<and> current_time \<le> dtime 11 0) then s
         else if MAX_TRADES_DAY \<le> trades_today s then s
         else
           (let signal_ce = (ema5_prev row \<le> ema20_high_prev row \<and> ema20_high row < ema5 row);
                signal_pe = (ema20_low_prev row \<le> ema5_prev row \<and> ema5 row < ema20_low row)
            in if signal_ce then entry_setup files CE row s
               else if signal_pe then entry_setup files PE row s
               else s))"

definition buy_next :: "folder \<Rightarrow> buy_bar \<Rightarrow> buying \<Rightarrow> error + buying" where
  "buy_next files row s0 =
     (let s = new_day_reset (date_of (time row)) s0
      in if position_active s then buy_hold files row s else Inr (buy_entry files row s))"

fun buy_run :: "folder \<Rightarrow> buy_bar list \<Rightarrow> buying \<Rightarrow> error + buying" where
  \<comment> \<open>the replay loop: one call of \<open>next\<close> per bar, an exception ends the run\<close>
  "buy_run files [] s = Inr s"
| "buy_run files (row # rows) s =
     (case buy_next files row s of Inl e \<Rightarrow> Inl e | Inr s' \<Rightarrow> buy_run files rows s')"

section \<open>Selling strategy\<close>

text \<open>
  \<open>Series.ewm(span=n, adjust=False).mean()\<close> is a call into pandas, whose code is not
  part of these sources. The model takes the recursion that the pandas documentation
  gives for it: the first output is the first input, each later output blends the
  previous output with the current input, with smoothing factor \<open>2 / (n + 1)\<close>. The
  indicators of the buying strategy are backtrader objects on the spot feed; they reach
  the model as fields of the bar.
\<close>

fun ewm_from :: "real \<Rightarrow> real \<Rightarrow> real list \<Rightarrow> real list" where
  "ewm_from \<alpha> prev [] = []"
| "ewm_from \<alpha> prev (x # xs) = (let y = (1 - \<alpha>) * prev + \<alpha> * x in y # ewm_from \<alpha> y xs)"

definition ewm_mean :: "real \<Rightarrow> real list \<Rightarrow> real list" where
  "ewm_mean spn xs =
     (case xs of [] \<Rightarrow> [] | x # rest \<Rightarrow> x # ewm_from (2 / (spn + 1)) x rest)"

definition add_indicators :: "candle frame \<Rightarrow> ind_candle frame" where
  \<comment> \<open>the three \<open>df[...] = df[...].ewm(...).mean()\<close> assignments\<close>
  "add_indicators df =
     map (\<lambda>((t, c), e19, e50h, e50l).
            (t, \<lparr>high = high c, low = low c, close = close c,
                 EMA19_Close = e19, EMA50_High = e50h, EMA50_Low = e50l\<rparr>))
         (zip df (zip (ewm_mean EMA_FAST (map (close \<circ> snd) df))
                 (zip (ewm_mean EMA_SLOW (map (high \<circ> snd) df))
                      (ewm_mean EMA_SLOW (map (low \<circ> snd) df)))))"

definition sell_init :: selling where
  "sell_init =
     \<lparr>total_trades_count = 0, position_active = False, pos_type = None, entry_price = 0,
      entry_time = None, active_scrip = [], active_option_df = None, summary_log = [],
      current_trade_ledger = [], trade_files = []\<rparr>"

definition row_at :: "ind_candle frame \<Rightarrow> datetime \<Rightarrow> ind_candle option" where
  \<comment> \<open>second half of \<open>get_option_indicators\<close>: as-of label, staleness check, row\<close>
  "row_at df local_dt =
     (let ts = pd_Timestamp local_dt
      in case asof (map fst df) ts of
           None \<Rightarrow> None
         | Some idx \<Rightarrow> if 900 < ts - idx then None else the_row (loc df idx))"

definition get_option_indicators ::
  "folder \<Rightarrow> string \<Rightarrow> datetime \<Rightarrow> selling \<Rightarrow> ind_candle option \<times> selling" where
  "get_option_indicators files scrip_code local_dt s =
     (if position_active s \<and> scrip_code = active_scrip s \<and> active_option_df s \<noteq> None then
        (case active_option_df s of
           None \<Rightarrow> (None, s)
         | Some df \<Rightarrow> (row_at df local_dt, s))
      else
        (case files scrip_code of
           None \<Rightarrow> (None, s)
         | Some raw \<Rightarrow>
             (let df = add_indicators (sort_index raw);
                  s' = (if position_active s \<and> scrip_code = active_scrip s
                        then s\<lparr>active_option_df := Some df\<rparr> else s)
              in (row_at df local_dt, s'))))"

definition sell_log_trade_step ::
  "datetime \<Rightarrow> string \<Rightarrow> real \<Rightarrow> real \<Rightarrow> string \<Rightarrow> selling \<Rightarrow> selling" where
  "sell_log_trade_step dt event price pnl_val info s =
     s\<lparr>current_trade_ledger := current_trade_ledger s @
         [\<lparr>Date = date_of dt, Time = time_of dt, Event = event, Ticker = active_scrip s,
           Price = py_round2 price, PnL_INR = py_round2 pnl_val, Info = info\<rparr>]\<rparr>"

definition open_trade :: "leg \<Rightarrow> string \<Rightarrow> real \<Rightarrow> datetime \<Rightarrow> selling \<Rightarrow> selling" where
  "open_trade type' scrip price dt s =
     sell_log_trade_step dt ''SELL_ENTRY'' price 0
       (''Signal '' @ (if type' = CE then ''CE'' else ''PE'') @ '' | Short'')
       (s\<lparr>total_trades_count := total_trades_count s + 1, position_active := True,
          pos_type := Some type', entry_price := price, active_scrip := scrip,
          entry_time := Some dt, active_option_df := None, current_trade_ledger := []\<rparr>)"

definition sell_close_trade :: "string \<Rightarrow> datetime \<Rightarrow> real \<Rightarrow> selling \<Rightarrow> error + selling" where
  "sell_close_trade reason dt price s0 =
     (let pnl = (entry_price s0 - price) * qty;
          s = sell_log_trade_step dt ''BUY_EXIT'' price pnl reason s0
      in case entry_time s of
           None \<Rightarrow> Inl AttributeError
         | Some et \<Rightarrow>
             Inr (s\<lparr>summary_log := summary_log s @
                      [\<lparr>TradeID = total_trades_count s, ScripName = active_scrip s,
                        BuyDateTime = dt, SellDateTime = et,
                        BuyPrice = py_round2 price, SellPrice = py_round2 (entry_price s),
                        PnL = py_round2 pnl, ExitReason = reason,
                        Type = pos_type s, Side = ''SHORT''\<rparr>],
                    trade_files := trade_files s @
                      [((total_trades_count s, active_scrip s, date_of et),
                        current_trade_ledger s)],
                    position_active := False, pos_type := None, active_scrip := [],
                    active_option_df := None\<rparr>))"

definition sell_hold :: "folder \<Rightarrow> bar \<Rightarrow> bool \<Rightarrow> selling \<Rightarrow> error + selling" where
  \<comment> \<open>the \<open>if self.position_active:\<close> branch of \<open>next\<close>\<close>
  "sell_hold files spot_row is_rollover_period s0 =
     (let dt_local = time spot_row
      in case get_option_indicators files (active_scrip s0) dt_local s0 of
           (None, s) \<Rightarrow> Inr s
         | (Some row, s) \<Rightarrow>
             (let curr_price = close row;
                  pnl_val = (entry_price s - curr_price) * qty;
                  s1 = sell_log_trade_step dt_local ''HOLD'' curr_price pnl_val ''Monitoring'' s
              in if is_rollover_period then
                   sell_close_trade ''ROLLOVER_EXIT'' dt_local curr_price s1
                 else if EMA50_High row < EMA19_Close row then
                   sell_close_trade ''EMA_REVERSAL_SL'' dt_local curr_price s1
                 else if curr_price < TARGET_LTP then
                   sell_close_trade ''TARGET_LTP_30'' dt_local curr_price s1
                 else Inr s1))"

definition sell_check_ce :: "folder \<Rightarrow> bar \<Rightarrow> selling \<Rightarrow> selling" where
  \<comment> \<open>the \<open>Check CE (Sell Call)\<close> block, reached when the put did not open\<close>
  "sell_check_ce files spot_row s =
     (let dt_local = time spot_row; scrip_ce = icici_scrip_code_ce spot_row
      in case get_option_indicators files scrip_ce dt_local s of
           (None, s1) \<Rightarrow> s1
         | (Some row_ce, s1) \<Rightarrow>
             if EMA19_Close row_ce < EMA50_Low row_ce
             then open_trade CE scrip_ce (close row_ce) dt_local s1 else s1)"

definition sell_entry :: "folder \<Rightarrow> bar \<Rightarrow> bool \<Rightarrow> selling \<Rightarrow> selling" where
  \<comment> \<open>the \<open>elif not self.position_active:\<close> branch of \<open>next\<close>\<close>
  "sell_entry files spot_row is_rollover_period s =
     (let dt_local = time spot_row; current_time = time_of dt_local
      in if is_rollover_period then s
         else if \<not> (ENTRY_START \<le> current_time \<and> current_time \<le> ENTRY_END) then s
         else
           (let scrip_pe = icici_scrip_code_pe spot_row
            in case get_option_indicators files scrip_pe dt_local s of
                 (None, s1) \<Rightarrow> sell_check_ce files spot_row s1
               | (Some row_pe, s1) \<Rightarrow>
                   if EMA19_Close row_pe < EMA50_Low row_pe
                   then open_trade PE scrip_pe (close row_pe) dt_local s1
                   else sell_check_ce files spot_row s1))"

definition sell_next :: "folder \<Rightarrow> bar \<Rightarrow> selling \<Rightarrow> error + selling" where
  "sell_next files spot_row s =
     (case mk_date (expiry_year spot_row) (expiry_month spot_row) (expiry_day spot_row) of
        Inl e \<Rightarrow> Inl e
      | Inr expiry_date \<Rightarrow>
          (let days_to_expiry = days_between expiry_date (date_of (time spot_row));
               is_rollover_period = (days_to_expiry \<le> ROLLOVER_DAYS)
           in if position_active s then sell_hold files spot_row is_rollover_period s
              else Inr (sell_entry files spot_row is_rollover_period s)))"

fun sell_run :: "folder \<Rightarrow> bar list \<Rightarrow> selling \<Rightarrow> error + selling" where
  "sell_run files [] s = Inr s"
| "sell_run files (row # rows) s =
     (case sell_next files row s of Inl e \<Rightarrow> Inl e | Inr s' \<Rightarrow> sell_run files rows s')"

section \<open>Specification vocabulary\<close>

text \<open>
  Names used to state the properties: the latest sample at or before a query in the
  specification's words, the raw candle under a loaded row, the invariants of reachable
  states, and the pieces of one bar: the contract of a leg, the lookup and the stop
  update of a held bar, the forced-exit and rollover conditions.
\<close>

definition candle_of :: "ind_candle \<Rightarrow> candle" where
  \<comment> \<open>the raw columns of a loaded row, without the indicator columns\<close>
  "candle_of r = \<lparr>high = high r, low = low r, close = close r\<rparr>"


definition opened_closed :: "('r, 'lg, 'sm, 'z) strategy_scheme \<Rightarrow> bool" where
  \<comment> \<open>trades opened so far against trades closed so far\<close>
  "opened_closed s \<longleftrightarrow>
     total_trades_count s = length (summary_log s) + (if position_active s then 1 else 0)"

definition has_entry_time :: "('r, 'lg, 'sm, 'z) strategy_scheme \<Rightarrow> bool" where
  \<comment> \<open>an open position has its entry time recorded\<close>
  "has_entry_time s \<longleftrightarrow> (position_active s \<longrightarrow> entry_time s \<noteq> None)"

definition leg_scrip :: "leg \<Rightarrow> 'a bar_scheme \<Rightarrow> string" where
  \<comment> \<open>the contract \<open>entry_setup\<close> picks for a leg\<close>
  "leg_scrip ty row = (if ty = CE then icici_scrip_code_ce row else icici_scrip_code_pe row)"

definition after_tsl :: "datetime \<Rightarrow> real \<Rightarrow> buying \<Rightarrow> buying" where
  \<comment> \<open>a held bar of \<open>next\<close> at resolved price \<open>c\<close>: the HOLD record, then the two TSL blocks\<close>
  "after_tsl dt c s =
     (let pnl_val = (c - entry_price s) * qty
      in tsl_step dt c pnl_val
           (tsl_trigger dt c pnl_val
              (buy_log_trade_step dt ''HOLD'' c pnl_val (current_sl_price s) ''Monitoring'' s)))"

definition forced_exit :: "buy_bar \<Rightarrow> bool" where
  \<comment> \<open>the condition of the forced expiry exit of \<open>next\<close>\<close>
  "forced_exit row \<longleftrightarrow>
     is_expiry_today (date_of (time row)) row \<and> dtime 15 15 \<le> time_of (time row)"

definition expiry_exit_price :: "folder \<Rightarrow> buy_bar \<Rightarrow> buying \<Rightarrow> real" where
  \<comment> \<open>the price of the forced expiry exit: the resolved price, else the entry price\<close>
  "expiry_exit_price files row s =
     (case fst (get_option_price files (active_scrip s) (time row)
                  (new_day_reset (date_of (time row)) s)) of
        None \<Rightarrow> entry_price s
      | Some v \<Rightarrow> v)"

definition rollover_period :: "bar \<Rightarrow> bool" where
  \<comment> \<open>\<open>is_rollover_period\<close> of the selling \<open>next\<close>, for a bar whose expiry fields are a calendar date\<close>
  "rollover_period row \<longleftrightarrow>
     (case mk_date (expiry_year row) (expiry_month row) (expiry_day row) of
        Inl e \<Rightarrow> False
      | Inr expiry_date \<Rightarrow> days_between expiry_date (date_of (time row)) \<le> 4)"




definition held_lookup :: "folder \<Rightarrow> buy_bar \<Rightarrow> buying \<Rightarrow> real option \<times> buying" where
  \<comment> \<open>the price lookup of a held bar, after the new-day reset\<close>
  "held_lookup files row s =
     get_option_price files (active_scrip s) (time row) (new_day_reset (date_of (time row)) s)"

definition ema_reversal :: "buy_bar \<Rightarrow> buying \<Rightarrow> bool" where
  \<comment> \<open>the two EMA reversal tests of \<open>next\<close>\<close>
  "ema_reversal row s \<longleftrightarrow>
     (pos_type s = Some CE \<and> ema5 row < ema20_low row) \<or>
     (pos_type s = Some PE \<and> ema20_high row < ema5 row)"

definition buy_exit :: "folder \<Rightarrow> buy_bar \<Rightarrow> buying \<Rightarrow> (string \<times> real) option" where
  \<comment> \<open>the exit taken by a held bar of the buying \<open>next\<close>, with the price it hands to
      \<open>close_trade\<close>; \<open>None\<close> when the bar ends with the position still open\<close>
  "buy_exit files row s =
     (if forced_exit row then Some (''EXPIRY_FORCE'', expiry_exit_price files row s)
      else case fst (held_lookup files row s) of
             None \<Rightarrow> None
           | Some c \<Rightarrow>
               (let u = after_tsl (time row) c (snd (held_lookup files row s))
                in if sl_mode u \<noteq> NONE \<and> c \<le> current_sl_price u
                   then Some (''TSL_HIT'', current_sl_price u)
                   else if ema_reversal row s then Some (''EMA_REVERSAL'', c)
                   else None))"

definition sell_exit :: "folder \<Rightarrow> bar \<Rightarrow> selling \<Rightarrow> (string \<times> real) option" where
  \<comment> \<open>the exit taken by a held bar of the selling \<open>next\<close>, with the price it hands to
      \<open>close_trade\<close>; \<open>None\<close> when the bar ends with the position still open\<close>
  "sell_exit files row s =
     (case fst (get_option_indicators files (active_scrip s) (time row) s) of
        None \<Rightarrow> None
      | Some r \<Rightarrow>
          if rollover_period row then Some (''ROLLOVER_EXIT'', close r)
          else if EMA50_High r < EMA19_Close r then Some (''EMA_REVERSAL_SL'', close r)
          else if close r < TARGET_LTP then Some (''TARGET_LTP_30'', close r)
          else None)"

section \<open>Example data\<close>

definition ex_date :: date where "ex_date = \<lparr>year = 2024, month = 1, day = 1\<rparr>"

definition ex_at :: "int \<Rightarrow> int \<Rightarrow> datetime" where
  "ex_at h m = \<lparr>date_of = ex_date, time_of = dtime h m\<rparr>"

definition ex_candle :: "real \<Rightarrow> candle" where
  "ex_candle p = \<lparr>high = p + 1, low = p - 1, close = p\<rparr>"





definition ex_on :: "int \<Rightarrow> int \<Rightarrow> int \<Rightarrow> datetime" where
  "ex_on d h m = \<lparr>date_of = \<lparr>year = 2024, month = 1, day = d\<rparr>, time_of = dtime h m\<rparr>"

definition ex_ce :: "candle frame" where
  "ex_ce = [(pd_Timestamp (ex_on 1 9 20), ex_candle 100),
            (pd_Timestamp (ex_on 1 9 25), ex_candle 126),
            (pd_Timestamp (ex_on 1 9 30), ex_candle 130),
            (pd_Timestamp (ex_on 1 9 35), ex_candle 104)]"

definition ex_pe :: "candle frame" where
  "ex_pe = [(pd_Timestamp (ex_on 1 14 0), ex_candle 100),
            (pd_Timestamp (ex_on 1 14 5), ex_candle 80),
            (pd_Timestamp (ex_on 1 14 10), ex_candle 70),
            (pd_Timestamp (ex_on 2 14 0), ex_candle 65)]"

definition ex_folder :: folder where
  "ex_folder = (\<lambda>k. if k = ''CE1'' then Some ex_ce
                     else if k = ''PE1'' then Some ex_pe
                     else if k = ''ZERO'' then Some [(pd_Timestamp (ex_on 1 9 20), ex_candle 0)]
                     else None)"

definition ex_buy_bar :: "int \<Rightarrow> int \<Rightarrow> int \<Rightarrow> real \<Rightarrow> buy_bar" where
  "ex_buy_bar h m ed e5 =
     \<lparr>time = ex_on 1 h m, expiry_day = ed, expiry_month = 1, expiry_year = 2024,
      icici_scrip_code_ce = ''CE1'', icici_scrip_code_pe = ''PE1'',
      ema5 = e5, ema20_high = 20, ema20_low = 10,
      ema5_prev = 15, ema20_high_prev = 20, ema20_low_prev = 10\<rparr>"

definition ex_open :: buying where
  "ex_open =
     \<lparr>total_trades_count = 1, position_active = True, pos_type = Some CE, entry_price = 100,
      entry_time = Some (ex_on 1 9 20), active_scrip = ''CE1'', active_option_df = Some ex_ce,
      summary_log = [],
      current_trade_ledger =
        [\<lparr>Date = \<lparr>year = 2024, month = 1, day = 1\<rparr>, Time = dtime 9 20, Event = ''ENTRY'',
          Ticker = ''CE1'', Price = 100, PnL_INR = 0, Info = ''Signal CE'', SL_Price = 0,
          SL_Mode = NONE\<rparr>],
      trade_files = [],
      current_date = Some \<lparr>year = 2024, month = 1, day = 1\<rparr>, trades_today = 1,
      sl_mode = NONE, current_sl_price = 0, max_pnl_reached = 0\<rparr>"

definition ex_bar :: "int \<Rightarrow> int \<Rightarrow> int \<Rightarrow> int \<Rightarrow> bar" where
  "ex_bar d h m ed =
     \<lparr>time = ex_on d h m, expiry_day = ed, expiry_month = 1, expiry_year = 2024,
      icici_scrip_code_ce = ''CE1'', icici_scrip_code_pe = ''PE1''\<rparr>"

definition ex_pe_ind :: "ind_candle frame" where
  "ex_pe_ind =
     [(1704117600, \<lparr>high = 101, low = 99, close = 100,
                    EMA19_Close = 100, EMA50_High = 101, EMA50_Low = 99\<rparr>),
      (1704117900, \<lparr>high = 81, low = 79, close = 80,
                    EMA19_Close = 98, EMA50_High = 5111 / 51, EMA50_Low = 5009 / 51\<rparr>),
      (1704118200, \<lparr>high = 71, low = 69, close = 70,
                    EMA19_Close = 476 / 5, EMA50_High = 257681 / 2601, EMA50_Low = 252479 / 2601\<rparr>),
      (1704204000, \<lparr>high = 66, low = 64, close = 65,
                    EMA19_Close = 4609 / 50, EMA50_High = 12969701 / 132651,
                    EMA50_Low = 12704399 / 132651\<rparr>)]"

definition ex_short :: selling where
  "ex_short =
     \<lparr>total_trades_count = 1, position_active = True, pos_type = Some PE, entry_price = 80,
      entry_time = Some (ex_on 1 14 5), active_scrip = ''PE1'', active_option_df = None,
      summary_log = [],
      current_trade_ledger =
        [\<lparr>Date = \<lparr>year = 2024, month = 1, day = 1\<rparr>, Time = dtime 14 5,
          Event = ''SELL_ENTRY'', Ticker = ''PE1'', Price = 80, PnL_INR = 0,
          Info = ''Signal PE | Short''\<rparr>],
      trade_files = []\<rparr>"

definition ex_short_held :: selling where
  "ex_short_held =
     ex_short\<lparr>active_option_df := Some ex_pe_ind,
       current_trade_ledger := current_trade_ledger ex_short @
        [\<lparr>Date = \<lparr>year = 2024, month = 1, day = 1\<rparr>, Time = dtime 14 10,
          Event = ''HOLD'', Ticker = ''PE1'', Price = 70, PnL_INR = 1200,
          Info = ''Monitoring''\<rparr>]\<rparr>"

definition ex_hold_row :: "int \<Rightarrow> real \<Rightarrow> real \<Rightarrow> real \<Rightarrow> stop_mode \<Rightarrow> buy_ledger_row" where
  "ex_hold_row m p v sl md =
     \<lparr>Date = \<lparr>year = 2024, month = 1, day = 1\<rparr>, Time = dtime 9 m, Event = ''HOLD'',
      Ticker = ''CE1'', Price = p, PnL_INR = v, Info = ''Monitoring'', SL_Price = sl,
      SL_Mode = md\<rparr>"

definition ex_tsl_row :: "int \<Rightarrow> real \<Rightarrow> real \<Rightarrow> real \<Rightarrow> stop_mode \<Rightarrow> string \<Rightarrow> buy_ledger_row" where
  "ex_tsl_row m p v sl md info =
     \<lparr>Date = \<lparr>year = 2024, month = 1, day = 1\<rparr>, Time = dtime 9 m, Event = ''TSL_UPDATE'',
      Ticker = ''CE1'', Price = p, PnL_INR = v, Info = info, SL_Price = sl, SL_Mode = md\<rparr>"

definition ex_cost :: buying where
  "ex_cost =
     ex_open\<lparr>sl_mode := COST, current_sl_price := 100, max_pnl_reached := 3120,
       current_trade_ledger := current_trade_ledger ex_open @
         [ex_hold_row 25 126 3120 0 NONE, ex_tsl_row 25 126 3120 100 COST ''Moved to Cost'']\<rparr>"

definition ex_trail :: buying where
  "ex_trail =
     ex_cost\<lparr>sl_mode := TRAILING, current_sl_price := 625 / 6, max_pnl_reached := 3600,
       current_trade_ledger := current_trade_ledger ex_cost @
         [ex_hold_row 30 130 3600 100 COST,
          ex_tsl_row 30 130 3600 (10417 / 100) TRAILING ''Stepped Up'']\<rparr>"

definition ex_exit_row :: "int \<Rightarrow> int \<Rightarrow> real \<Rightarrow> real \<Rightarrow> real \<Rightarrow> stop_mode \<Rightarrow> string \<Rightarrow> buy_ledger_row" where
  "ex_exit_row h m p v sl md reason =
     \<lparr>Date = \<lparr>year = 2024, month = 1, day = 1\<rparr>, Time = dtime h m, Event = ''EXIT'',
      Ticker = ''CE1'', Price = p, PnL_INR = v, Info = reason, SL_Price = sl, SL_Mode = md\<rparr>"

definition ex_hit :: buying where
  "ex_hit =
     ex_trail\<lparr>position_active := False, pos_type := None, active_scrip := [],
       current_trade_ledger := current_trade_ledger ex_trail @
         [ex_hold_row 35 104 480 (10417 / 100) TRAILING,
          ex_exit_row 9 35 (10417 / 100) 500 (10417 / 100) TRAILING ''TSL_HIT''],
       summary_log :=
         [\<lparr>TradeID = 1, ScripName = ''CE1'', BuyDateTime = ex_on 1 9 20,
           SellDateTime = ex_on 1 9 35, BuyPrice = 100, SellPrice = 10417 / 100, PnL = 500,
           ExitReason = ''TSL_HIT''\<rparr>],
       trade_files :=
         [((1, ''CE1'', \<lparr>year = 2024, month = 1, day = 1\<rparr>),
           current_trade_ledger ex_trail @
           [ex_hold_row 35 104 480 (10417 / 100) TRAILING,
            ex_exit_row 9 35 (10417 / 100) 500 (10417 / 100) TRAILING ''TSL_HIT''])]\<rparr>"

definition ex_no_files :: folder where
  "ex_no_files = (\<lambda>k. None)"

definition ex_short_day2 :: selling where
  "ex_short_day2 =
     ex_short_held\<lparr>current_trade_ledger := current_trade_ledger ex_short_held @
        [\<lparr>Date = \<lparr>year = 2024, month = 1, day = 2\<rparr>, Time = dtime 14 0,
          Event = ''HOLD'', Ticker = ''PE1'', Price = 65, PnL_INR = 1800,
          Info = ''Monitoring''\<rparr>]\<rparr>"

definition ex_expired :: buying where
  "ex_expired =
     ex_open\<lparr>position_active := False, pos_type := None, active_scrip := [],
       current_trade_ledger := current_trade_ledger ex_open @
         [ex_exit_row 15 15 104 480 0 NONE ''EXPIRY_FORCE''],
       summary_log :=
         [\<lparr>TradeID = 1, ScripName = ''CE1'', BuyDateTime = ex_on 1 9 20,
           SellDateTime = ex_on 1 15 15, BuyPrice = 100, SellPrice = 104, PnL = 480,
           ExitReason = ''EXPIRY_FORCE''\<rparr>],
       trade_files :=
         [((1, ''CE1'', \<lparr>year = 2024, month = 1, day = 1\<rparr>),
           current_trade_ledger ex_open @
           [ex_exit_row 15 15 104 480 0 NONE ''EXPIRY_FORCE''])]\<rparr>"

definition ex_short_closed :: selling where
  "ex_short_closed =
     ex_short_held\<lparr>position_active := False, pos_type := None, active_scrip := [],
       active_option_df := None,
       current_trade_ledger := current_trade_ledger ex_short_held @
         [\<lparr>Date = \<lparr>year = 2024, month = 1, day = 1\<rparr>, Time = dtime 14 10, Event = ''HOLD'',
           Ticker = ''PE1'', Price = 70, PnL_INR = 1200, Info = ''Monitoring''\<rparr>,
          \<lparr>Date = \<lparr>year = 2024, month = 1, day = 1\<rparr>, Time = dtime 14 10, Event = ''BUY_EXIT'',
           Ticker = ''PE1'', Price = 70, PnL_INR = 1200, Info = ''ROLLOVER_EXIT''\<rparr>],
       summary_log :=
         [\<lparr>TradeID = 1, ScripName = ''PE1'', BuyDateTime = ex_on 1 14 10,
           SellDateTime = ex_on 1 14 5, BuyPrice = 70, SellPrice = 80, PnL = 1200,
           ExitReason = ''ROLLOVER_EXIT'', Type = Some PE, Side = ''SHORT''\<rparr>],
       trade_files :=
         [((1, ''PE1'', \<lparr>year = 2024, month = 1, day = 1\<rparr>),
           current_trade_ledger ex_short_held @
           [\<lparr>Date = \<lparr>year = 2024, month = 1, day = 1\<rparr>, Time = dtime 14 10, Event = ''HOLD'',
             Ticker = ''PE1'', Price = 70, PnL_INR = 1200, Info = ''Monitoring''\<rparr>,
            \<lparr>Date = \<lparr>year = 2024, month = 1, day = 1\<rparr>, Time = dtime 14 10,
             Event = ''BUY_EXIT'', Ticker = ''PE1'', Price = 70, PnL_INR = 1200,
             Info = ''ROLLOVER_EXIT''\<rparr>])]\<rparr>"

section \<open>Properties\<close>

subsection \<open>Lookups and indicator columns\<close>

lemma the_row_loc: "the_row (loc df idx) = map_of df idx"
  by (induction df) (auto simp: the_row_def loc_def split: list.splits)


lemma length_ewm_from: "length (ewm_from a p xs) = length xs"
  by (induction xs arbitrary: p) (auto simp: Let_def)

lemma length_ewm_mean: "length (ewm_mean n xs) = length xs"
  by (cases xs) (auto simp: ewm_mean_def length_ewm_from)






lemma strip_add_indicators: "map (\<lambda>(t, r). (t, candle_of r)) (add_indicators df) = df"
proof -
  let ?E = "zip (ewm_mean EMA_FAST (map (close \<circ> snd) df))
                 (zip (ewm_mean EMA_SLOW (map (high \<circ> snd) df))
                      (ewm_mean EMA_SLOW (map (low \<circ> snd) df)))"
  have len: "length ?E = length df" by (simp add: length_ewm_mean)
  have "map (\<lambda>(t, r). (t, candle_of r)) (add_indicators df) = map fst (zip df ?E)"
    unfolding add_indicators_def by (auto simp: candle_of_def)
  also have "\<dots> = df" using len by (simp add: map_fst_zip)
  finally show ?thesis .
qed


lemma loc_add_indicators:
  "map_option candle_of (the_row (loc (add_indicators df) t)) = the_row (loc df t)"
proof -
  have "map_of (map (\<lambda>(t, r). (t, candle_of r)) (add_indicators df)) t
        = map_option candle_of (map_of (add_indicators df) t)"
    by (simp add: map_of_map)
  then show ?thesis by (simp add: the_row_loc strip_add_indicators)
qed













lemma ex_ts [simp]:
  "pd_Timestamp (ex_at h m) = 1704067200 + h * 3600 + m * 60"
  by (simp add: pd_Timestamp_def ex_at_def ex_date_def toordinal_def days_before_year_def
      days_before_month_def is_leap_def dtime_def)









subsection \<open>Field effects of the buying helpers\<close>

lemma gop_sel [simp]:
  "total_trades_count (snd (get_option_price files k q s)) = total_trades_count s"
  "position_active (snd (get_option_price files k q s)) = position_active s"
  "pos_type (snd (get_option_price files k q s)) = pos_type s"
  "entry_price (snd (get_option_price files k q s)) = entry_price s"
  "entry_time (snd (get_option_price files k q s)) = entry_time s"
  "summary_log (snd (get_option_price files k q s)) = summary_log s"
  "current_trade_ledger (snd (get_option_price files k q s)) = current_trade_ledger s"
  "trade_files (snd (get_option_price files k q s)) = trade_files s"
  "current_date (snd (get_option_price files k q s)) = current_date s"
  "trades_today (snd (get_option_price files k q s)) = trades_today s"
  "sl_mode (snd (get_option_price files k q s)) = sl_mode s"
  "current_sl_price (snd (get_option_price files k q s)) = current_sl_price s"
  "max_pnl_reached (snd (get_option_price files k q s)) = max_pnl_reached s"
  by (simp_all add: get_option_price_def Let_def split: option.split)

lemma gop_scrip [simp]:
  "active_scrip (snd (get_option_price files (active_scrip s) q s)) = active_scrip s"
  by (simp add: get_option_price_def Let_def split: option.split)

lemma log_sel [simp]:
  "total_trades_count (buy_log_trade_step dt ev p v sl info s) = total_trades_count s"
  "position_active (buy_log_trade_step dt ev p v sl info s) = position_active s"
  "pos_type (buy_log_trade_step dt ev p v sl info s) = pos_type s"
  "entry_price (buy_log_trade_step dt ev p v sl info s) = entry_price s"
  "entry_time (buy_log_trade_step dt ev p v sl info s) = entry_time s"
  "active_scrip (buy_log_trade_step dt ev p v sl info s) = active_scrip s"
  "active_option_df (buy_log_trade_step dt ev p v sl info s) = active_option_df s"
  "summary_log (buy_log_trade_step dt ev p v sl info s) = summary_log s"
  "trade_files (buy_log_trade_step dt ev p v sl info s) = trade_files s"
  "current_date (buy_log_trade_step dt ev p v sl info s) = current_date s"
  "trades_today (buy_log_trade_step dt ev p v sl info s) = trades_today s"
  "sl_mode (buy_log_trade_step dt ev p v sl info s) = sl_mode s"
  "current_sl_price (buy_log_trade_step dt ev p v sl info s) = current_sl_price s"
  "max_pnl_reached (buy_log_trade_step dt ev p v sl info s) = max_pnl_reached s"
  by (simp_all add: buy_log_trade_step_def)

lemma trig_sel [simp]:
  "total_trades_count (tsl_trigger dt p v s) = total_trades_count s"
  "position_active (tsl_trigger dt p v s) = position_active s"
  "pos_type (tsl_trigger dt p v s) = pos_type s"
  "entry_price (tsl_trigger dt p v s) = entry_price s"
  "entry_time (tsl_trigger dt p v s) = entry_time s"
  "active_scrip (tsl_trigger dt p v s) = active_scrip s"
  "active_option_df (tsl_trigger dt p v s) = active_option_df s"
  "summary_log (tsl_trigger dt p v s) = summary_log s"
  "trade_files (tsl_trigger dt p v s) = trade_files s"
  "current_date (tsl_trigger dt p v s) = current_date s"
  "trades_today (tsl_trigger dt p v s) = trades_today s"
  by (simp_all add: tsl_trigger_def Let_def)

lemma step_sel [simp]:
  "total_trades_count (tsl_step dt p v s) = total_trades_count s"
  "position_active (tsl_step dt p v s) = position_active s"
  "pos_type (tsl_step dt p v s) = pos_type s"
  "entry_price (tsl_step dt p v s) = entry_price s"
  "entry_time (tsl_step dt p v s) = entry_time s"
  "active_scrip (tsl_step dt p v s) = active_scrip s"
  "active_option_df (tsl_step dt p v s) = active_option_df s"
  "summary_log (tsl_step dt p v s) = summary_log s"
  "trade_files (tsl_step dt p v s) = trade_files s"
  "current_date (tsl_step dt p v s) = current_date s"
  "trades_today (tsl_step dt p v s) = trades_today s"
  by (simp_all add: tsl_step_def Let_def)

lemma reset_sel [simp]:
  "total_trades_count (new_day_reset d s) = total_trades_count s"
  "position_active (new_day_reset d s) = position_active s"
  "pos_type (new_day_reset d s) = pos_type s"
  "entry_price (new_day_reset d s) = entry_price s"
  "entry_time (new_day_reset d s) = entry_time s"
  "active_scrip (new_day_reset d s) = active_scrip s"
  "summary_log (new_day_reset d s) = summary_log s"
  "current_trade_ledger (new_day_reset d s) = current_trade_ledger s"
  "trade_files (new_day_reset d s) = trade_files s"
  "sl_mode (new_day_reset d s) = sl_mode s"
  "current_sl_price (new_day_reset d s) = current_sl_price s"
  "max_pnl_reached (new_day_reset d s) = max_pnl_reached s"
  by (simp_all add: new_day_reset_def)

lemma buy_close_trade_None:
  "entry_time s = None \<Longrightarrow> buy_close_trade reason dt price s = Inl AttributeError"
  by (simp add: buy_close_trade_def Let_def)

lemma buy_close_trade_Some:
  "entry_time s = Some et \<Longrightarrow>
   buy_close_trade reason dt price s =
     Inr (s\<lparr>current_trade_ledger := current_trade_ledger s @
               [\<lparr>Date = date_of dt, Time = time_of dt, Event = ''EXIT'', Ticker = active_scrip s,
                 Price = py_round2 price, PnL_INR = py_round2 ((price - entry_price s) * qty),
                 Info = reason,
                 SL_Price = (if 0 < current_sl_price s then py_round2 (current_sl_price s) else 0),
                 SL_Mode = sl_mode s\<rparr>],
            summary_log := summary_log s @
               [\<lparr>TradeID = total_trades_count s, ScripName = active_scrip s,
                 BuyDateTime = et, SellDateTime = dt,
                 BuyPrice = py_round2 (entry_price s), SellPrice = py_round2 price,
                 PnL = py_round2 ((price - entry_price s) * qty), ExitReason = reason\<rparr>],
            trade_files := trade_files s @
               [((total_trades_count s, active_scrip s, date_of et),
                 current_trade_ledger s @
                 [\<lparr>Date = date_of dt, Time = time_of dt, Event = ''EXIT'', Ticker = active_scrip s,
                   Price = py_round2 price, PnL_INR = py_round2 ((price - entry_price s) * qty),
                   Info = reason,
                   SL_Price = (if 0 < current_sl_price s then py_round2 (current_sl_price s) else 0),
                   SL_Mode = sl_mode s\<rparr>])],
            position_active := False, pos_type := None, active_scrip := []\<rparr>)"
  by (simp add: buy_close_trade_def buy_log_trade_step_def Let_def)

lemma entry_setup_unfold:
  "entry_setup files ty row s =
     (let g = get_option_price files (leg_scrip ty row) (time row) s
      in case fst g of
           None \<Rightarrow> snd g
         | Some p \<Rightarrow>
             if p = 0 then snd g
             else buy_log_trade_step (time row) ''ENTRY'' p 0 0
                    (''Signal '' @ (if ty = CE then ''CE'' else ''PE''))
                    ((snd g)\<lparr>total_trades_count := total_trades_count (snd g) + 1,
                       position_active := True, pos_type := Some ty, entry_price := p,
                       active_scrip := leg_scrip ty row, entry_time := Some (time row),
                       trades_today := trades_today (snd g) + 1,
                       sl_mode := NONE, current_sl_price := 0, max_pnl_reached := 0,
                       current_trade_ledger := []\<rparr>))"
  by (cases ty) (simp_all add: entry_setup_def leg_scrip_def Let_def case_prod_unfold split: option.split)

lemma entry_setup_opened_closed:
  "\<not> position_active s \<Longrightarrow> opened_closed s \<Longrightarrow> opened_closed (entry_setup files ty row s)"
  by (simp add: entry_setup_unfold opened_closed_def Let_def split: option.split)

lemma entry_setup_has_entry_time:
  "\<not> position_active s \<Longrightarrow> has_entry_time (entry_setup files ty row s)"
  by (simp add: entry_setup_unfold has_entry_time_def Let_def split: option.split)

lemma buy_entry_cases:
  "buy_entry files row s = s \<or> (\<exists>ty. buy_entry files row s = entry_setup files ty row s)"
  by (auto simp: buy_entry_def Let_def)

subsection \<open>One held bar of the buying strategy\<close>

lemma after_tsl_sel [simp]:
  "total_trades_count (after_tsl dt c s) = total_trades_count s"
  "position_active (after_tsl dt c s) = position_active s"
  "pos_type (after_tsl dt c s) = pos_type s"
  "entry_price (after_tsl dt c s) = entry_price s"
  "entry_time (after_tsl dt c s) = entry_time s"
  "active_scrip (after_tsl dt c s) = active_scrip s"
  "active_option_df (after_tsl dt c s) = active_option_df s"
  "summary_log (after_tsl dt c s) = summary_log s"
  "trade_files (after_tsl dt c s) = trade_files s"
  "current_date (after_tsl dt c s) = current_date s"
  "trades_today (after_tsl dt c s) = trades_today s"
  by (simp_all add: after_tsl_def Let_def)

lemma buy_hold_unfold:
  "buy_hold files row s =
     (let dt = time row; g = get_option_price files (active_scrip s) dt s
      in if is_expiry_today (date_of dt) row \<and> dtime 15 15 \<le> time_of dt then
           buy_close_trade ''EXPIRY_FORCE'' dt
             (case fst g of None \<Rightarrow> entry_price s | Some v \<Rightarrow> v) (snd g)
         else case fst g of
           None \<Rightarrow> Inr (snd g)
         | Some c \<Rightarrow>
             if sl_mode (after_tsl dt c (snd g)) \<noteq> NONE \<and> c \<le> current_sl_price (after_tsl dt c (snd g))
             then buy_close_trade ''TSL_HIT'' dt (current_sl_price (after_tsl dt c (snd g)))
                    (after_tsl dt c (snd g))
             else if (pos_type s = Some CE \<and> ema5 row < ema20_low row) \<or>
                     (pos_type s = Some PE \<and> ema20_high row < ema5 row)
             then buy_close_trade ''EMA_REVERSAL'' dt c (after_tsl dt c (snd g))
             else Inr (after_tsl dt c (snd g)))"
proof (cases "get_option_price files (active_scrip s) (time row) s")
  case (Pair p s1)
  then have fs: "fst (get_option_price files (active_scrip s) (time row) s) = p"
    and sn: "snd (get_option_price files (active_scrip s) (time row) s) = s1" by simp_all
  have e: "entry_price s1 = entry_price s" and t: "pos_type s1 = pos_type s"
    using sn gop_sel(3,4)[of files "active_scrip s" "time row" s] by simp_all
  show ?thesis
    unfolding buy_hold_def Let_def fs sn Pair
    by (cases p) (simp_all add: after_tsl_def Let_def e t)
qed

lemma buy_hold_forced:
  assumes "forced_exit row"
  shows "buy_hold files row s =
           buy_close_trade ''EXPIRY_FORCE'' (time row)
             (case fst (get_option_price files (active_scrip s) (time row) s) of
                None \<Rightarrow> entry_price s | Some v \<Rightarrow> v)
             (snd (get_option_price files (active_scrip s) (time row) s))"
  using assms unfolding buy_hold_unfold Let_def forced_exit_def by (simp only: simp_thms if_True)

lemma buy_hold_skip:
  assumes "\<not> forced_exit row" "fst (get_option_price files (active_scrip s) (time row) s) = None"
  shows "buy_hold files row s = Inr (snd (get_option_price files (active_scrip s) (time row) s))"
  using assms unfolding buy_hold_unfold Let_def forced_exit_def
  by (simp only: simp_thms if_False option.case)

lemma buy_hold_held:
  assumes "\<not> forced_exit row" "fst (get_option_price files (active_scrip s) (time row) s) = Some c"
  shows "buy_hold files row s =
          (let u = after_tsl (time row) c (snd (get_option_price files (active_scrip s) (time row) s))
           in if sl_mode u \<noteq> NONE \<and> c \<le> current_sl_price u
              then buy_close_trade ''TSL_HIT'' (time row) (current_sl_price u) u
              else if (pos_type s = Some CE \<and> ema5 row < ema20_low row) \<or>
                      (pos_type s = Some PE \<and> ema20_high row < ema5 row)
              then buy_close_trade ''EMA_REVERSAL'' (time row) c u
              else Inr u)"
  using assms unfolding buy_hold_unfold Let_def forced_exit_def
  by (simp only: simp_thms if_False option.case)

lemma buy_close_trade_shape:
  assumes "buy_close_trade r dt x u = Inr s'"
  shows "\<not> position_active s' \<and> total_trades_count s' = total_trades_count u \<and>
         length (summary_log s') = Suc (length (summary_log u))"
proof (cases "entry_time u")
  case None
  with assms show ?thesis by (simp add: buy_close_trade_None)
next
  case (Some et)
  from assms show ?thesis unfolding buy_close_trade_Some[OF Some] by auto
qed

lemma buy_hold_shape:
  assumes "buy_hold files row s = Inr s'"
  shows "\<exists>u. total_trades_count u = total_trades_count s \<and> position_active u = position_active s \<and>
             summary_log u = summary_log s \<and> entry_time u = entry_time s \<and>
             entry_price u = entry_price s \<and>
             (s' = u \<or> (\<exists>r x. buy_close_trade r (time row) x u = Inr s'))"
proof -
  let ?g = "get_option_price files (active_scrip s) (time row) s"
  have A: "total_trades_count (snd ?g) = total_trades_count s \<and> position_active (snd ?g) = position_active s \<and>
             summary_log (snd ?g) = summary_log s \<and> entry_time (snd ?g) = entry_time s \<and>
             entry_price (snd ?g) = entry_price s" by simp
  have B: "total_trades_count (after_tsl dt c (snd ?g)) = total_trades_count s \<and>
           position_active (after_tsl dt c (snd ?g)) = position_active s \<and>
           summary_log (after_tsl dt c (snd ?g)) = summary_log s \<and>
           entry_time (after_tsl dt c (snd ?g)) = entry_time s \<and>
           entry_price (after_tsl dt c (snd ?g)) = entry_price s" for dt c by simp
  show ?thesis
  proof (cases "forced_exit row")
    case True
    from assms buy_hold_forced[OF True, of files s]
    have "\<exists>x. buy_close_trade ''EXPIRY_FORCE'' (time row) x (snd ?g) = Inr s'" by auto
    with A show ?thesis by blast
  next
    case False
    show ?thesis
    proof (cases "fst ?g")
      case None
      from assms buy_hold_skip[OF False None] have "s' = snd ?g" by simp
      with A show ?thesis by blast
    next
      case (Some c)
      let ?u = "after_tsl (time row) c (snd ?g)"
      from assms buy_hold_held[OF False Some]
      have "s' = ?u \<or> (\<exists>r x. buy_close_trade r (time row) x ?u = Inr s')"
        unfolding Let_def by (metis sum.inject(2))
      with B[of "time row" c] show ?thesis by blast
    qed
  qed
qed

lemma buy_next_opened_closed:
  assumes "opened_closed s" "buy_next files row s = Inr s'"
  shows "opened_closed s'"
proof (cases "position_active s")
  case True
  with assms(2) have "buy_hold files row (new_day_reset (date_of (time row)) s) = Inr s'"
    by (simp add: buy_next_def Let_def)
  from buy_hold_shape[OF this] obtain u where
    u: "total_trades_count u = total_trades_count s" "position_active u = position_active s"
       "summary_log u = summary_log s"
       "s' = u \<or> (\<exists>r x. buy_close_trade r (time row) x u = Inr s')" by auto
  from u(4) show ?thesis
  proof
    assume "s' = u" with u assms(1) show ?thesis by (simp add: opened_closed_def)
  next
    assume "\<exists>r x. buy_close_trade r (time row) x u = Inr s'"
    then obtain r x where "buy_close_trade r (time row) x u = Inr s'" by blast
    from buy_close_trade_shape[OF this] u assms(1) True show ?thesis
      by (simp add: opened_closed_def)
  qed
next
  case False
  with assms(2) have s': "s' = buy_entry files row (new_day_reset (date_of (time row)) s)"
    by (simp add: buy_next_def Let_def)
  let ?s = "new_day_reset (date_of (time row)) s"
  have oc: "opened_closed ?s" and na: "\<not> position_active ?s"
    using assms(1) False by (simp_all add: opened_closed_def)
  from buy_entry_cases[of files row ?s] show ?thesis
    using oc entry_setup_opened_closed[OF na oc] s' by auto
qed

lemma buy_next_has_entry_time:
  assumes "has_entry_time s" "buy_next files row s = Inr s'"
  shows "has_entry_time s'"
proof (cases "position_active s")
  case True
  with assms(2) have "buy_hold files row (new_day_reset (date_of (time row)) s) = Inr s'"
    by (simp add: buy_next_def Let_def)
  from buy_hold_shape[OF this] obtain u where
    u: "position_active u = position_active s" "entry_time u = entry_time s"
       "s' = u \<or> (\<exists>r x. buy_close_trade r (time row) x u = Inr s')" by auto
  from u(3) show ?thesis
  proof
    assume "s' = u" with u assms(1) show ?thesis by (simp add: has_entry_time_def)
  next
    assume "\<exists>r x. buy_close_trade r (time row) x u = Inr s'"
    then obtain r x where "buy_close_trade r (time row) x u = Inr s'" by blast
    from buy_close_trade_shape[OF this] show ?thesis by (simp add: has_entry_time_def)
  qed
next
  case False
  with assms(2) have s': "s' = buy_entry files row (new_day_reset (date_of (time row)) s)"
    by (simp add: buy_next_def Let_def)
  let ?s = "new_day_reset (date_of (time row)) s"
  have na: "\<not> position_active ?s" using False by simp
  then have "has_entry_time ?s" by (simp add: has_entry_time_def)
  with buy_entry_cases[of files row ?s] show ?thesis
    using entry_setup_has_entry_time[OF na] s' by auto
qed

lemma buy_run_invariant:
  assumes "opened_closed s" "has_entry_time s" "buy_run files rows s = Inr s'"
  shows "opened_closed s' \<and> has_entry_time s'"
  using assms
proof (induction rows arbitrary: s)
  case Nil then show ?case by simp
next
  case (Cons row rows)
  from Cons.prems(3) obtain s1 where s1: "buy_next files row s = Inr s1" "buy_run files rows s1 = Inr s'"
    by (auto split: sum.splits)
  from buy_next_opened_closed[OF Cons.prems(1) s1(1)] buy_next_has_entry_time[OF Cons.prems(2) s1(1)]
  show ?case using Cons.IH s1(2) by blast
qed

subsection \<open>Field effects and outcomes of the selling strategy\<close>

lemma goi_sel [simp]:
  "total_trades_count (snd (get_option_indicators files k q s)) = total_trades_count s"
  "position_active (snd (get_option_indicators files k q s)) = position_active s"
  "pos_type (snd (get_option_indicators files k q s)) = pos_type s"
  "entry_price (snd (get_option_indicators files k q s)) = entry_price s"
  "entry_time (snd (get_option_indicators files k q s)) = entry_time s"
  "active_scrip (snd (get_option_indicators files k q s)) = active_scrip s"
  "summary_log (snd (get_option_indicators files k q s)) = summary_log s"
  "current_trade_ledger (snd (get_option_indicators files k q s)) = current_trade_ledger s"
  "trade_files (snd (get_option_indicators files k q s)) = trade_files s"
  by (simp_all add: get_option_indicators_def Let_def split: option.split)

lemma goi_flat [simp]:
  "\<not> position_active s \<Longrightarrow> snd (get_option_indicators files k q s) = s"
  by (simp add: get_option_indicators_def Let_def split: option.split)

lemma sell_log_sel [simp]:
  "total_trades_count (sell_log_trade_step dt ev p v info s) = total_trades_count s"
  "position_active (sell_log_trade_step dt ev p v info s) = position_active s"
  "pos_type (sell_log_trade_step dt ev p v info s) = pos_type s"
  "entry_price (sell_log_trade_step dt ev p v info s) = entry_price s"
  "entry_time (sell_log_trade_step dt ev p v info s) = entry_time s"
  "active_scrip (sell_log_trade_step dt ev p v info s) = active_scrip s"
  "active_option_df (sell_log_trade_step dt ev p v info s) = active_option_df s"
  "summary_log (sell_log_trade_step dt ev p v info s) = summary_log s"
  "trade_files (sell_log_trade_step dt ev p v info s) = trade_files s"
  by (simp_all add: sell_log_trade_step_def)

lemma open_trade_sel [simp]:
  "total_trades_count (open_trade ty k p dt s) = total_trades_count s + 1"
  "position_active (open_trade ty k p dt s)"
  "pos_type (open_trade ty k p dt s) = Some ty"
  "entry_price (open_trade ty k p dt s) = p"
  "entry_time (open_trade ty k p dt s) = Some dt"
  "active_scrip (open_trade ty k p dt s) = k"
  "active_option_df (open_trade ty k p dt s) = None"
  "summary_log (open_trade ty k p dt s) = summary_log s"
  "trade_files (open_trade ty k p dt s) = trade_files s"
  by (simp_all add: open_trade_def sell_log_trade_step_def)

lemma sell_close_trade_None:
  "entry_time s = None \<Longrightarrow> sell_close_trade reason dt price s = Inl AttributeError"
  by (simp add: sell_close_trade_def Let_def)

lemma sell_close_trade_Some:
  "entry_time s = Some et \<Longrightarrow>
   sell_close_trade reason dt price s =
     Inr (s\<lparr>current_trade_ledger := current_trade_ledger s @
               [\<lparr>Date = date_of dt, Time = time_of dt, Event = ''BUY_EXIT'',
                 Ticker = active_scrip s, Price = py_round2 price,
                 PnL_INR = py_round2 ((entry_price s - price) * qty), Info = reason\<rparr>],
            summary_log := summary_log s @
               [\<lparr>TradeID = total_trades_count s, ScripName = active_scrip s,
                 BuyDateTime = dt, SellDateTime = et,
                 BuyPrice = py_round2 price, SellPrice = py_round2 (entry_price s),
                 PnL = py_round2 ((entry_price s - price) * qty), ExitReason = reason,
                 Type = pos_type s, Side = ''SHORT''\<rparr>],
            trade_files := trade_files s @
               [((total_trades_count s, active_scrip s, date_of et),
                 current_trade_ledger s @
                 [\<lparr>Date = date_of dt, Time = time_of dt, Event = ''BUY_EXIT'',
                   Ticker = active_scrip s, Price = py_round2 price,
                   PnL_INR = py_round2 ((entry_price s - price) * qty), Info = reason\<rparr>])],
            position_active := False, pos_type := None, active_scrip := [],
            active_option_df := None\<rparr>)"
  by (simp add: sell_close_trade_def sell_log_trade_step_def Let_def)

lemma sell_close_trade_shape:
  assumes "sell_close_trade r dt x u = Inr s'"
  shows "\<not> position_active s' \<and> total_trades_count s' = total_trades_count u \<and>
         length (summary_log s') = Suc (length (summary_log u))"
proof (cases "entry_time u")
  case None
  with assms show ?thesis by (simp add: sell_close_trade_None)
next
  case (Some et)
  from assms show ?thesis unfolding sell_close_trade_Some[OF Some] by auto
qed

lemma sell_hold_unfold:
  "sell_hold files spot_row roll s =
     (let dt = time spot_row; g = get_option_indicators files (active_scrip s) dt s
      in case fst g of
           None \<Rightarrow> Inr (snd g)
         | Some row \<Rightarrow>
             (let s1 = sell_log_trade_step dt ''HOLD'' (close row)
                         ((entry_price s - close row) * qty) ''Monitoring'' (snd g)
              in if roll then sell_close_trade ''ROLLOVER_EXIT'' dt (close row) s1
                 else if EMA50_High row < EMA19_Close row
                 then sell_close_trade ''EMA_REVERSAL_SL'' dt (close row) s1
                 else if close row < TARGET_LTP
                 then sell_close_trade ''TARGET_LTP_30'' dt (close row) s1
                 else Inr s1))"
proof (cases "get_option_indicators files (active_scrip s) (time spot_row) s")
  case (Pair p s1)
  then have fs: "fst (get_option_indicators files (active_scrip s) (time spot_row) s) = p"
    and sn: "snd (get_option_indicators files (active_scrip s) (time spot_row) s) = s1" by simp_all
  have e: "entry_price s1 = entry_price s"
    using sn goi_sel(4)[of files "active_scrip s" "time spot_row" s] by simp
  show ?thesis
    unfolding sell_hold_def Let_def fs sn Pair
    by (cases p) (simp_all add: Let_def e)
qed

lemma sell_hold_skip:
  assumes "fst (get_option_indicators files (active_scrip s) (time spot_row) s) = None"
  shows "sell_hold files spot_row roll s =
           Inr (snd (get_option_indicators files (active_scrip s) (time spot_row) s))"
  using assms unfolding sell_hold_unfold Let_def by (simp only: option.case)

lemma sell_hold_held:
  assumes "fst (get_option_indicators files (active_scrip s) (time spot_row) s) = Some row"
  shows "sell_hold files spot_row roll s =
     (let s1 = sell_log_trade_step (time spot_row) ''HOLD'' (close row)
                 ((entry_price s - close row) * qty) ''Monitoring''
                 (snd (get_option_indicators files (active_scrip s) (time spot_row) s))
      in if roll then sell_close_trade ''ROLLOVER_EXIT'' (time spot_row) (close row) s1
         else if EMA50_High row < EMA19_Close row
         then sell_close_trade ''EMA_REVERSAL_SL'' (time spot_row) (close row) s1
         else if close row < TARGET_LTP
         then sell_close_trade ''TARGET_LTP_30'' (time spot_row) (close row) s1
         else Inr s1)"
  using assms unfolding sell_hold_unfold Let_def by (simp only: option.case)

lemma sell_hold_shape:
  assumes "sell_hold files spot_row roll s = Inr s'"
  shows "\<exists>u. total_trades_count u = total_trades_count s \<and> position_active u = position_active s \<and>
             summary_log u = summary_log s \<and> entry_time u = entry_time s \<and>
             entry_price u = entry_price s \<and>
             (s' = u \<or> (\<exists>r x. sell_close_trade r (time spot_row) x u = Inr s'))"
proof -
  let ?g = "get_option_indicators files (active_scrip s) (time spot_row) s"
  have A: "total_trades_count (snd ?g) = total_trades_count s \<and> position_active (snd ?g) = position_active s \<and>
             summary_log (snd ?g) = summary_log s \<and> entry_time (snd ?g) = entry_time s \<and>
             entry_price (snd ?g) = entry_price s" by simp
  show ?thesis
  proof (cases "fst ?g")
    case None
    from assms sell_hold_skip[OF None] have "s' = snd ?g" by simp
    with A show ?thesis by blast
  next
    case (Some row)
    let ?u = "sell_log_trade_step (time spot_row) ''HOLD'' (close row)
                 ((entry_price s - close row) * qty) ''Monitoring'' (snd ?g)"
    have B: "total_trades_count ?u = total_trades_count s \<and> position_active ?u = position_active s \<and>
             summary_log ?u = summary_log s \<and> entry_time ?u = entry_time s \<and>
             entry_price ?u = entry_price s" by simp
    from assms sell_hold_held[OF Some]
    have "s' = ?u \<or> (\<exists>r x. sell_close_trade r (time spot_row) x ?u = Inr s')"
      unfolding Let_def by (metis sum.inject(2))
    with B show ?thesis by blast
  qed
qed

lemma sell_check_ce_cases:
  assumes "\<not> position_active s"
  shows "sell_check_ce files spot_row s = s \<or>
         (\<exists>p. sell_check_ce files spot_row s =
                open_trade CE (icici_scrip_code_ce spot_row) p (time spot_row) s)"
proof (cases "get_option_indicators files (icici_scrip_code_ce spot_row) (time spot_row) s")
  case (Pair r s1)
  with goi_flat[OF assms, of files "icici_scrip_code_ce spot_row" "time spot_row"]
  have s1: "s1 = s" by simp
  show ?thesis unfolding sell_check_ce_def Let_def Pair s1
    by (cases r) auto
qed

lemma sell_entry_cases:
  assumes "\<not> position_active s"
  shows "sell_entry files spot_row roll s = s \<or>
         (\<exists>ty k p. sell_entry files spot_row roll s = open_trade ty k p (time spot_row) s)"
proof (cases "get_option_indicators files (icici_scrip_code_pe spot_row) (time spot_row) s")
  case (Pair r s1)
  with goi_flat[OF assms, of files "icici_scrip_code_pe spot_row" "time spot_row"]
  have s1: "s1 = s" by simp
  from sell_check_ce_cases[OF assms, of files spot_row]
  have ce: "sell_check_ce files spot_row s = s \<or>
         (\<exists>ty k p. sell_check_ce files spot_row s = open_trade ty k p (time spot_row) s)" by blast
  show ?thesis
  proof (cases "roll \<or> \<not> (ENTRY_START \<le> time_of (time spot_row) \<and> time_of (time spot_row) \<le> ENTRY_END)")
    case True
    then show ?thesis unfolding sell_entry_def Let_def by auto
  next
    case False
    then have "sell_entry files spot_row roll s =
       (case r of None \<Rightarrow> sell_check_ce files spot_row s
        | Some row_pe \<Rightarrow> if EMA19_Close row_pe < EMA50_Low row_pe
            then open_trade PE (icici_scrip_code_pe spot_row) (close row_pe) (time spot_row) s
            else sell_check_ce files spot_row s)"
      unfolding sell_entry_def Let_def Pair s1 by simp
    with ce show ?thesis by (cases r) auto
  qed
qed

lemma sell_next_cases:
  assumes "sell_next files spot_row s = Inr s'"
  obtains roll where "position_active s" "sell_hold files spot_row roll s = Inr s'"
  | roll where "\<not> position_active s" "s' = sell_entry files spot_row roll s"
  using assms unfolding sell_next_def Let_def
  by (auto split: sum.splits if_splits)

lemma sell_next_invariant:
  assumes "opened_closed s" "has_entry_time s" "sell_next files spot_row s = Inr s'"
  shows "opened_closed s' \<and> has_entry_time s'"
  using assms(3)
proof (cases rule: sell_next_cases)
  case (1 roll)
  from sell_hold_shape[OF 1(2)] obtain u where
    u: "total_trades_count u = total_trades_count s" "position_active u = position_active s"
       "summary_log u = summary_log s" "entry_time u = entry_time s"
       "s' = u \<or> (\<exists>r x. sell_close_trade r (time spot_row) x u = Inr s')" by auto
  from u(5) show ?thesis
  proof
    assume "s' = u" with u assms(1,2) show ?thesis by (simp add: opened_closed_def has_entry_time_def)
  next
    assume "\<exists>r x. sell_close_trade r (time spot_row) x u = Inr s'"
    then obtain r x where "sell_close_trade r (time spot_row) x u = Inr s'" by blast
    from sell_close_trade_shape[OF this] u assms(1) 1(1) show ?thesis
      by (simp add: opened_closed_def has_entry_time_def)
  qed
next
  case (2 roll)
  from sell_entry_cases[OF 2(1), of files spot_row roll] 2 assms(1,2)
  show ?thesis by (auto simp: opened_closed_def has_entry_time_def)
qed

lemma sell_run_invariant:
  assumes "opened_closed s" "has_entry_time s" "sell_run files rows s = Inr s'"
  shows "opened_closed s' \<and> has_entry_time s'"
  using assms
proof (induction rows arbitrary: s)
  case Nil then show ?case by simp
next
  case (Cons row rows)
  from Cons.prems(3) obtain s1 where s1: "sell_next files row s = Inr s1" "sell_run files rows s1 = Inr s'"
    by (auto split: sum.splits)
  from sell_next_invariant[OF Cons.prems(1,2) s1(1)]
  show ?case using Cons.IH s1(2) by blast
qed

subsection \<open>Evaluating the example runs\<close>

lemma ex_on_ts [simp]:
  "pd_Timestamp (ex_on d h m) = 1703980800 + d * 86400 + h * 3600 + m * 60"
  by (simp add: pd_Timestamp_def ex_on_def toordinal_def days_before_year_def
      days_before_month_def is_leap_def dtime_def)

lemma ex_ce_eval:
  "ex_ce = [(1704100800, ex_candle 100), (1704101100, ex_candle 126),
            (1704101400, ex_candle 130), (1704101700, ex_candle 104)]"
  by (simp add: ex_ce_def)

lemma ex_ce_sorted: "sort_index ex_ce = ex_ce"
  by (simp add: sort_index_def ex_ce_eval)

lemma ex_price_920: "price_at ex_ce (ex_on 1 9 20) = Some 100"
  by (simp add: price_at_def) (simp add: ex_ce_eval the_row_loc ex_candle_def)

lemma py_round2_int [simp]: "py_round2 (of_int n) = of_int n"
  by (simp add: py_round2_def Let_def)

lemma py_round2_100 [simp]: "py_round2 100 = 100" "py_round2 0 = 0"
  using py_round2_int[of 100] py_round2_int[of 0] by simp_all

lemma ex_gop_1:
  "get_option_price ex_folder ''CE1'' (ex_on 1 9 20) (new_day_reset (date_of (ex_on 1 9 20)) buy_init)
   = (Some 100, (new_day_reset (date_of (ex_on 1 9 20)) buy_init)\<lparr>active_option_df := Some ex_ce, active_scrip := ''CE1''\<rparr>)"
  by (simp add: get_option_price_def new_day_reset_def buy_init_def ex_folder_def Let_def
        ex_ce_sorted ex_price_920)

lemma ex_open_run: "buy_run ex_folder [ex_buy_bar 9 20 4 21] buy_init = Inr ex_open"
proof -
  have t: "time (ex_buy_bar 9 20 4 21) = ex_on 1 9 20" by (simp add: ex_buy_bar_def)
  have na: "\<not> position_active (new_day_reset (date_of (ex_on 1 9 20)) buy_init)"
    by (simp add: buy_init_def)
  have e: "buy_entry ex_folder (ex_buy_bar 9 20 4 21) (new_day_reset (date_of (ex_on 1 9 20)) buy_init)
           = entry_setup ex_folder CE (ex_buy_bar 9 20 4 21) (new_day_reset (date_of (ex_on 1 9 20)) buy_init)"
    by (simp add: buy_entry_def Let_def ex_buy_bar_def ex_on_def dtime_def MAX_TRADES_DAY_def
          new_day_reset_def buy_init_def)
  have "entry_setup ex_folder CE (ex_buy_bar 9 20 4 21) (new_day_reset (date_of (ex_on 1 9 20)) buy_init) = ex_open"
    unfolding entry_setup_unfold Let_def
    by (simp add: leg_scrip_def t ex_gop_1[unfolded t[symmetric]] ex_buy_bar_def ex_gop_1)
       (simp add: new_day_reset_def buy_init_def buy_log_trade_step_def ex_open_def ex_on_def)
  with e na show ?thesis by (simp add: buy_next_def Let_def t)
qed

lemma py_round2_numeral [simp]: "py_round2 (numeral n) = numeral n"
  using py_round2_int[of "numeral n"] by simp

lemma ex_pe_loaded: "add_indicators (sort_index ex_pe) = ex_pe_ind"
proof -
  have e: "ex_pe = [(1704117600, ex_candle 100), (1704117900, ex_candle 80),
                    (1704118200, ex_candle 70), (1704204000, ex_candle 65)]"
    by (simp add: ex_pe_def)
  have s: "sort_index ex_pe = ex_pe" by (simp add: sort_index_def e)
  show ?thesis unfolding s
    by (simp add: e add_indicators_def ewm_mean_def Let_def ex_candle_def EMA_FAST_def
          EMA_SLOW_def ex_pe_ind_def)
qed

lemma ex_row_1405:
  "row_at ex_pe_ind (ex_on 1 14 5) =
     Some \<lparr>high = 81, low = 79, close = 80,
           EMA19_Close = 98, EMA50_High = 5111 / 51, EMA50_Low = 5009 / 51\<rparr>"
  by (simp add: row_at_def Let_def) (simp add: ex_pe_ind_def the_row_loc)

lemma ex_row_1410:
  "row_at ex_pe_ind (ex_on 1 14 10) =
     Some \<lparr>high = 71, low = 69, close = 70,
           EMA19_Close = 476 / 5, EMA50_High = 257681 / 2601, EMA50_Low = 252479 / 2601\<rparr>"
  by (simp add: row_at_def Let_def) (simp add: ex_pe_ind_def the_row_loc)

lemma ex_row_1430: "row_at ex_pe_ind (ex_on 1 14 30) = None"
  by (simp add: row_at_def Let_def) (simp add: ex_pe_ind_def the_row_loc)

lemma ex_row_day2:
  "row_at ex_pe_ind (ex_on 2 14 0) =
     Some \<lparr>high = 66, low = 64, close = 65,
           EMA19_Close = 4609 / 50, EMA50_High = 12969701 / 132651,
           EMA50_Low = 12704399 / 132651\<rparr>"
  by (simp add: row_at_def Let_def) (simp add: ex_pe_ind_def the_row_loc)

lemma ex_bar_sel [simp]:
  "time (ex_bar d h m ed) = ex_on d h m"
  "expiry_day (ex_bar d h m ed) = ed"
  "expiry_month (ex_bar d h m ed) = 1"
  "expiry_year (ex_bar d h m ed) = 2024"
  "icici_scrip_code_ce (ex_bar d h m ed) = ''CE1''"
  "icici_scrip_code_pe (ex_bar d h m ed) = ''PE1''"
  by (simp_all add: ex_bar_def)

lemma ex_on_sel [simp]:
  "date_of (ex_on d h m) = \<lparr>year = 2024, month = 1, day = d\<rparr>"
  "time_of (ex_on d h m) = h * 3600 + m * 60"
  by (simp_all add: ex_on_def dtime_def)

lemma ex_days_to_expiry:
  "1 \<le> ed \<Longrightarrow> ed \<le> 31 \<Longrightarrow>
   mk_date 2024 1 ed = Inr \<lparr>year = 2024, month = 1, day = ed\<rparr> \<and>
   days_between \<lparr>year = 2024, month = 1, day = ed\<rparr> \<lparr>year = 2024, month = 1, day = d\<rparr> = ed - d"
  by (simp add: mk_date_def days_in_month_def days_between_def toordinal_def)

lemma ex_goi_flat_pe:
  "get_option_indicators ex_folder ''PE1'' q sell_init = (row_at ex_pe_ind q, sell_init)"
  by (simp add: get_option_indicators_def sell_init_def ex_folder_def Let_def ex_pe_loaded)

lemma ex_short_entry:
  "sell_next ex_folder (ex_bar 1 14 5 25) sell_init = Inr ex_short"
proof -
  have e: "sell_entry ex_folder (ex_bar 1 14 5 25) False sell_init
           = open_trade PE ''PE1'' 80 (ex_on 1 14 5) sell_init"
    by (simp add: sell_entry_def Let_def ENTRY_START_def ENTRY_END_def dtime_def
          ex_goi_flat_pe ex_row_1405)
  have o: "open_trade PE ''PE1'' 80 (ex_on 1 14 5) sell_init = ex_short"
    by (simp add: open_trade_def sell_log_trade_step_def sell_init_def ex_short_def dtime_def)
  have na: "\<not> position_active sell_init" by (simp add: sell_init_def)
  from ex_days_to_expiry[of 25 1] e o na show ?thesis
    by (simp add: sell_next_def Let_def ROLLOVER_DAYS_def)
qed

lemma ex_goi_short:
  "get_option_indicators ex_folder ''PE1'' q ex_short
     = (row_at ex_pe_ind q, ex_short\<lparr>active_option_df := Some ex_pe_ind\<rparr>)"
  by (simp add: get_option_indicators_def ex_short_def ex_folder_def Let_def ex_pe_loaded)

lemma ex_short_hold:
  "sell_next ex_folder (ex_bar 1 14 10 25) ex_short = Inr ex_short_held"
proof -
  have a: "position_active ex_short" "active_scrip ex_short = ''PE1''" "entry_price ex_short = 80"
    by (simp_all add: ex_short_def)
  have h: "sell_hold ex_folder (ex_bar 1 14 10 25) False ex_short = Inr ex_short_held"
    unfolding sell_hold_unfold Let_def
    by (simp add: a ex_goi_short ex_row_1410 TARGET_LTP_def qty_def LOT_SIZE_def)
       (simp add: sell_log_trade_step_def ex_short_held_def ex_short_def dtime_def)
  from ex_days_to_expiry[of 25 1] h a show ?thesis
    by (simp add: sell_next_def Let_def ROLLOVER_DAYS_def)
qed

lemma ex_short_run:
  "sell_run ex_folder [ex_bar 1 14 5 25, ex_bar 1 14 10 25] sell_init = Inr ex_short_held"
  by (simp add: ex_short_entry ex_short_hold)

subsection \<open>One position at a time\<close>

lemma buy_init_inv: "opened_closed buy_init \<and> has_entry_time buy_init"
  by (simp add: opened_closed_def has_entry_time_def buy_init_def)

lemma sell_init_inv: "opened_closed sell_init \<and> has_entry_time sell_init"
  by (simp add: opened_closed_def has_entry_time_def sell_init_def)

lemma buy_next_active:
  "position_active s \<Longrightarrow>
   buy_next files row s = buy_hold files row (new_day_reset (date_of (time row)) s)"
  by (simp add: buy_next_def Let_def)

lemma buy_next_flat:
  "\<not> position_active s \<Longrightarrow>
   buy_next files row s = Inr (buy_entry files row (new_day_reset (date_of (time row)) s))"
  by (simp add: buy_next_def Let_def)

lemma buy_hold_count:
  assumes "buy_hold files row s = Inr s'"
  shows "total_trades_count s' = total_trades_count s"
proof -
  from buy_hold_shape[OF assms] obtain u where
    u: "total_trades_count u = total_trades_count s"
       "s' = u \<or> (\<exists>r x. buy_close_trade r (time row) x u = Inr s')" by auto
  from u(2) show ?thesis
  proof
    assume "s' = u" with u(1) show ?thesis by simp
  next
    assume "\<exists>r x. buy_close_trade r (time row) x u = Inr s'"
    then obtain r x where "buy_close_trade r (time row) x u = Inr s'" by blast
    from buy_close_trade_shape[OF this] u(1) show ?thesis by simp
  qed
qed

lemma sell_hold_count:
  assumes "sell_hold files row roll s = Inr s'"
  shows "total_trades_count s' = total_trades_count s"
proof -
  from sell_hold_shape[OF assms] obtain u where
    u: "total_trades_count u = total_trades_count s"
       "s' = u \<or> (\<exists>r x. sell_close_trade r (time row) x u = Inr s')" by auto
  from u(2) show ?thesis
  proof
    assume "s' = u" with u(1) show ?thesis by simp
  next
    assume "\<exists>r x. sell_close_trade r (time row) x u = Inr s'"
    then obtain r x where "sell_close_trade r (time row) x u = Inr s'" by blast
    from sell_close_trade_shape[OF this] u(1) show ?thesis by simp
  qed
qed

lemma entry_setup_count:
  "total_trades_count (entry_setup files ty row s) \<le> total_trades_count s + 1"
  by (simp add: entry_setup_unfold Let_def split: option.split)

text \<open>
  Claim C1. At most one position is open at any point. In every state either strategy
  reaches from its initial state, the number of trades opened exceeds the number of
  trades closed by one when a position is active and by nothing when flat. A bar
  processed while a position is active runs the hold branch only and opens no trade;
  any bar opens at most one.
\<close>

theorem single_position:
  "(buy_run files rows buy_init = Inr s \<longrightarrow>
      total_trades_count s = length (summary_log s) + (if position_active s then 1 else 0)) \<and>
   (sell_run files rows' sell_init = Inr t \<longrightarrow>
      total_trades_count t = length (summary_log t) + (if position_active t then 1 else 0)) \<and>
   (position_active b \<longrightarrow>
      buy_next files row b = buy_hold files row (new_day_reset (date_of (time row)) b)) \<and>
   (position_active b \<and> buy_next files row b = Inr b' \<longrightarrow>
      total_trades_count b' = total_trades_count b) \<and>
   (position_active c \<and> sell_next files row' c = Inr c' \<longrightarrow>
      total_trades_count c' = total_trades_count c) \<and>
   (buy_next files row b = Inr b' \<longrightarrow> total_trades_count b' \<le> total_trades_count b + 1) \<and>
   (sell_next files row' c = Inr c' \<longrightarrow> total_trades_count c' \<le> total_trades_count c + 1)"
proof -
  have 1: "buy_run files rows buy_init = Inr s \<longrightarrow>
      total_trades_count s = length (summary_log s) + (if position_active s then 1 else 0)"
    using buy_run_invariant[of buy_init files rows s] buy_init_inv
    by (simp add: opened_closed_def)
  have 2: "sell_run files rows' sell_init = Inr t \<longrightarrow>
      total_trades_count t = length (summary_log t) + (if position_active t then 1 else 0)"
    using sell_run_invariant[of sell_init files rows' t] sell_init_inv
    by (simp add: opened_closed_def)
  have 3: "position_active b \<longrightarrow>
      buy_next files row b = buy_hold files row (new_day_reset (date_of (time row)) b)"
    by (simp add: buy_next_active)
  have 4: "position_active b \<and> buy_next files row b = Inr b' \<longrightarrow>
      total_trades_count b' = total_trades_count b"
  proof
    assume a: "position_active b \<and> buy_next files row b = Inr b'"
    with buy_next_active[of b files row]
    have "buy_hold files row (new_day_reset (date_of (time row)) b) = Inr b'" by auto
    from buy_hold_count[OF this] show "total_trades_count b' = total_trades_count b" by simp
  qed
  have 5: "position_active c \<and> sell_next files row' c = Inr c' \<longrightarrow>
      total_trades_count c' = total_trades_count c"
  proof
    assume a: "position_active c \<and> sell_next files row' c = Inr c'"
    then have n: "sell_next files row' c = Inr c'" and p: "position_active c" by simp_all
    from n show "total_trades_count c' = total_trades_count c"
    proof (cases rule: sell_next_cases)
      case (1 roll) from sell_hold_count[OF 1(2)] show ?thesis .
    next
      case (2 roll) with p show ?thesis by simp
    qed
  qed
  have 6: "buy_next files row b = Inr b' \<longrightarrow> total_trades_count b' \<le> total_trades_count b + 1"
  proof (cases "position_active b")
    case True with 4 show ?thesis by auto
  next
    case False
    let ?s = "new_day_reset (date_of (time row)) b"
    from buy_entry_cases[of files row ?s] entry_setup_count[of files _ row ?s]
    have "total_trades_count (buy_entry files row ?s) \<le> total_trades_count b + 1" by auto
    with False show ?thesis by (auto simp: buy_next_flat)
  qed
  have 7: "sell_next files row' c = Inr c' \<longrightarrow> total_trades_count c' \<le> total_trades_count c + 1"
  proof
    assume n: "sell_next files row' c = Inr c'"
    then show "total_trades_count c' \<le> total_trades_count c + 1"
    proof (cases rule: sell_next_cases)
      case (1 roll) from sell_hold_count[OF 1(2)] show ?thesis by simp
    next
      case (2 roll)
      from sell_entry_cases[OF 2(1), of files row' roll] 2(2) show ?thesis by auto
    qed
  qed
  from 1 2 3 4 5 6 7 show ?thesis by blast
qed

lemma ex_buy_bar_sel [simp]:
  "time (ex_buy_bar h m ed e5) = ex_on 1 h m"
  "expiry_day (ex_buy_bar h m ed e5) = ed"
  "expiry_month (ex_buy_bar h m ed e5) = 1"
  "expiry_year (ex_buy_bar h m ed e5) = 2024"
  "icici_scrip_code_ce (ex_buy_bar h m ed e5) = ''CE1''"
  "icici_scrip_code_pe (ex_buy_bar h m ed e5) = ''PE1''"
  "ema5 (ex_buy_bar h m ed e5) = e5"
  "ema20_high (ex_buy_bar h m ed e5) = 20"
  "ema20_low (ex_buy_bar h m ed e5) = 10"
  "ema5_prev (ex_buy_bar h m ed e5) = 15"
  "ema20_high_prev (ex_buy_bar h m ed e5) = 20"
  "ema20_low_prev (ex_buy_bar h m ed e5) = 10"
  by (simp_all add: ex_buy_bar_def)

lemma ex_price_ce:
  "price_at ex_ce (ex_on 1 9 25) = Some 126"
  "price_at ex_ce (ex_on 1 9 30) = Some 130"
  "price_at ex_ce (ex_on 1 9 35) = Some 104"
  "price_at ex_ce (ex_on 1 15 15) = Some 104"
  by (simp add: price_at_def, simp add: ex_ce_eval the_row_loc ex_candle_def)+

lemma same_day_reset [simp]: "current_date s = Some d \<Longrightarrow> new_day_reset d s = s"
  by (simp add: new_day_reset_def)

lemma ex_gop_cached:
  "active_option_df s = Some ex_ce \<Longrightarrow> active_scrip s = ''CE1'' \<Longrightarrow>
   get_option_price files ''CE1'' q s = (price_at ex_ce q, s)"
  by (simp add: get_option_price_def)

lemma ex_open_sel [simp]:
  "position_active ex_open" "active_scrip ex_open = ''CE1''" "entry_price ex_open = 100"
  "active_option_df ex_open = Some ex_ce" "pos_type ex_open = Some CE"
  "current_date ex_open = Some \<lparr>year = 2024, month = 1, day = 1\<rparr>"
  "sl_mode ex_open = NONE" "current_sl_price ex_open = 0" "max_pnl_reached ex_open = 0"
  "entry_time ex_open = Some (ex_on 1 9 20)" "total_trades_count ex_open = 1"
  "summary_log ex_open = []"
  by (simp_all add: ex_open_def)

lemma not_forced_4 [simp]: "\<not> forced_exit (ex_buy_bar h m 4 e5)"
  by (simp add: forced_exit_def is_expiry_today_def)

lemma ex_after_tsl_cost: "after_tsl (ex_on 1 9 25) 126 ex_open = ex_cost"
  by (simp add: after_tsl_def Let_def qty_def LOT_SIZE_def tsl_trigger_def tsl_step_def
        TSL_TRIGGER_def TSL_STEP_def buy_log_trade_step_def)
     (simp add: ex_cost_def ex_open_def ex_hold_row_def ex_tsl_row_def dtime_def)

lemma ex_cost_step: "buy_next ex_folder (ex_buy_bar 9 25 4 15) ex_open = Inr ex_cost"
proof -
  have g: "get_option_price ex_folder (active_scrip ex_open) (time (ex_buy_bar 9 25 4 15)) ex_open
           = (Some 126, ex_open)"
    by (simp add: ex_gop_cached ex_price_ce)
  have "buy_hold ex_folder (ex_buy_bar 9 25 4 15) ex_open = Inr ex_cost"
    using buy_hold_held[of "ex_buy_bar 9 25 4 15" ex_folder ex_open 126] g
    by (simp add: Let_def ex_after_tsl_cost) (simp add: ex_cost_def)
  then show ?thesis by (simp add: buy_next_active)
qed

lemma py_round2_stop [simp]: "py_round2 (625 / 6) = 10417 / 100"
  by (simp add: py_round2_def Let_def)

lemma ex_cost_sel [simp]:
  "position_active ex_cost" "active_scrip ex_cost = ''CE1''" "entry_price ex_cost = 100"
  "active_option_df ex_cost = Some ex_ce" "pos_type ex_cost = Some CE"
  "current_date ex_cost = Some \<lparr>year = 2024, month = 1, day = 1\<rparr>"
  "sl_mode ex_cost = COST" "current_sl_price ex_cost = 100" "max_pnl_reached ex_cost = 3120"
  "entry_time ex_cost = Some (ex_on 1 9 20)" "total_trades_count ex_cost = 1"
  "summary_log ex_cost = []"
  by (simp_all add: ex_cost_def)

lemma ex_trail_sel [simp]:
  "position_active ex_trail" "active_scrip ex_trail = ''CE1''" "entry_price ex_trail = 100"
  "active_option_df ex_trail = Some ex_ce" "pos_type ex_trail = Some CE"
  "current_date ex_trail = Some \<lparr>year = 2024, month = 1, day = 1\<rparr>"
  "sl_mode ex_trail = TRAILING" "current_sl_price ex_trail = 625 / 6"
  "max_pnl_reached ex_trail = 3600"
  "entry_time ex_trail = Some (ex_on 1 9 20)" "total_trades_count ex_trail = 1"
  "summary_log ex_trail = []" "trade_files ex_trail = []"
  by (simp_all add: ex_trail_def ex_cost_def ex_open_def)

lemma ex_after_tsl_trail: "after_tsl (ex_on 1 9 30) 130 ex_cost = ex_trail"
  by (simp add: after_tsl_def Let_def qty_def LOT_SIZE_def tsl_trigger_def tsl_step_def
        TSL_TRIGGER_def TSL_STEP_def TSL_INCREMENT_def buy_log_trade_step_def)
     (simp add: ex_trail_def ex_cost_def ex_hold_row_def ex_tsl_row_def dtime_def)

lemma ex_trail_step: "buy_next ex_folder (ex_buy_bar 9 30 4 15) ex_cost = Inr ex_trail"
proof -
  have g: "get_option_price ex_folder (active_scrip ex_cost) (time (ex_buy_bar 9 30 4 15)) ex_cost
           = (Some 130, ex_cost)"
    by (simp add: ex_gop_cached ex_price_ce)
  have "buy_hold ex_folder (ex_buy_bar 9 30 4 15) ex_cost = Inr ex_trail"
    using buy_hold_held[of "ex_buy_bar 9 30 4 15" ex_folder ex_cost 130] g
    by (simp add: Let_def ex_after_tsl_trail)
  then show ?thesis by (simp add: buy_next_active)
qed

lemma ex_after_tsl_dip:
  "after_tsl (ex_on 1 9 35) 104 ex_trail =
     ex_trail\<lparr>current_trade_ledger := current_trade_ledger ex_trail @
        [ex_hold_row 35 104 480 (10417 / 100) TRAILING]\<rparr>"
  by (simp add: after_tsl_def Let_def qty_def LOT_SIZE_def tsl_trigger_def tsl_step_def
        TSL_TRIGGER_def TSL_STEP_def TSL_INCREMENT_def buy_log_trade_step_def)
     (simp add: ex_hold_row_def dtime_def)

lemma ex_hit_step: "buy_next ex_folder (ex_buy_bar 9 35 4 15) ex_trail = Inr ex_hit"
proof -
  have g: "get_option_price ex_folder (active_scrip ex_trail) (time (ex_buy_bar 9 35 4 15)) ex_trail
           = (Some 104, ex_trail)"
    by (simp add: ex_gop_cached ex_price_ce)
  let ?u = "ex_trail\<lparr>current_trade_ledger := current_trade_ledger ex_trail @
        [ex_hold_row 35 104 480 (10417 / 100) TRAILING]\<rparr>"
  have et: "entry_time ?u = Some (ex_on 1 9 20)" by simp
  have c: "buy_close_trade ''TSL_HIT'' (ex_on 1 9 35) (625 / 6) ?u = Inr ex_hit"
    unfolding buy_close_trade_Some[OF et]
    by (simp add: qty_def LOT_SIZE_def ex_hit_def ex_exit_row_def dtime_def)
  have "buy_hold ex_folder (ex_buy_bar 9 35 4 15) ex_trail = Inr ex_hit"
    using buy_hold_held[of "ex_buy_bar 9 35 4 15" ex_folder ex_trail 104] g
    by (simp add: Let_def ex_after_tsl_dip c)
  then show ?thesis by (simp add: buy_next_active)
qed

lemma ex_short_sel [simp]:
  "position_active ex_short" "active_scrip ex_short = ''PE1''" "entry_price ex_short = 80"
  "total_trades_count ex_short = 1" "summary_log ex_short = []"
  "entry_time ex_short = Some (ex_on 1 14 5)"
  by (simp_all add: ex_short_def)

lemma ex_short_held_sel [simp]:
  "position_active ex_short_held" "active_scrip ex_short_held = ''PE1''"
  "entry_price ex_short_held = 80" "total_trades_count ex_short_held = 1"
  "summary_log ex_short_held = []" "entry_time ex_short_held = Some (ex_on 1 14 5)"
  "active_option_df ex_short_held = Some ex_pe_ind"
  by (simp_all add: ex_short_held_def)

theorem single_position_witness:
  "buy_run ex_folder [ex_buy_bar 9 20 4 21] buy_init = Inr ex_open \<and>
   sell_run ex_folder [ex_bar 1 14 5 25, ex_bar 1 14 10 25] sell_init = Inr ex_short_held \<and>
   position_active ex_open \<and> buy_next ex_folder (ex_buy_bar 9 25 4 15) ex_open = Inr ex_cost \<and>
   position_active ex_short \<and> sell_next ex_folder (ex_bar 1 14 10 25) ex_short = Inr ex_short_held \<and>
   total_trades_count ex_open = length (summary_log ex_open) + 1 \<and>
   total_trades_count ex_short_held = length (summary_log ex_short_held) + 1 \<and>
   total_trades_count ex_cost = total_trades_count ex_open \<and>
   total_trades_count ex_short_held = total_trades_count ex_short"
  using single_position[of ex_folder "[ex_buy_bar 9 20 4 21]" ex_open
          "[ex_bar 1 14 5 25, ex_bar 1 14 10 25]" ex_short_held ex_open "ex_buy_bar 9 25 4 15"
          ex_cost ex_short "ex_bar 1 14 10 25" ex_short_held]
        ex_open_run ex_short_run ex_cost_step ex_short_hold
  by simp

subsection \<open>Entry at a price of zero\<close>

text \<open>
  Claim C10. Buying entry with a resolved price of exactly 0.0. The entry guard tests the
  truth value of the price, so a price of zero is treated like an unavailable price: the
  state is the one the lookup left, the position stays as it was (flat), the total and
  daily trade counters, the ledger, the summary and the written files are unchanged.
  Any other resolved price opens the trade.
\<close>

theorem zero_price_no_entry:
  "(fst (get_option_price files (leg_scrip ty row) (time row) s) = Some 0 \<or>
    fst (get_option_price files (leg_scrip ty row) (time row) s) = None \<longrightarrow>
      entry_setup files ty row s = snd (get_option_price files (leg_scrip ty row) (time row) s) \<and>
      position_active (entry_setup files ty row s) = position_active s \<and>
      total_trades_count (entry_setup files ty row s) = total_trades_count s \<and>
      trades_today (entry_setup files ty row s) = trades_today s \<and>
      current_trade_ledger (entry_setup files ty row s) = current_trade_ledger s \<and>
      summary_log (entry_setup files ty row s) = summary_log s \<and>
      trade_files (entry_setup files ty row s) = trade_files s) \<and>
   (fst (get_option_price files (leg_scrip ty row) (time row) s) = Some p \<and> p \<noteq> 0 \<longrightarrow>
      position_active (entry_setup files ty row s) \<and>
      entry_price (entry_setup files ty row s) = p \<and>
      total_trades_count (entry_setup files ty row s) = total_trades_count s + 1 \<and>
      trades_today (entry_setup files ty row s) = trades_today s + 1)"
proof -
  let ?g = "get_option_price files (leg_scrip ty row) (time row) s"
  have a: "fst ?g = Some 0 \<or> fst ?g = None \<Longrightarrow> entry_setup files ty row s = snd ?g"
    by (auto simp: entry_setup_unfold Let_def)
  have b: "fst ?g = Some p \<and> p \<noteq> 0 \<longrightarrow>
      position_active (entry_setup files ty row s) \<and>
      entry_price (entry_setup files ty row s) = p \<and>
      total_trades_count (entry_setup files ty row s) = total_trades_count s + 1 \<and>
      trades_today (entry_setup files ty row s) = trades_today s + 1"
    by (simp add: entry_setup_unfold Let_def)
  from a b show ?thesis by (auto simp del: gop_scrip)
qed

lemma ex_zero_lookup:
  "get_option_price ex_folder ''ZERO'' (ex_on 1 9 20) buy_init
     = (Some 0, buy_init\<lparr>active_option_df := Some [(1704100800, ex_candle 0)],
                         active_scrip := ''ZERO''\<rparr>)"
  by (simp add: get_option_price_def buy_init_def ex_folder_def Let_def sort_index_def
        price_at_def)
     (simp add: the_row_loc ex_candle_def)

theorem zero_price_no_entry_witness:
  "fst (get_option_price ex_folder
          (leg_scrip CE ((ex_buy_bar 9 20 4 21)\<lparr>icici_scrip_code_ce := ''ZERO''\<rparr>))
          (time ((ex_buy_bar 9 20 4 21)\<lparr>icici_scrip_code_ce := ''ZERO''\<rparr>)) buy_init) = Some 0 \<and>
   \<not> position_active
       (entry_setup ex_folder CE ((ex_buy_bar 9 20 4 21)\<lparr>icici_scrip_code_ce := ''ZERO''\<rparr>) buy_init) \<and>
   total_trades_count
       (entry_setup ex_folder CE ((ex_buy_bar 9 20 4 21)\<lparr>icici_scrip_code_ce := ''ZERO''\<rparr>) buy_init) = 0 \<and>
   fst (get_option_price ex_folder (leg_scrip CE (ex_buy_bar 9 20 4 21))
          (time (ex_buy_bar 9 20 4 21)) buy_init) = Some 100 \<and> (100::real) \<noteq> 0 \<and>
   position_active (entry_setup ex_folder CE (ex_buy_bar 9 20 4 21) buy_init)"
proof -
  let ?row = "(ex_buy_bar 9 20 4 21)\<lparr>icici_scrip_code_ce := ''ZERO''\<rparr>"
  have k: "leg_scrip CE ?row = ''ZERO''" "time ?row = ex_on 1 9 20"
    by (simp_all add: leg_scrip_def)
  have z: "fst (get_option_price ex_folder (leg_scrip CE ?row) (time ?row) buy_init) = Some 0"
    unfolding k by (simp add: ex_zero_lookup)
  have k2: "leg_scrip CE (ex_buy_bar 9 20 4 21) = ''CE1''" by (simp add: leg_scrip_def)
  have h: "fst (get_option_price ex_folder (leg_scrip CE (ex_buy_bar 9 20 4 21))
          (time (ex_buy_bar 9 20 4 21)) buy_init) = Some 100"
    unfolding k2
    by (simp add: get_option_price_def buy_init_def ex_folder_def Let_def ex_ce_sorted ex_price_920)
  from zero_price_no_entry[of ex_folder CE ?row buy_init] z
  have "\<not> position_active (entry_setup ex_folder CE ?row buy_init) \<and>
        total_trades_count (entry_setup ex_folder CE ?row buy_init) = 0"
    by (simp add: buy_init_def)
  moreover from zero_price_no_entry[of ex_folder CE "ex_buy_bar 9 20 4 21" buy_init 100] h
  have "position_active (entry_setup ex_folder CE (ex_buy_bar 9 20 4 21) buy_init)" by simp
  ultimately show ?thesis using z h by simp
qed

subsection \<open>Forced expiry exit\<close>

lemma buy_reachable_entry_time:
  assumes "buy_run files rows buy_init = Inr s" "position_active s"
  shows "\<exists>et. entry_time s = Some et"
  using buy_run_invariant[of buy_init files rows s] buy_init_inv assms
  by (auto simp: has_entry_time_def)

lemma buy_next_forced:
  assumes "position_active s" "entry_time s = Some et" "forced_exit row"
  shows "\<exists>s' r e. buy_next files row s = Inr s' \<and> \<not> position_active s' \<and>
           summary_log s' = summary_log s @ [r] \<and>
           ExitReason r = ''EXPIRY_FORCE'' \<and>
           SellPrice r = py_round2 (expiry_exit_price files row s) \<and>
           PnL r = py_round2 ((expiry_exit_price files row s - entry_price s) * qty) \<and>
           current_trade_ledger s' = current_trade_ledger s @ [e] \<and>
           Event e = ''EXIT'' \<and> Info e = ''EXPIRY_FORCE'' \<and>
           Price e = py_round2 (expiry_exit_price files row s)"
proof -
  let ?s0 = "new_day_reset (date_of (time row)) s"
  let ?g = "get_option_price files (active_scrip ?s0) (time row) ?s0"
  have x: "(case fst ?g of None \<Rightarrow> entry_price ?s0 | Some v \<Rightarrow> v) = expiry_exit_price files row s"
    by (simp add: expiry_exit_price_def split: option.split)
  have et: "entry_time (snd ?g) = Some et" using assms(2) by simp
  have "buy_next files row s = buy_hold files row ?s0" using assms(1) by (simp add: buy_next_active)
  also have "\<dots> = buy_close_trade ''EXPIRY_FORCE'' (time row) (expiry_exit_price files row s) (snd ?g)"
    using buy_hold_forced[OF assms(3), of files ?s0] x by simp
  finally have n: "buy_next files row s =
      buy_close_trade ''EXPIRY_FORCE'' (time row) (expiry_exit_price files row s) (snd ?g)" .
  show ?thesis unfolding n buy_close_trade_Some[OF et] by simp
qed

text \<open>
  Claim C4. Forced expiry exit of the buying strategy. In any reachable state with an open
  position, a bar dated on the expiry date it carries, at or after 15:15, closes the
  position with reason EXPIRY_FORCE. The exit price is the resolved option price, or the
  entry price when the lookup is unavailable; the ledger gains the exit row only, since
  the check runs before the price-availability skip and before any HOLD row.
\<close>

theorem expiry_force_exit:
  assumes "buy_run files rows buy_init = Inr s" and "position_active s"
    and "is_expiry_today (date_of (time row)) row" and "dtime 15 15 \<le> time_of (time row)"
  shows "\<exists>s' r e. buy_next files row s = Inr s' \<and> \<not> position_active s' \<and>
           summary_log s' = summary_log s @ [r] \<and>
           ExitReason r = ''EXPIRY_FORCE'' \<and>
           SellPrice r = py_round2 (expiry_exit_price files row s) \<and>
           PnL r = py_round2 ((expiry_exit_price files row s - entry_price s) * qty) \<and>
           current_trade_ledger s' = current_trade_ledger s @ [e] \<and>
           Event e = ''EXIT'' \<and> Info e = ''EXPIRY_FORCE'' \<and>
           Price e = py_round2 (expiry_exit_price files row s)"
proof -
  from buy_reachable_entry_time[OF assms(1,2)] obtain et where et: "entry_time s = Some et" ..
  from assms(3,4) have f: "forced_exit row" by (simp add: forced_exit_def)
  from buy_next_forced[OF assms(2) et f] show ?thesis .
qed

lemma ex_forced: "forced_exit (ex_buy_bar 15 15 1 15)"
  by (simp add: forced_exit_def is_expiry_today_def dtime_def)

lemma ex_expiry_price: "expiry_exit_price ex_folder (ex_buy_bar 15 15 1 15) ex_open = 104"
  by (simp add: expiry_exit_price_def ex_gop_cached ex_price_ce)

theorem expiry_force_exit_witness:
  "buy_run ex_folder [ex_buy_bar 9 20 4 21] buy_init = Inr ex_open \<and> position_active ex_open \<and>
   is_expiry_today (date_of (time (ex_buy_bar 15 15 1 15))) (ex_buy_bar 15 15 1 15) \<and>
   dtime 15 15 \<le> time_of (time (ex_buy_bar 15 15 1 15)) \<and>
   (\<exists>s' r e. buy_next ex_folder (ex_buy_bar 15 15 1 15) ex_open = Inr s' \<and> \<not> position_active s' \<and>
      summary_log s' = [r] \<and> ExitReason r = ''EXPIRY_FORCE'' \<and> SellPrice r = 104 \<and>
      PnL r = 480 \<and> current_trade_ledger s' = current_trade_ledger ex_open @ [e] \<and>
      Event e = ''EXIT'')"
proof -
  have a: "is_expiry_today (date_of (time (ex_buy_bar 15 15 1 15))) (ex_buy_bar 15 15 1 15)"
    by (simp add: is_expiry_today_def)
  have b: "dtime 15 15 \<le> time_of (time (ex_buy_bar 15 15 1 15))" by (simp add: dtime_def)
  have c: "position_active ex_open" by simp
  from expiry_force_exit[OF ex_open_run c a b] ex_open_run a b
  show ?thesis by (simp add: ex_expiry_price qty_def LOT_SIZE_def) blast
qed

subsection \<open>Summary rows and stop price of one bar\<close>

lemma buy_close_trade_summary:
  assumes "buy_close_trade reason dt x u = Inr s'"
  shows "\<exists>r. summary_log s' = summary_log u @ [r] \<and>
             PnL r = py_round2 ((x - entry_price u) * qty) \<and>
             SellPrice r = py_round2 x \<and> BuyPrice r = py_round2 (entry_price u) \<and>
             ExitReason r = reason"
proof (cases "entry_time u")
  case None
  with assms show ?thesis by (simp add: buy_close_trade_None)
next
  case (Some et)
  from assms show ?thesis unfolding buy_close_trade_Some[OF Some] by auto
qed

lemma entry_setup_summary [simp]:
  "summary_log (entry_setup files ty row s) = summary_log s"
  by (simp add: entry_setup_unfold Let_def split: option.split)

lemma buy_next_summary:
  assumes "buy_next files row s = Inr s'"
  shows "summary_log s' = summary_log s \<or>
         (\<exists>x r. summary_log s' = summary_log s @ [r] \<and>
                PnL r = py_round2 ((x - entry_price s) * qty) \<and>
                SellPrice r = py_round2 x \<and> BuyPrice r = py_round2 (entry_price s))"
proof (cases "position_active s")
  case True
  with assms have "buy_hold files row (new_day_reset (date_of (time row)) s) = Inr s'"
    by (simp add: buy_next_active)
  from buy_hold_shape[OF this] obtain u where
    u: "summary_log u = summary_log s" "entry_price u = entry_price s"
       "s' = u \<or> (\<exists>r x. buy_close_trade r (time row) x u = Inr s')" by auto
  from u(3) show ?thesis
  proof
    assume "s' = u" with u(1) show ?thesis by simp
  next
    assume "\<exists>r x. buy_close_trade r (time row) x u = Inr s'"
    then obtain r x where "buy_close_trade r (time row) x u = Inr s'" by blast
    from buy_close_trade_summary[OF this] u(1,2) show ?thesis by auto
  qed
next
  case False
  let ?s = "new_day_reset (date_of (time row)) s"
  from False assms have "s' = buy_entry files row ?s" by (simp add: buy_next_flat)
  with buy_entry_cases[of files row ?s] have "summary_log s' = summary_log s" by auto
  then show ?thesis ..
qed

lemma tsl_trigger_stop:
  "current_sl_price (tsl_trigger dt c v s) =
     (if sl_mode s = NONE \<and> 3000 \<le> v then entry_price s else current_sl_price s)"
  by (simp add: tsl_trigger_def Let_def TSL_TRIGGER_def)

lemma tsl_step_stop:
  "current_sl_price (tsl_step dt c v s) =
     (let hw = max (max_pnl_reached s) v;
          new_sl = entry_price s + of_int \<lfloor>(hw - 3000) / 500\<rfloor> * 500 / 120
      in if sl_mode s \<noteq> NONE \<and> 500 \<le> hw - 3000 \<and> current_sl_price s < new_sl
         then new_sl else current_sl_price s)"
proof -
  have m: "max (max_pnl_reached s) v = (if max_pnl_reached s < v then v else max_pnl_reached s)"
    by (simp add: max_def)
  have n: "sl_mode s \<noteq> NONE \<longleftrightarrow> sl_mode s = COST \<or> sl_mode s = TRAILING"
    by (cases "sl_mode s") simp_all
  show ?thesis unfolding m n
    by (simp add: tsl_step_def Let_def TSL_TRIGGER_def TSL_STEP_def TSL_INCREMENT_def
          qty_def LOT_SIZE_def)
qed

subsection \<open>Selling rollover\<close>

lemma sell_next_rollover_open:
  assumes "rollover_period row" "position_active s"
  shows "sell_next files row s = sell_hold files row True s"
  using assms
  by (auto simp: rollover_period_def sell_next_def Let_def ROLLOVER_DAYS_def split: sum.splits)

lemma sell_next_rollover_flat:
  assumes "rollover_period row" "\<not> position_active s"
  shows "sell_next files row s = Inr s"
  using assms
  by (auto simp: rollover_period_def sell_next_def sell_entry_def Let_def ROLLOVER_DAYS_def
      split: sum.splits)

lemma sell_hold_rollover:
  assumes "position_active s" "entry_time s = Some et"
    and "fst (get_option_indicators files (active_scrip s) (time row) s) = Some r"
  shows "\<exists>s' x h e. sell_hold files row True s = Inr s' \<and> \<not> position_active s' \<and>
           summary_log s' = summary_log s @ [x] \<and> ExitReason x = ''ROLLOVER_EXIT'' \<and>
           BuyPrice x = py_round2 (close r) \<and>
           PnL x = py_round2 ((entry_price s - close r) * qty) \<and>
           current_trade_ledger s' = current_trade_ledger s @ [h, e] \<and>
           Event h = ''HOLD'' \<and> Event e = ''BUY_EXIT'' \<and> Info e = ''ROLLOVER_EXIT''"
proof -
  let ?g = "get_option_indicators files (active_scrip s) (time row) s"
  let ?u = "sell_log_trade_step (time row) ''HOLD'' (close r)
              ((entry_price s - close r) * qty) ''Monitoring'' (snd ?g)"
  have et: "entry_time ?u = Some et" using assms(2) by simp
  have n: "sell_hold files row True s = sell_close_trade ''ROLLOVER_EXIT'' (time row) (close r) ?u"
    using sell_hold_held[OF assms(3), of True] by (simp add: Let_def)
  have l: "current_trade_ledger ?u = current_trade_ledger s @
             [\<lparr>Date = date_of (time row), Time = time_of (time row), Event = ''HOLD'',
               Ticker = active_scrip s, Price = py_round2 (close r),
               PnL_INR = py_round2 ((entry_price s - close r) * qty), Info = ''Monitoring''\<rparr>]"
    by (simp add: sell_log_trade_step_def)
  show ?thesis unfolding n sell_close_trade_Some[OF et] by (simp add: l)
qed

lemma ex_rollover: "rollover_period (ex_bar 1 14 10 5)"
  using ex_days_to_expiry[of 5 1] by (simp add: rollover_period_def)

lemma ex_goi_held:
  "get_option_indicators files ''PE1'' q ex_short_held = (row_at ex_pe_ind q, ex_short_held)"
  by (simp add: get_option_indicators_def)

lemma sell_reachable_entry_time:
  assumes "sell_run files rows sell_init = Inr s" "position_active s"
  shows "\<exists>et. entry_time s = Some et"
  using sell_run_invariant[of sell_init files rows s] sell_init_inv assms
  by (auto simp: has_entry_time_def)

lemma ex_rollover_1430: "rollover_period (ex_bar 1 14 30 5)"
  using ex_days_to_expiry[of 5 1] by (simp add: rollover_period_def)

text \<open>
  Claim C6 as stated fails: inside the rollover window an open position stays open on a
  bar where its contract row is unavailable. Here the position was opened at 14:05 and
  held at 14:10; at 14:30, four days before expiry, the latest candle is 1200 seconds
  old, the lookup is unavailable, and the bar leaves the state as it was.
\<close>

theorem rollover_exit_counterexample:
  "sell_run ex_folder [ex_bar 1 14 5 25, ex_bar 1 14 10 25] sell_init = Inr ex_short_held \<and>
   mk_date (expiry_year (ex_bar 1 14 30 5)) (expiry_month (ex_bar 1 14 30 5))
     (expiry_day (ex_bar 1 14 30 5)) = Inr \<lparr>year = 2024, month = 1, day = 5\<rparr> \<and>
   days_between \<lparr>year = 2024, month = 1, day = 5\<rparr> (date_of (time (ex_bar 1 14 30 5))) = 4 \<and>
   position_active ex_short_held \<and>
   sell_next ex_folder (ex_bar 1 14 30 5) ex_short_held = Inr ex_short_held"
proof -
  have g: "fst (get_option_indicators ex_folder (active_scrip ex_short_held)
                 (time (ex_bar 1 14 30 5)) ex_short_held) = None"
          "snd (get_option_indicators ex_folder (active_scrip ex_short_held)
                 (time (ex_bar 1 14 30 5)) ex_short_held) = ex_short_held"
    by (simp_all add: ex_goi_held ex_row_1430)
  have pa: "position_active ex_short_held" by simp
  have "sell_next ex_folder (ex_bar 1 14 30 5) ex_short_held = Inr ex_short_held"
    unfolding sell_next_rollover_open[OF ex_rollover_1430 pa]
    using sell_hold_skip[OF g(1), of True] g(2) by simp
  with ex_short_run ex_days_to_expiry[of 5 1] pa show ?thesis by simp
qed

text \<open>
  Claim C6, amended. Selling rollover: on a bar whose date is at most four days before
  the expiry date it carries, a flat state is returned unchanged (the veto precedes the
  time window and every signal lookup); in a reachable state with an open position whose
  contract row resolves on that bar, the position is closed with reason ROLLOVER_EXIT at
  that row's close, after the HOLD row, whatever the row's indicators and price are; when
  the row is unavailable the bar is skipped and the position stays open.
\<close>

theorem rollover_exit:
  assumes "rollover_period row"
  shows "(\<not> position_active s \<longrightarrow> sell_next files row s = Inr s) \<and>
         (sell_run files rows sell_init = Inr s \<and> position_active s \<and>
          fst (get_option_indicators files (active_scrip s) (time row) s) = Some r \<longrightarrow>
            (\<exists>s' x h e. sell_next files row s = Inr s' \<and> \<not> position_active s' \<and>
               summary_log s' = summary_log s @ [x] \<and> ExitReason x = ''ROLLOVER_EXIT'' \<and>
               BuyPrice x = py_round2 (close r) \<and>
               PnL x = py_round2 ((entry_price s - close r) * qty) \<and>
               current_trade_ledger s' = current_trade_ledger s @ [h, e] \<and>
               Event h = ''HOLD'' \<and> Event e = ''BUY_EXIT'' \<and> Info e = ''ROLLOVER_EXIT'')) \<and>
         (position_active s \<and>
          fst (get_option_indicators files (active_scrip s) (time row) s) = None \<longrightarrow>
            sell_next files row s =
              Inr (snd (get_option_indicators files (active_scrip s) (time row) s)) \<and>
            position_active (snd (get_option_indicators files (active_scrip s) (time row) s)))"
proof -
  have a: "\<not> position_active s \<longrightarrow> sell_next files row s = Inr s"
    using sell_next_rollover_flat[OF assms] by blast
  have b: "sell_run files rows sell_init = Inr s \<and> position_active s \<and>
          fst (get_option_indicators files (active_scrip s) (time row) s) = Some r \<longrightarrow>
            (\<exists>s' x h e. sell_next files row s = Inr s' \<and> \<not> position_active s' \<and>
               summary_log s' = summary_log s @ [x] \<and> ExitReason x = ''ROLLOVER_EXIT'' \<and>
               BuyPrice x = py_round2 (close r) \<and>
               PnL x = py_round2 ((entry_price s - close r) * qty) \<and>
               current_trade_ledger s' = current_trade_ledger s @ [h, e] \<and>
               Event h = ''HOLD'' \<and> Event e = ''BUY_EXIT'' \<and> Info e = ''ROLLOVER_EXIT'')"
  proof
    assume h: "sell_run files rows sell_init = Inr s \<and> position_active s \<and>
          fst (get_option_indicators files (active_scrip s) (time row) s) = Some r"
    then have pa: "position_active s"
      and g: "fst (get_option_indicators files (active_scrip s) (time row) s) = Some r"
      by simp_all
    from sell_reachable_entry_time[of files rows s] h obtain et where et: "entry_time s = Some et"
      by blast
    from sell_hold_rollover[OF pa et g]
    show "\<exists>s' x h e. sell_next files row s = Inr s' \<and> \<not> position_active s' \<and>
               summary_log s' = summary_log s @ [x] \<and> ExitReason x = ''ROLLOVER_EXIT'' \<and>
               BuyPrice x = py_round2 (close r) \<and>
               PnL x = py_round2 ((entry_price s - close r) * qty) \<and>
               current_trade_ledger s' = current_trade_ledger s @ [h, e] \<and>
               Event h = ''HOLD'' \<and> Event e = ''BUY_EXIT'' \<and> Info e = ''ROLLOVER_EXIT''"
      unfolding sell_next_rollover_open[OF assms pa] .
  qed
  have c: "position_active s \<and>
          fst (get_option_indicators files (active_scrip s) (time row) s) = None \<longrightarrow>
            sell_next files row s =
              Inr (snd (get_option_indicators files (active_scrip s) (time row) s)) \<and>
            position_active (snd (get_option_indicators files (active_scrip s) (time row) s))"
  proof
    assume h: "position_active s \<and>
          fst (get_option_indicators files (active_scrip s) (time row) s) = None"
    then have pa: "position_active s"
      and g: "fst (get_option_indicators files (active_scrip s) (time row) s) = None"
      by simp_all
    show "sell_next files row s =
              Inr (snd (get_option_indicators files (active_scrip s) (time row) s)) \<and>
            position_active (snd (get_option_indicators files (active_scrip s) (time row) s))"
      unfolding sell_next_rollover_open[OF assms pa]
      using sell_hold_skip[OF g, of True] pa by simp
  qed
  from a b c show ?thesis by blast
qed

theorem rollover_exit_witness:
  "rollover_period (ex_bar 1 14 10 5) \<and> \<not> position_active sell_init \<and>
   sell_next ex_folder (ex_bar 1 14 10 5) sell_init = Inr sell_init \<and>
   sell_run ex_folder [ex_bar 1 14 5 25, ex_bar 1 14 10 25] sell_init = Inr ex_short_held \<and>
   position_active ex_short_held \<and>
   fst (get_option_indicators ex_folder (active_scrip ex_short_held) (time (ex_bar 1 14 10 5))
          ex_short_held) =
     Some \<lparr>high = 71, low = 69, close = 70,
           EMA19_Close = 476 / 5, EMA50_High = 257681 / 2601, EMA50_Low = 252479 / 2601\<rparr> \<and>
   (\<exists>s' x h e. sell_next ex_folder (ex_bar 1 14 10 5) ex_short_held = Inr s' \<and>
      \<not> position_active s' \<and> summary_log s' = [x] \<and> ExitReason x = ''ROLLOVER_EXIT'' \<and>
      BuyPrice x = 70 \<and> PnL x = 1200 \<and>
      current_trade_ledger s' = current_trade_ledger ex_short_held @ [h, e] \<and>
      Event h = ''HOLD'' \<and> Event e = ''BUY_EXIT'') \<and>
   rollover_period (ex_bar 1 14 30 5) \<and>
   fst (get_option_indicators ex_folder (active_scrip ex_short_held) (time (ex_bar 1 14 30 5))
          ex_short_held) = None \<and>
   sell_next ex_folder (ex_bar 1 14 30 5) ex_short_held = Inr ex_short_held"
proof -
  let ?r = "\<lparr>high = 71, low = 69, close = 70,
           EMA19_Close = 476 / 5, EMA50_High = 257681 / 2601, EMA50_Low = 252479 / 2601\<rparr>"
  have na: "\<not> position_active sell_init" by (simp add: sell_init_def)
  have pa: "position_active ex_short_held" by simp
  have g: "fst (get_option_indicators ex_folder (active_scrip ex_short_held)
                 (time (ex_bar 1 14 10 5)) ex_short_held) = Some ?r"
    by (simp add: ex_goi_held ex_row_1410)
  have g2: "fst (get_option_indicators ex_folder (active_scrip ex_short_held)
                 (time (ex_bar 1 14 30 5)) ex_short_held) = None"
           "snd (get_option_indicators ex_folder (active_scrip ex_short_held)
                 (time (ex_bar 1 14 30 5)) ex_short_held) = ex_short_held"
    by (simp_all add: ex_goi_held ex_row_1430)
  note t1 = rollover_exit[OF ex_rollover, where s = sell_init and files = ex_folder
      and rows = "[]" and r = ?r]
  note t2 = rollover_exit[OF ex_rollover, where s = ex_short_held and files = ex_folder
      and rows = "[ex_bar 1 14 5 25, ex_bar 1 14 10 25]" and r = ?r]
  note t3 = rollover_exit[OF ex_rollover_1430, where s = ex_short_held and files = ex_folder
      and rows = "[ex_bar 1 14 5 25, ex_bar 1 14 10 25]" and r = ?r]
  from t1 na have a: "sell_next ex_folder (ex_bar 1 14 10 5) sell_init = Inr sell_init" by blast
  from t2 ex_short_run pa g
  have b: "\<exists>s' x h e. sell_next ex_folder (ex_bar 1 14 10 5) ex_short_held = Inr s' \<and>
      \<not> position_active s' \<and> summary_log s' = [x] \<and> ExitReason x = ''ROLLOVER_EXIT'' \<and>
      BuyPrice x = 70 \<and> PnL x = 1200 \<and>
      current_trade_ledger s' = current_trade_ledger ex_short_held @ [h, e] \<and>
      Event h = ''HOLD'' \<and> Event e = ''BUY_EXIT''"
    by (simp add: qty_def LOT_SIZE_def) blast
  from t3 pa g2 have c: "sell_next ex_folder (ex_bar 1 14 30 5) ex_short_held = Inr ex_short_held"
    by simp
  from ex_rollover na a ex_short_run pa g b ex_rollover_1430 g2(1) c show ?thesis by blast
qed

subsection \<open>Day rollover\<close>

lemma goi_cached:
  assumes "position_active s" "active_option_df s = Some df"
  shows "get_option_indicators files (active_scrip s) q s = (row_at df q, s)"
  using assms by (simp add: get_option_indicators_def)

lemma sell_next_cached:
  assumes "position_active s" "active_option_df s = Some df"
  shows "sell_next files row s = sell_next files' row s"
proof -
  have "sell_hold files row roll s = sell_hold files' row roll s" for roll
    unfolding sell_hold_def goi_cached[OF assms] ..
  with assms(1) show ?thesis by (simp add: sell_next_def Let_def split: sum.split)
qed

lemma buy_next_new_day:
  assumes "current_date s \<noteq> Some (date_of (time row))"
  shows "buy_next files row s =
         buy_next files row (s\<lparr>trades_today := n, active_option_df := df\<rparr>)"
proof -
  have "new_day_reset (date_of (time row)) (s\<lparr>trades_today := n, active_option_df := df\<rparr>)
        = new_day_reset (date_of (time row)) s"
    using assms by (simp add: new_day_reset_def)
  then show ?thesis by (simp add: buy_next_def)
qed

lemma gop_fresh:
  assumes "files k = Some raw" "active_option_df s = None"
  shows "get_option_price files k q s =
         (price_at (sort_index raw) q,
          s\<lparr>active_option_df := Some (sort_index raw), active_scrip := k\<rparr>)"
  using assms by (simp add: get_option_price_def Let_def)

text \<open>
  Claim C7 as stated fails for the selling strategy, which keeps neither a previous date
  nor a daily counter: the series cached on 1 January is still in use on 2 January. The
  bar of 2 January is processed against an empty folder, so a fresh load would find
  nothing, yet the position is held at the cached candle's price and the cache stays.
\<close>

theorem day_rollover_counterexample:
  "sell_run ex_folder [ex_bar 1 14 5 25, ex_bar 1 14 10 25] sell_init = Inr ex_short_held \<and>
   active_option_df ex_short_held = Some ex_pe_ind \<and>
   date_of (time (ex_bar 2 14 0 25)) \<noteq> date_of (time (ex_bar 1 14 10 25)) \<and>
   sell_next ex_no_files (ex_bar 2 14 0 25) ex_short_held = Inr ex_short_day2 \<and>
   active_option_df ex_short_day2 = Some ex_pe_ind"
proof -
  have g: "fst (get_option_indicators ex_no_files (active_scrip ex_short_held)
                 (time (ex_bar 2 14 0 25)) ex_short_held)
           = Some \<lparr>high = 66, low = 64, close = 65, EMA19_Close = 4609 / 50,
                   EMA50_High = 12969701 / 132651, EMA50_Low = 12704399 / 132651\<rparr>"
          "snd (get_option_indicators ex_no_files (active_scrip ex_short_held)
                 (time (ex_bar 2 14 0 25)) ex_short_held) = ex_short_held"
    by (simp_all add: ex_goi_held ex_row_day2)
  have h: "sell_hold ex_no_files (ex_bar 2 14 0 25) False ex_short_held = Inr ex_short_day2"
    unfolding sell_hold_held[OF g(1)] g(2)
    by (simp add: Let_def TARGET_LTP_def qty_def LOT_SIZE_def)
       (simp add: sell_log_trade_step_def ex_short_day2_def dtime_def)
  have n: "sell_next ex_no_files (ex_bar 2 14 0 25) ex_short_held = Inr ex_short_day2"
    using ex_days_to_expiry[of 25 2] h
    by (simp add: sell_next_def Let_def ROLLOVER_DAYS_def)
  have d: "active_option_df ex_short_day2 = Some ex_pe_ind" by (simp add: ex_short_day2_def)
  from ex_short_run n d show ?thesis by simp
qed

text \<open>
  Claim C7, amended. Day rollover of the buying strategy: on a bar whose date differs from
  the stored date, the reset stores the new date, sets the daily trade counter to zero
  and drops the cached series, and touches nothing else: the position, its entry, its
  stop state, the ledger and the summary are as before. The bar is then processed as if
  the old counter and the old cache had never been: its outcome is the same for any
  counter value and any cached series, and a lookup on the reset state reads the file
  again even for the same contract. The selling strategy has no such reset: with a
  position open and a series cached, its bar outcome does not depend on the folder.
\<close>

theorem day_rollover:
  "(current_date s \<noteq> Some (date_of (time row)) \<longrightarrow>
      new_day_reset (date_of (time row)) s =
        s\<lparr>current_date := Some (date_of (time row)), trades_today := 0,
          active_option_df := None\<rparr> \<and>
      buy_next files row s =
        buy_next files row (s\<lparr>trades_today := n, active_option_df := df\<rparr>)) \<and>
   (files k = Some raw \<and> current_date s \<noteq> Some d \<longrightarrow>
      get_option_price files k q (new_day_reset d s) =
        (price_at (sort_index raw) q,
         (new_day_reset d s)\<lparr>active_option_df := Some (sort_index raw), active_scrip := k\<rparr>)) \<and>
   position_active (new_day_reset d s) = position_active s \<and>
   pos_type (new_day_reset d s) = pos_type s \<and>
   entry_price (new_day_reset d s) = entry_price s \<and>
   entry_time (new_day_reset d s) = entry_time s \<and>
   active_scrip (new_day_reset d s) = active_scrip s \<and>
   sl_mode (new_day_reset d s) = sl_mode s \<and>
   current_sl_price (new_day_reset d s) = current_sl_price s \<and>
   max_pnl_reached (new_day_reset d s) = max_pnl_reached s \<and>
   total_trades_count (new_day_reset d s) = total_trades_count s \<and>
   current_trade_ledger (new_day_reset d s) = current_trade_ledger s \<and>
   summary_log (new_day_reset d s) = summary_log s \<and>
   (position_active t \<and> active_option_df t = Some dfi \<longrightarrow>
      sell_next files row' t = sell_next files' row' t)"
proof -
  have a: "current_date s \<noteq> Some (date_of (time row)) \<longrightarrow>
      new_day_reset (date_of (time row)) s =
        s\<lparr>current_date := Some (date_of (time row)), trades_today := 0,
          active_option_df := None\<rparr> \<and>
      buy_next files row s =
        buy_next files row (s\<lparr>trades_today := n, active_option_df := df\<rparr>)"
    using buy_next_new_day[where s = s and row = row and files = files and n = n and df = df] by (simp add: new_day_reset_def)
  have b: "files k = Some raw \<and> current_date s \<noteq> Some d \<longrightarrow>
      get_option_price files k q (new_day_reset d s) =
        (price_at (sort_index raw) q,
         (new_day_reset d s)\<lparr>active_option_df := Some (sort_index raw), active_scrip := k\<rparr>)"
  proof
    assume h: "files k = Some raw \<and> current_date s \<noteq> Some d"
    then have "active_option_df (new_day_reset d s) = None" by (simp add: new_day_reset_def)
    with h gop_fresh[where files = files and k = k and raw = raw and s = "new_day_reset d s" and q = q]
    show "get_option_price files k q (new_day_reset d s) =
        (price_at (sort_index raw) q,
         (new_day_reset d s)\<lparr>active_option_df := Some (sort_index raw), active_scrip := k\<rparr>)"
      by blast
  qed
  have c: "position_active t \<and> active_option_df t = Some dfi \<longrightarrow>
      sell_next files row' t = sell_next files' row' t"
    using sell_next_cached[where s = t and df = dfi and files = files and row = row' and files' = files'] by blast
  from a b c show ?thesis by simp
qed

theorem day_rollover_witness:
  "current_date ex_open \<noteq> Some (date_of (time ((ex_buy_bar 9 20 4 15)\<lparr>time := ex_on 2 9 20\<rparr>))) \<and>
   trades_today ex_open = 1 \<and> active_option_df ex_open = Some ex_ce \<and>
   trades_today (new_day_reset \<lparr>year = 2024, month = 1, day = 2\<rparr> ex_open) = 0 \<and>
   active_option_df (new_day_reset \<lparr>year = 2024, month = 1, day = 2\<rparr> ex_open) = None \<and>
   position_active (new_day_reset \<lparr>year = 2024, month = 1, day = 2\<rparr> ex_open) \<and>
   buy_next ex_folder ((ex_buy_bar 9 20 4 15)\<lparr>time := ex_on 2 9 20\<rparr>) ex_open =
     buy_next ex_folder ((ex_buy_bar 9 20 4 15)\<lparr>time := ex_on 2 9 20\<rparr>)
       (ex_open\<lparr>trades_today := 0, active_option_df := None\<rparr>) \<and>
   ex_folder ''CE1'' = Some ex_ce \<and>
   fst (get_option_price ex_folder ''CE1'' (ex_on 2 9 20)
          (new_day_reset \<lparr>year = 2024, month = 1, day = 2\<rparr> ex_open))
     = price_at (sort_index ex_ce) (ex_on 2 9 20) \<and>
   position_active ex_short_held \<and> active_option_df ex_short_held = Some ex_pe_ind \<and>
   sell_next ex_folder (ex_bar 2 14 0 25) ex_short_held
     = sell_next ex_no_files (ex_bar 2 14 0 25) ex_short_held"
proof -
  let ?row = "(ex_buy_bar 9 20 4 15)\<lparr>time := ex_on 2 9 20\<rparr>"
  let ?d = "\<lparr>year = 2024, month = 1, day = 2\<rparr>"
  have t: "date_of (time ?row) = ?d" by simp
  have c: "current_date ex_open \<noteq> Some (date_of (time ?row))" by simp
  have c': "current_date ex_open \<noteq> Some ?d" by simp
  have f: "ex_folder ''CE1'' = Some ex_ce" by (simp add: ex_folder_def)
  have o: "trades_today ex_open = 1" by (simp add: ex_open_def)
  note inst = day_rollover[where s = ex_open and row = ?row and files = ex_folder and n = 0
      and df = None and k = "''CE1''" and raw = ex_ce and d = ?d and q = "ex_on 2 9 20"
      and t = ex_short_held and dfi = ex_pe_ind and row' = "ex_bar 2 14 0 25"
      and files' = ex_no_files]
  from inst c have r: "new_day_reset ?d ex_open =
        ex_open\<lparr>current_date := Some ?d, trades_today := 0, active_option_df := None\<rparr>"
    and b: "buy_next ex_folder ?row ex_open =
        buy_next ex_folder ?row (ex_open\<lparr>trades_today := 0, active_option_df := None\<rparr>)"
    unfolding t by blast+
  from inst f c' have g0: "get_option_price ex_folder ''CE1'' (ex_on 2 9 20)
          (new_day_reset ?d ex_open) =
        (price_at (sort_index ex_ce) (ex_on 2 9 20),
         (new_day_reset ?d ex_open)\<lparr>active_option_df := Some (sort_index ex_ce),
            active_scrip := ''CE1''\<rparr>)"
    by blast
  have g: "fst (get_option_price ex_folder ''CE1'' (ex_on 2 9 20)
          (new_day_reset ?d ex_open)) = price_at (sort_index ex_ce) (ex_on 2 9 20)"
    unfolding g0 by (simp only: fst_conv)
  from inst have s: "sell_next ex_folder (ex_bar 2 14 0 25) ex_short_held
     = sell_next ex_no_files (ex_bar 2 14 0 25) ex_short_held" by simp
  have r1: "trades_today (new_day_reset ?d ex_open) = 0"
    and r2: "active_option_df (new_day_reset ?d ex_open) = None"
    and r3: "position_active (new_day_reset ?d ex_open)"
    unfolding r by simp_all
  have o2: "active_option_df ex_open = Some ex_ce" "position_active ex_short_held"
    "active_option_df ex_short_held = Some ex_pe_ind" by simp_all
  from c o o2 r1 r2 r3 b f g s show ?thesis by blast
qed

subsection \<open>The trailing stop\<close>
























lemma ex_trail_run:
  "buy_run ex_folder [ex_buy_bar 9 20 4 21, ex_buy_bar 9 25 4 15, ex_buy_bar 9 30 4 15] buy_init
     = Inr ex_trail"
proof -
  from ex_open_run have "buy_next ex_folder (ex_buy_bar 9 20 4 21) buy_init = Inr ex_open"
    by (simp split: sum.splits)
  with ex_cost_step ex_trail_step show ?thesis by simp
qed


subsection \<open>Exit priority of the buying strategy\<close>

lemma buy_close_trade_full:
  assumes "entry_time u = Some et"
  shows "\<exists>s' r e. buy_close_trade reason dt x u = Inr s' \<and> \<not> position_active s' \<and>
           summary_log s' = summary_log u @ [r] \<and> ExitReason r = reason \<and>
           SellPrice r = py_round2 x \<and>
           current_trade_ledger s' = current_trade_ledger u @ [e] \<and>
           Event e = ''EXIT'' \<and> Price e = py_round2 x"
  unfolding buy_close_trade_Some[OF assms] by simp

lemma tsl_trigger_ledger:
  "\<exists>L. current_trade_ledger (tsl_trigger dt c v s) = current_trade_ledger s @ L \<and>
       (\<forall>x\<in>set L. Event x = ''TSL_UPDATE'')"
proof (cases "sl_mode s = NONE \<and> TSL_TRIGGER \<le> v")
  case True
  then have "\<exists>r. current_trade_ledger (tsl_trigger dt c v s) = current_trade_ledger s @ [r] \<and>
      Event r = ''TSL_UPDATE''"
    by (simp add: tsl_trigger_def Let_def buy_log_trade_step_def)
  then obtain r where "current_trade_ledger (tsl_trigger dt c v s) = current_trade_ledger s @ [r]"
    "Event r = ''TSL_UPDATE''" by blast
  then show ?thesis by (intro exI[of _ "[r]"]) simp
next
  case False
  then have "tsl_trigger dt c v s = s" by (auto simp: tsl_trigger_def)
  then show ?thesis by (intro exI[of _ "[]"]) simp
qed

lemma tsl_step_ledger:
  "\<exists>L. current_trade_ledger (tsl_step dt c v s) = current_trade_ledger s @ L \<and>
       (\<forall>x\<in>set L. Event x = ''TSL_UPDATE'')"
proof -
  have "current_trade_ledger (tsl_step dt c v s) = current_trade_ledger s \<or>
        (\<exists>r. current_trade_ledger (tsl_step dt c v s) = current_trade_ledger s @ [r] \<and>
             Event r = ''TSL_UPDATE'')"
    by (simp add: tsl_step_def Let_def buy_log_trade_step_def)
  then show ?thesis
  proof
    assume "current_trade_ledger (tsl_step dt c v s) = current_trade_ledger s"
    then show ?thesis by (intro exI[of _ "[]"]) simp
  next
    assume "\<exists>r. current_trade_ledger (tsl_step dt c v s) = current_trade_ledger s @ [r] \<and>
             Event r = ''TSL_UPDATE''"
    then obtain r where "current_trade_ledger (tsl_step dt c v s) = current_trade_ledger s @ [r]"
      "Event r = ''TSL_UPDATE''" by blast
    then show ?thesis by (intro exI[of _ "[r]"]) simp
  qed
qed

lemma after_tsl_ledger:
  "\<exists>h L. current_trade_ledger (after_tsl dt c s) = current_trade_ledger s @ h # L \<and>
         Event h = ''HOLD'' \<and> (\<forall>x\<in>set L. Event x = ''TSL_UPDATE'')"
proof -
  let ?v = "(c - entry_price s) * qty"
  let ?h = "buy_log_trade_step dt ''HOLD'' c ?v (current_sl_price s) ''Monitoring'' s"
  have "\<exists>h. current_trade_ledger ?h = current_trade_ledger s @ [h] \<and> Event h = ''HOLD''"
    by (simp add: buy_log_trade_step_def)
  then obtain h where h: "current_trade_ledger ?h = current_trade_ledger s @ [h]"
    "Event h = ''HOLD''" by blast
  from tsl_trigger_ledger[of dt c ?v ?h] obtain L1 where
    l1: "current_trade_ledger (tsl_trigger dt c ?v ?h) = current_trade_ledger ?h @ L1"
        "\<forall>x\<in>set L1. Event x = ''TSL_UPDATE''" by blast
  from tsl_step_ledger[of dt c ?v "tsl_trigger dt c ?v ?h"] obtain L2 where
    l2: "current_trade_ledger (tsl_step dt c ?v (tsl_trigger dt c ?v ?h))
          = current_trade_ledger (tsl_trigger dt c ?v ?h) @ L2"
        "\<forall>x\<in>set L2. Event x = ''TSL_UPDATE''" by blast
  have "current_trade_ledger (after_tsl dt c s) = current_trade_ledger s @ h # (L1 @ L2)"
    by (simp add: after_tsl_def Let_def l2(1) l1(1) h(1))
  moreover have "\<forall>x\<in>set (L1 @ L2). Event x = ''TSL_UPDATE''" using l1(2) l2(2) by auto
  ultimately show ?thesis using h(2) by blast
qed

text \<open>
  Claim C5 as stated fails: the forced expiry exit is evaluated, and fires, without any
  HOLD record. The position opened at 09:20 meets a bar at 15:15 on its expiry date; the
  bar closes it with reason EXPIRY_FORCE and the trade's ledger is the entry row followed
  directly by the exit row.
\<close>

lemma ex_expired_step: "buy_next ex_folder (ex_buy_bar 15 15 1 15) ex_open = Inr ex_expired"
proof -
  have g: "get_option_price ex_folder (active_scrip ex_open) (time (ex_buy_bar 15 15 1 15)) ex_open
           = (Some 104, ex_open)"
    by (simp add: ex_gop_cached ex_price_ce)
  have et: "entry_time ex_open = Some (ex_on 1 9 20)" by simp
  have c: "buy_close_trade ''EXPIRY_FORCE'' (ex_on 1 15 15) 104 ex_open = Inr ex_expired"
    unfolding buy_close_trade_Some[OF et]
    by (simp add: qty_def LOT_SIZE_def ex_expired_def ex_exit_row_def dtime_def ex_open_def)
  have "buy_hold ex_folder (ex_buy_bar 15 15 1 15) ex_open = Inr ex_expired"
    using buy_hold_forced[OF ex_forced, of ex_folder ex_open] g c by simp
  then show ?thesis by (simp add: buy_next_active)
qed

theorem exit_order_counterexample:
  "buy_run ex_folder [ex_buy_bar 9 20 4 21] buy_init = Inr ex_open \<and>
   buy_next ex_folder (ex_buy_bar 15 15 1 15) ex_open = Inr ex_expired \<and>
   map Event (current_trade_ledger ex_expired) = [''ENTRY'', ''EXIT''] \<and>
   map ExitReason (summary_log ex_expired) = [''EXPIRY_FORCE'']"
proof -
  have l: "map Event (current_trade_ledger ex_expired) = [''ENTRY'', ''EXIT'']"
    "map ExitReason (summary_log ex_expired) = [''EXPIRY_FORCE'']"
    by (simp_all add: ex_expired_def ex_open_def ex_exit_row_def)
  from ex_open_run ex_expired_step l show ?thesis by simp
qed

lemma held_lookup_sel [simp]:
  "entry_time (snd (held_lookup files row s)) = entry_time s"
  "summary_log (snd (held_lookup files row s)) = summary_log s"
  "current_trade_ledger (snd (held_lookup files row s)) = current_trade_ledger s"
  "pos_type (snd (held_lookup files row s)) = pos_type s"
  "position_active (snd (held_lookup files row s)) = position_active s"
  by (simp_all add: held_lookup_def)

lemma buy_next_held_forced:
  assumes "position_active s" "forced_exit row"
  shows "buy_next files row s =
           buy_close_trade ''EXPIRY_FORCE'' (time row) (expiry_exit_price files row s)
             (snd (held_lookup files row s))"
proof -
  let ?s0 = "new_day_reset (date_of (time row)) s"
  have x: "(case fst (get_option_price files (active_scrip ?s0) (time row) ?s0) of
              None \<Rightarrow> entry_price ?s0 | Some v \<Rightarrow> v) = expiry_exit_price files row s"
    by (simp add: expiry_exit_price_def split: option.split)
  show ?thesis
    using buy_hold_forced[OF assms(2), of files ?s0] x assms(1)
    by (simp add: buy_next_active held_lookup_def)
qed

lemma buy_next_held_skip:
  assumes "position_active s" "\<not> forced_exit row" "fst (held_lookup files row s) = None"
  shows "buy_next files row s = Inr (snd (held_lookup files row s))"
proof -
  let ?s0 = "new_day_reset (date_of (time row)) s"
  from assms(3) have "fst (get_option_price files (active_scrip ?s0) (time row) ?s0) = None"
    by (simp add: held_lookup_def)
  from buy_hold_skip[OF assms(2) this] assms(1) show ?thesis
    by (simp add: buy_next_active held_lookup_def)
qed

lemma buy_next_held_price:
  assumes "position_active s" "\<not> forced_exit row" "fst (held_lookup files row s) = Some c"
  shows "buy_next files row s =
          (let u = after_tsl (time row) c (snd (held_lookup files row s))
           in if sl_mode u \<noteq> NONE \<and> c \<le> current_sl_price u
              then buy_close_trade ''TSL_HIT'' (time row) (current_sl_price u) u
              else if ema_reversal row s
              then buy_close_trade ''EMA_REVERSAL'' (time row) c u
              else Inr u)"
proof -
  let ?s0 = "new_day_reset (date_of (time row)) s"
  from assms(3) have "fst (get_option_price files (active_scrip ?s0) (time row) ?s0) = Some c"
    by (simp add: held_lookup_def)
  from buy_hold_held[OF assms(2) this] assms(1) show ?thesis
    by (simp add: buy_next_active held_lookup_def ema_reversal_def Let_def)
qed

text \<open>
  Claim C5, amended. Exit priority of the buying strategy, for a reachable state with an
  open position. (1) The forced expiry exit is evaluated first, before the price is
  needed and before any HOLD record: when it applies the bar closes with EXPIRY_FORCE and
  the ledger gains the exit row only. Otherwise an unavailable price skips the bar with
  ledger and summary untouched. Otherwise the HOLD record is appended first, followed by
  the TSL_UPDATE records of (2) the trailing-stop update, and then, on the updated stop,
  (3) a stop hit closes with TSL_HIT at the stop price, not the market price; failing
  that, (4) an EMA reversal closes with EMA_REVERSAL at the market price; failing that,
  the position stays open. The first rule that holds wins and a bar appends at most one
  summary row.
\<close>

theorem exit_priority:
  assumes "buy_run files rows buy_init = Inr s" and "position_active s"
  shows
    "(forced_exit row \<longrightarrow>
        (\<exists>s' r e. buy_next files row s = Inr s' \<and> \<not> position_active s' \<and>
           summary_log s' = summary_log s @ [r] \<and> ExitReason r = ''EXPIRY_FORCE'' \<and>
           current_trade_ledger s' = current_trade_ledger s @ [e] \<and> Event e = ''EXIT'')) \<and>
     (\<not> forced_exit row \<and> fst (held_lookup files row s) = None \<longrightarrow>
        buy_next files row s = Inr (snd (held_lookup files row s)) \<and>
        current_trade_ledger (snd (held_lookup files row s)) = current_trade_ledger s \<and>
        summary_log (snd (held_lookup files row s)) = summary_log s) \<and>
     (\<not> forced_exit row \<and> fst (held_lookup files row s) = Some c \<longrightarrow>
        (\<exists>h L. current_trade_ledger (after_tsl (time row) c (snd (held_lookup files row s)))
                 = current_trade_ledger s @ h # L \<and>
               Event h = ''HOLD'' \<and> (\<forall>x\<in>set L. Event x = ''TSL_UPDATE'')) \<and>
        (sl_mode (after_tsl (time row) c (snd (held_lookup files row s))) \<noteq> NONE \<and>
         c \<le> current_sl_price (after_tsl (time row) c (snd (held_lookup files row s))) \<longrightarrow>
           (\<exists>s' r e. buy_next files row s = Inr s' \<and> \<not> position_active s' \<and>
              summary_log s' = summary_log s @ [r] \<and> ExitReason r = ''TSL_HIT'' \<and>
              SellPrice r = py_round2
                (current_sl_price (after_tsl (time row) c (snd (held_lookup files row s)))) \<and>
              current_trade_ledger s' =
                current_trade_ledger (after_tsl (time row) c (snd (held_lookup files row s))) @ [e] \<and>
              Event e = ''EXIT'')) \<and>
        (\<not> (sl_mode (after_tsl (time row) c (snd (held_lookup files row s))) \<noteq> NONE \<and>
            c \<le> current_sl_price (after_tsl (time row) c (snd (held_lookup files row s)))) \<and>
         ema_reversal row s \<longrightarrow>
           (\<exists>s' r e. buy_next files row s = Inr s' \<and> \<not> position_active s' \<and>
              summary_log s' = summary_log s @ [r] \<and> ExitReason r = ''EMA_REVERSAL'' \<and>
              SellPrice r = py_round2 c \<and>
              current_trade_ledger s' =
                current_trade_ledger (after_tsl (time row) c (snd (held_lookup files row s))) @ [e] \<and>
              Event e = ''EXIT'')) \<and>
        (\<not> (sl_mode (after_tsl (time row) c (snd (held_lookup files row s))) \<noteq> NONE \<and>
            c \<le> current_sl_price (after_tsl (time row) c (snd (held_lookup files row s)))) \<and>
         \<not> ema_reversal row s \<longrightarrow>
           buy_next files row s = Inr (after_tsl (time row) c (snd (held_lookup files row s))))) \<and>
     (buy_next files row s = Inr s2 \<longrightarrow> length (summary_log s2) \<le> length (summary_log s) + 1)"
proof -
  from buy_reachable_entry_time[OF assms] obtain et where et: "entry_time s = Some et" ..
  let ?s1 = "snd (held_lookup files row s)"
  let ?u = "after_tsl (time row) c ?s1"
  have et1: "entry_time ?s1 = Some et" using et by simp
  have etu: "entry_time ?u = Some et" using et by simp
  have su: "summary_log ?u = summary_log s" by simp
  have 1: "forced_exit row \<longrightarrow>
        (\<exists>s' r e. buy_next files row s = Inr s' \<and> \<not> position_active s' \<and>
           summary_log s' = summary_log s @ [r] \<and> ExitReason r = ''EXPIRY_FORCE'' \<and>
           current_trade_ledger s' = current_trade_ledger s @ [e] \<and> Event e = ''EXIT'')"
  proof
    assume f: "forced_exit row"
    from buy_close_trade_full[OF et1, of "''EXPIRY_FORCE''" "time row" "expiry_exit_price files row s"]
    show "\<exists>s' r e. buy_next files row s = Inr s' \<and> \<not> position_active s' \<and>
           summary_log s' = summary_log s @ [r] \<and> ExitReason r = ''EXPIRY_FORCE'' \<and>
           current_trade_ledger s' = current_trade_ledger s @ [e] \<and> Event e = ''EXIT''"
      unfolding buy_next_held_forced[OF assms(2) f] by simp blast
  qed
  have 2: "\<not> forced_exit row \<and> fst (held_lookup files row s) = None \<longrightarrow>
        buy_next files row s = Inr ?s1 \<and>
        current_trade_ledger ?s1 = current_trade_ledger s \<and> summary_log ?s1 = summary_log s"
    using buy_next_held_skip[OF assms(2), of row files] by simp
  have 3: "\<not> forced_exit row \<and> fst (held_lookup files row s) = Some c \<longrightarrow>
        (\<exists>h L. current_trade_ledger ?u = current_trade_ledger s @ h # L \<and>
               Event h = ''HOLD'' \<and> (\<forall>x\<in>set L. Event x = ''TSL_UPDATE'')) \<and>
        (sl_mode ?u \<noteq> NONE \<and> c \<le> current_sl_price ?u \<longrightarrow>
           (\<exists>s' r e. buy_next files row s = Inr s' \<and> \<not> position_active s' \<and>
              summary_log s' = summary_log s @ [r] \<and> ExitReason r = ''TSL_HIT'' \<and>
              SellPrice r = py_round2 (current_sl_price ?u) \<and>
              current_trade_ledger s' = current_trade_ledger ?u @ [e] \<and> Event e = ''EXIT'')) \<and>
        (\<not> (sl_mode ?u \<noteq> NONE \<and> c \<le> current_sl_price ?u) \<and> ema_reversal row s \<longrightarrow>
           (\<exists>s' r e. buy_next files row s = Inr s' \<and> \<not> position_active s' \<and>
              summary_log s' = summary_log s @ [r] \<and> ExitReason r = ''EMA_REVERSAL'' \<and>
              SellPrice r = py_round2 c \<and>
              current_trade_ledger s' = current_trade_ledger ?u @ [e] \<and> Event e = ''EXIT'')) \<and>
        (\<not> (sl_mode ?u \<noteq> NONE \<and> c \<le> current_sl_price ?u) \<and> \<not> ema_reversal row s \<longrightarrow>
           buy_next files row s = Inr ?u)"
  proof
    assume h: "\<not> forced_exit row \<and> fst (held_lookup files row s) = Some c"
    then have nf: "\<not> forced_exit row" and p: "fst (held_lookup files row s) = Some c" by simp_all
    note n = buy_next_held_price[OF assms(2) nf p, unfolded Let_def]
    from after_tsl_ledger[of "time row" c ?s1]
    have a: "\<exists>h L. current_trade_ledger ?u = current_trade_ledger s @ h # L \<and>
               Event h = ''HOLD'' \<and> (\<forall>x\<in>set L. Event x = ''TSL_UPDATE'')" by simp
    have b: "sl_mode ?u \<noteq> NONE \<and> c \<le> current_sl_price ?u \<longrightarrow>
           (\<exists>s' r e. buy_next files row s = Inr s' \<and> \<not> position_active s' \<and>
              summary_log s' = summary_log s @ [r] \<and> ExitReason r = ''TSL_HIT'' \<and>
              SellPrice r = py_round2 (current_sl_price ?u) \<and>
              current_trade_ledger s' = current_trade_ledger ?u @ [e] \<and> Event e = ''EXIT'')"
    proof
      assume hit: "sl_mode ?u \<noteq> NONE \<and> c \<le> current_sl_price ?u"
      with n have e: "buy_next files row s =
          buy_close_trade ''TSL_HIT'' (time row) (current_sl_price ?u) ?u" by simp
      from buy_close_trade_full[OF etu, of "''TSL_HIT''" "time row" "current_sl_price ?u"]
      show "\<exists>s' r e. buy_next files row s = Inr s' \<and> \<not> position_active s' \<and>
              summary_log s' = summary_log s @ [r] \<and> ExitReason r = ''TSL_HIT'' \<and>
              SellPrice r = py_round2 (current_sl_price ?u) \<and>
              current_trade_ledger s' = current_trade_ledger ?u @ [e] \<and> Event e = ''EXIT''"
        unfolding e su by blast
    qed
    have c: "\<not> (sl_mode ?u \<noteq> NONE \<and> c \<le> current_sl_price ?u) \<and> ema_reversal row s \<longrightarrow>
           (\<exists>s' r e. buy_next files row s = Inr s' \<and> \<not> position_active s' \<and>
              summary_log s' = summary_log s @ [r] \<and> ExitReason r = ''EMA_REVERSAL'' \<and>
              SellPrice r = py_round2 c \<and>
              current_trade_ledger s' = current_trade_ledger ?u @ [e] \<and> Event e = ''EXIT'')"
    proof
      assume rv: "\<not> (sl_mode ?u \<noteq> NONE \<and> c \<le> current_sl_price ?u) \<and> ema_reversal row s"
      with n have e: "buy_next files row s = buy_close_trade ''EMA_REVERSAL'' (time row) c ?u"
        by auto
      from buy_close_trade_full[OF etu, of "''EMA_REVERSAL''" "time row" c]
      show "\<exists>s' r e. buy_next files row s = Inr s' \<and> \<not> position_active s' \<and>
              summary_log s' = summary_log s @ [r] \<and> ExitReason r = ''EMA_REVERSAL'' \<and>
              SellPrice r = py_round2 c \<and>
              current_trade_ledger s' = current_trade_ledger ?u @ [e] \<and> Event e = ''EXIT''"
        unfolding e su by blast
    qed
    have d: "\<not> (sl_mode ?u \<noteq> NONE \<and> c \<le> current_sl_price ?u) \<and> \<not> ema_reversal row s \<longrightarrow>
           buy_next files row s = Inr ?u"
      using n by auto
    from a b c d show "(\<exists>h L. current_trade_ledger ?u = current_trade_ledger s @ h # L \<and>
               Event h = ''HOLD'' \<and> (\<forall>x\<in>set L. Event x = ''TSL_UPDATE'')) \<and>
        (sl_mode ?u \<noteq> NONE \<and> c \<le> current_sl_price ?u \<longrightarrow>
           (\<exists>s' r e. buy_next files row s = Inr s' \<and> \<not> position_active s' \<and>
              summary_log s' = summary_log s @ [r] \<and> ExitReason r = ''TSL_HIT'' \<and>
              SellPrice r = py_round2 (current_sl_price ?u) \<and>
              current_trade_ledger s' = current_trade_ledger ?u @ [e] \<and> Event e = ''EXIT'')) \<and>
        (\<not> (sl_mode ?u \<noteq> NONE \<and> c \<le> current_sl_price ?u) \<and> ema_reversal row s \<longrightarrow>
           (\<exists>s' r e. buy_next files row s = Inr s' \<and> \<not> position_active s' \<and>
              summary_log s' = summary_log s @ [r] \<and> ExitReason r = ''EMA_REVERSAL'' \<and>
              SellPrice r = py_round2 c \<and>
              current_trade_ledger s' = current_trade_ledger ?u @ [e] \<and> Event e = ''EXIT'')) \<and>
        (\<not> (sl_mode ?u \<noteq> NONE \<and> c \<le> current_sl_price ?u) \<and> \<not> ema_reversal row s \<longrightarrow>
           buy_next files row s = Inr ?u)" by blast
  qed
  have 4: "buy_next files row s = Inr s2 \<longrightarrow> length (summary_log s2) \<le> length (summary_log s) + 1"
    using buy_next_summary[of files row s s2] by auto
  from 1 2 3 4 show ?thesis by blast
qed

lemma ex_held_lookup:
  "active_option_df s = Some ex_ce \<Longrightarrow> active_scrip s = ''CE1'' \<Longrightarrow>
   current_date s = Some \<lparr>year = 2024, month = 1, day = 1\<rparr> \<Longrightarrow>
   held_lookup ex_folder (ex_buy_bar h m ed e5) s = (price_at ex_ce (ex_on 1 h m), s)"
  by (simp add: held_lookup_def ex_gop_cached)

lemma ex_price_910: "price_at ex_ce (ex_on 1 9 10) = None"
  by (simp add: price_at_def) (simp add: ex_ce_eval)

lemma ex_not_forced_open [simp]:
  "is_expiry_today (date_of (ex_on 1 h m)) (ex_buy_bar h m 4 e5) = False"
  by (simp add: is_expiry_today_def)

theorem exit_priority_witness:
  "buy_run ex_folder [ex_buy_bar 9 20 4 21] buy_init = Inr ex_open \<and> position_active ex_open \<and>
   forced_exit (ex_buy_bar 15 15 1 15) \<and>
   (\<exists>s' r e. buy_next ex_folder (ex_buy_bar 15 15 1 15) ex_open = Inr s' \<and>
      \<not> position_active s' \<and> summary_log s' = summary_log ex_open @ [r] \<and>
      ExitReason r = ''EXPIRY_FORCE'' \<and>
      current_trade_ledger s' = current_trade_ledger ex_open @ [e] \<and> Event e = ''EXIT'') \<and>
   \<not> forced_exit (ex_buy_bar 9 10 4 15) \<and>
   fst (held_lookup ex_folder (ex_buy_bar 9 10 4 15) ex_open) = None \<and>
   buy_next ex_folder (ex_buy_bar 9 10 4 15) ex_open = Inr ex_open \<and>
   \<not> forced_exit (ex_buy_bar 9 25 4 15) \<and>
   fst (held_lookup ex_folder (ex_buy_bar 9 25 4 15) ex_open) = Some 126 \<and>
   \<not> ema_reversal (ex_buy_bar 9 25 4 15) ex_open \<and>
   buy_next ex_folder (ex_buy_bar 9 25 4 15) ex_open = Inr ex_cost \<and>
   ema_reversal (ex_buy_bar 9 25 4 9) ex_open \<and>
   (\<exists>s' r e. buy_next ex_folder (ex_buy_bar 9 25 4 9) ex_open = Inr s' \<and>
      \<not> position_active s' \<and> summary_log s' = summary_log ex_open @ [r] \<and>
      ExitReason r = ''EMA_REVERSAL'' \<and> SellPrice r = 126 \<and>
      current_trade_ledger s' = current_trade_ledger ex_cost @ [e] \<and> Event e = ''EXIT'') \<and>
   buy_run ex_folder [ex_buy_bar 9 20 4 21, ex_buy_bar 9 25 4 15, ex_buy_bar 9 30 4 15] buy_init
     = Inr ex_trail \<and> position_active ex_trail \<and>
   fst (held_lookup ex_folder (ex_buy_bar 9 35 4 15) ex_trail) = Some 104 \<and>
   (104::real) \<le> 625 / 6 \<and>
   (\<exists>s' r. buy_next ex_folder (ex_buy_bar 9 35 4 15) ex_trail = Inr s' \<and>
      \<not> position_active s' \<and> summary_log s' = summary_log ex_trail @ [r] \<and>
      ExitReason r = ''TSL_HIT'' \<and> SellPrice r = 10417 / 100)"
proof -
  have po: "position_active ex_open" and pt: "position_active ex_trail" by simp_all
  have nf: "\<not> forced_exit (ex_buy_bar 9 10 4 15)" "\<not> forced_exit (ex_buy_bar 9 25 4 15)"
    "\<not> forced_exit (ex_buy_bar 9 25 4 9)" "\<not> forced_exit (ex_buy_bar 9 35 4 15)" by simp_all
  have l910: "held_lookup ex_folder (ex_buy_bar 9 10 4 15) ex_open = (None, ex_open)"
    by (simp add: ex_held_lookup ex_price_910)
  have l925: "held_lookup ex_folder (ex_buy_bar 9 25 4 15) ex_open = (Some 126, ex_open)"
    "held_lookup ex_folder (ex_buy_bar 9 25 4 9) ex_open = (Some 126, ex_open)"
    by (simp_all add: ex_held_lookup ex_price_ce)
  have l935: "held_lookup ex_folder (ex_buy_bar 9 35 4 15) ex_trail = (Some 104, ex_trail)"
    by (simp add: ex_held_lookup ex_price_ce)
  have rv: "\<not> ema_reversal (ex_buy_bar 9 25 4 15) ex_open" "ema_reversal (ex_buy_bar 9 25 4 9) ex_open"
    by (simp_all add: ema_reversal_def)
  note a = exit_priority[OF ex_open_run po, where row = "ex_buy_bar 15 15 1 15" and c = 104]
  note b = exit_priority[OF ex_open_run po, where row = "ex_buy_bar 9 10 4 15" and c = 104]
  note c = exit_priority[OF ex_open_run po, where row = "ex_buy_bar 9 25 4 15" and c = 126]
  note d = exit_priority[OF ex_open_run po, where row = "ex_buy_bar 9 25 4 9" and c = 126]
  note e = exit_priority[OF ex_trail_run pt, where row = "ex_buy_bar 9 35 4 15" and c = 104]
  from a ex_forced
  have A: "\<exists>s' r e. buy_next ex_folder (ex_buy_bar 15 15 1 15) ex_open = Inr s' \<and>
      \<not> position_active s' \<and> summary_log s' = summary_log ex_open @ [r] \<and>
      ExitReason r = ''EXPIRY_FORCE'' \<and>
      current_trade_ledger s' = current_trade_ledger ex_open @ [e] \<and> Event e = ''EXIT''"
    by blast
  from b nf(1) l910 have B: "buy_next ex_folder (ex_buy_bar 9 10 4 15) ex_open = Inr ex_open"
    by simp
  have u1: "after_tsl (time (ex_buy_bar 9 25 4 15)) 126
              (snd (held_lookup ex_folder (ex_buy_bar 9 25 4 15) ex_open)) = ex_cost"
           "after_tsl (time (ex_buy_bar 9 25 4 9)) 126
              (snd (held_lookup ex_folder (ex_buy_bar 9 25 4 9) ex_open)) = ex_cost"
    by (simp_all add: l925 ex_after_tsl_cost)
  have nh: "\<not> (sl_mode ex_cost \<noteq> NONE \<and> (126::real) \<le> current_sl_price ex_cost)" by simp
  from c nf(2) l925(1) rv(1) nh
  have C: "buy_next ex_folder (ex_buy_bar 9 25 4 15) ex_open = Inr ex_cost"
    unfolding u1 by simp
  from d nf(3) l925(2) rv(2) nh
  have D: "\<exists>s' r e. buy_next ex_folder (ex_buy_bar 9 25 4 9) ex_open = Inr s' \<and>
      \<not> position_active s' \<and> summary_log s' = summary_log ex_open @ [r] \<and>
      ExitReason r = ''EMA_REVERSAL'' \<and> SellPrice r = 126 \<and>
      current_trade_ledger s' = current_trade_ledger ex_cost @ [e] \<and> Event e = ''EXIT''"
    unfolding u1 by simp
  have u2: "after_tsl (time (ex_buy_bar 9 35 4 15)) 104
              (snd (held_lookup ex_folder (ex_buy_bar 9 35 4 15) ex_trail)) =
            ex_trail\<lparr>current_trade_ledger := current_trade_ledger ex_trail @
              [ex_hold_row 35 104 480 (10417 / 100) TRAILING]\<rparr>"
    by (simp add: l935 ex_after_tsl_dip)
  from e nf(4) l935
  have E: "\<exists>s' r. buy_next ex_folder (ex_buy_bar 9 35 4 15) ex_trail = Inr s' \<and>
      \<not> position_active s' \<and> summary_log s' = summary_log ex_trail @ [r] \<and>
      ExitReason r = ''TSL_HIT'' \<and> SellPrice r = 10417 / 100"
    unfolding u2 by simp blast
  have F: "(104::real) \<le> 625 / 6" by simp
  from ex_open_run po ex_forced A nf(1) l910 B nf(2) l925(1) rv C D ex_trail_run pt l935 E F
  show ?thesis by simp
qed

subsection \<open>Recorded profit and loss\<close>

lemma buy_close_row:
  assumes "entry_time u = Some et"
  shows "\<exists>s'. buy_close_trade reason dt x u = Inr s' \<and>
           summary_log s' = summary_log u @
             [\<lparr>TradeID = total_trades_count u, ScripName = active_scrip u,
               BuyDateTime = et, SellDateTime = dt,
               BuyPrice = py_round2 (entry_price u), SellPrice = py_round2 x,
               PnL = py_round2 ((x - entry_price u) * qty), ExitReason = reason\<rparr>]"
  unfolding buy_close_trade_Some[OF assms] by simp

lemma sell_close_row:
  assumes "entry_time u = Some et"
  shows "\<exists>s'. sell_close_trade reason dt x u = Inr s' \<and>
           summary_log s' = summary_log u @
             [\<lparr>TradeID = total_trades_count u, ScripName = active_scrip u,
               BuyDateTime = dt, SellDateTime = et,
               BuyPrice = py_round2 x, SellPrice = py_round2 (entry_price u),
               PnL = py_round2 ((entry_price u - x) * qty), ExitReason = reason,
               Type = pos_type u, Side = ''SHORT''\<rparr>]"
  unfolding sell_close_trade_Some[OF assms] by simp

lemma held_lookup_keeps [simp]:
  "total_trades_count (snd (held_lookup files row s)) = total_trades_count s"
  "active_scrip (snd (held_lookup files row s)) = active_scrip s"
  "entry_price (snd (held_lookup files row s)) = entry_price s"
proof -
  let ?s0 = "new_day_reset (date_of (time row)) s"
  have "active_scrip (snd (get_option_price files (active_scrip ?s0) (time row) ?s0))
          = active_scrip ?s0" by (rule gop_scrip)
  then show "active_scrip (snd (held_lookup files row s)) = active_scrip s"
    by (simp add: held_lookup_def)
qed (simp_all add: held_lookup_def)

lemma buy_next_row:
  assumes "position_active s" "entry_time s = Some et"
  shows "\<exists>s'. buy_next files row s = Inr s' \<and>
           summary_log s' = summary_log s @
             (case buy_exit files row s of
                None \<Rightarrow> []
              | Some (why, x) \<Rightarrow>
                  [\<lparr>TradeID = total_trades_count s, ScripName = active_scrip s,
                    BuyDateTime = et, SellDateTime = time row,
                    BuyPrice = py_round2 (entry_price s), SellPrice = py_round2 x,
                    PnL = py_round2 ((x - entry_price s) * qty), ExitReason = why\<rparr>])"
proof -
  let ?u = "snd (held_lookup files row s)"
  have etu: "entry_time ?u = Some et" using assms(2) by simp
  show ?thesis
  proof (cases "forced_exit row")
    case True
    then have x: "buy_exit files row s = Some (''EXPIRY_FORCE'', expiry_exit_price files row s)"
      by (simp add: buy_exit_def)
    from buy_close_row[OF etu, of "''EXPIRY_FORCE''" "time row" "expiry_exit_price files row s"]
    show ?thesis unfolding buy_next_held_forced[OF assms(1) True] x by simp
  next
    case nf: False
    show ?thesis
    proof (cases "fst (held_lookup files row s)")
      case None
      with nf have x: "buy_exit files row s = None" by (simp add: buy_exit_def)
      show ?thesis unfolding buy_next_held_skip[OF assms(1) nf None] x by simp
    next
      case (Some c)
      let ?v = "after_tsl (time row) c ?u"
      have etv: "entry_time ?v = Some et" using etu by simp
      have keep: "summary_log ?v = summary_log s" "total_trades_count ?v = total_trades_count s"
        "active_scrip ?v = active_scrip s" "entry_price ?v = entry_price s"
        by simp_all
      note n = buy_next_held_price[OF assms(1) nf Some]
      show ?thesis
      proof (cases "sl_mode ?v \<noteq> NONE \<and> c \<le> current_sl_price ?v")
        case True
        with nf Some have x: "buy_exit files row s = Some (''TSL_HIT'', current_sl_price ?v)"
          by (simp add: buy_exit_def Let_def)
        from True n have m: "buy_next files row s
            = buy_close_trade ''TSL_HIT'' (time row) (current_sl_price ?v) ?v"
          by (simp add: Let_def)
        from buy_close_row[OF etv, of "''TSL_HIT''" "time row" "current_sl_price ?v"]
        show ?thesis unfolding m x keep by simp
      next
        case nh: False
        show ?thesis
        proof (cases "ema_reversal row s")
          case True
          with nf Some nh have x: "buy_exit files row s = Some (''EMA_REVERSAL'', c)"
            by (simp add: buy_exit_def Let_def)
          from True nh n have m: "buy_next files row s
              = buy_close_trade ''EMA_REVERSAL'' (time row) c ?v"
            by (auto simp: Let_def)
          from buy_close_row[OF etv, of "''EMA_REVERSAL''" "time row" c]
          show ?thesis unfolding m x keep by simp
        next
          case False
          with nf Some nh have x: "buy_exit files row s = None"
            by (simp add: buy_exit_def Let_def)
          from False nh n have m: "buy_next files row s = Inr ?v" by (auto simp: Let_def)
          show ?thesis unfolding m x by simp
        qed
      qed
    qed
  qed
qed

lemma sell_next_held:
  assumes "mk_date (expiry_year row) (expiry_month row) (expiry_day row) = Inr ed"
    and "position_active s"
  shows "sell_next files row s = sell_hold files row (rollover_period row) s"
  using assms by (simp add: sell_next_def rollover_period_def Let_def ROLLOVER_DAYS_def)

lemma sell_next_row:
  assumes "mk_date (expiry_year row) (expiry_month row) (expiry_day row) = Inr ed"
    and "position_active s" "entry_time s = Some et"
  shows "\<exists>s'. sell_next files row s = Inr s' \<and>
           summary_log s' = summary_log s @
             (case sell_exit files row s of
                None \<Rightarrow> []
              | Some (why, x) \<Rightarrow>
                  [\<lparr>TradeID = total_trades_count s, ScripName = active_scrip s,
                    BuyDateTime = time row, SellDateTime = et,
                    BuyPrice = py_round2 x, SellPrice = py_round2 (entry_price s),
                    PnL = py_round2 ((entry_price s - x) * qty), ExitReason = why,
                    Type = pos_type s, Side = ''SHORT''\<rparr>])"
proof (cases "fst (get_option_indicators files (active_scrip s) (time row) s)")
  case None
  then have x: "sell_exit files row s = None" by (simp add: sell_exit_def)
  show ?thesis unfolding sell_next_held[OF assms(1,2)] sell_hold_skip[OF None] x by simp
next
  case (Some r)
  let ?u = "sell_log_trade_step (time row) ''HOLD'' (close r)
              ((entry_price s - close r) * qty) ''Monitoring''
              (snd (get_option_indicators files (active_scrip s) (time row) s))"
  have etu: "entry_time ?u = Some et" using assms(3) by simp
  have keep: "summary_log ?u = summary_log s" "total_trades_count ?u = total_trades_count s"
    "active_scrip ?u = active_scrip s" "entry_price ?u = entry_price s" "pos_type ?u = pos_type s"
    by simp_all
  note n = sell_hold_held[OF Some, of "rollover_period row"]
  note c = sell_close_row[OF etu, of _ "time row" "close r"]
  show ?thesis
  proof (cases "rollover_period row")
    case True
    with Some have x: "sell_exit files row s = Some (''ROLLOVER_EXIT'', close r)"
      by (simp add: sell_exit_def)
    from True n have m: "sell_hold files row (rollover_period row) s
        = sell_close_trade ''ROLLOVER_EXIT'' (time row) (close r) ?u" by (simp add: Let_def)
    from c[of "''ROLLOVER_EXIT''"] show ?thesis
      unfolding sell_next_held[OF assms(1,2)] m x keep by simp
  next
    case nr: False
    show ?thesis
    proof (cases "EMA50_High r < EMA19_Close r")
      case True
      with Some nr have x: "sell_exit files row s = Some (''EMA_REVERSAL_SL'', close r)"
        by (simp add: sell_exit_def)
      from True nr n have m: "sell_hold files row (rollover_period row) s
          = sell_close_trade ''EMA_REVERSAL_SL'' (time row) (close r) ?u" by (simp add: Let_def)
      from c[of "''EMA_REVERSAL_SL''"] show ?thesis
        unfolding sell_next_held[OF assms(1,2)] m x keep by simp
    next
      case ne: False
      show ?thesis
      proof (cases "close r < TARGET_LTP")
        case True
        with Some nr ne have x: "sell_exit files row s = Some (''TARGET_LTP_30'', close r)"
          by (simp add: sell_exit_def)
        from True nr ne n have m: "sell_hold files row (rollover_period row) s
            = sell_close_trade ''TARGET_LTP_30'' (time row) (close r) ?u" by (simp add: Let_def)
        from c[of "''TARGET_LTP_30''"] show ?thesis
          unfolding sell_next_held[OF assms(1,2)] m x keep by simp
      next
        case False
        with Some nr ne have x: "sell_exit files row s = None" by (simp add: sell_exit_def)
        from False nr ne n have m: "sell_hold files row (rollover_period row) s = Inr ?u"
          by (simp add: Let_def)
        show ?thesis unfolding sell_next_held[OF assms(1,2)] m x by simp
      qed
    qed
  qed
qed

lemma buy_next_flat_summary:
  assumes "\<not> position_active s"
  shows "\<exists>s'. buy_next files row s = Inr s' \<and> summary_log s' = summary_log s"
proof -
  let ?s = "new_day_reset (date_of (time row)) s"
  from buy_entry_cases[of files row ?s]
  have "summary_log (buy_entry files row ?s) = summary_log s" by auto
  with assms show ?thesis by (simp add: buy_next_flat)
qed

lemma sell_next_flat_summary:
  assumes "\<not> position_active s" "sell_next files row s = Inr s'"
  shows "summary_log s' = summary_log s"
  using assms(2)
proof (cases rule: sell_next_cases)
  case (1 roll)
  with assms(1) show ?thesis by simp
next
  case (2 roll)
  from sell_entry_cases[OF 2(1), of files row roll] 2(2) show ?thesis by auto
qed

text \<open>
  Claim C9. Recorded profit and loss. \<open>close_trade\<close> appends one summary row whose profit
  is computed from the price it is called with and the stored entry price, both
  unrounded, times the quantity, and rounded only then: exit minus entry for the buying
  (long) strategy, entry minus exit for the selling (short) strategy; the two recorded
  prices are the same two prices, each rounded on its own. A bar of a reachable state
  with an open position appends exactly the row of the exit it takes, at the price that
  exit hands over (the resolved price or the entry-price fallback for EXPIRY_FORCE, the
  unrounded stop price for TSL_HIT, the resolved close otherwise), and appends nothing
  when no exit is taken or no position is open. The state keeps full precision: the
  entry price is stored as resolved, and the stop price is either left as it was or
  set to the entry price or to the unrounded ratchet value, so the trigger, ratchet and
  stop comparisons never see a rounded number.
\<close>

theorem recorded_pnl:
  "(entry_time s = Some et \<longrightarrow>
      (\<exists>s'. buy_close_trade reason dt price s = Inr s' \<and>
         summary_log s' = summary_log s @
           [\<lparr>TradeID = total_trades_count s, ScripName = active_scrip s,
             BuyDateTime = et, SellDateTime = dt,
             BuyPrice = py_round2 (entry_price s), SellPrice = py_round2 price,
             PnL = py_round2 ((price - entry_price s) * qty), ExitReason = reason\<rparr>])) \<and>
   (entry_time t = Some et \<longrightarrow>
      (\<exists>t'. sell_close_trade reason dt price t = Inr t' \<and>
         summary_log t' = summary_log t @
           [\<lparr>TradeID = total_trades_count t, ScripName = active_scrip t,
             BuyDateTime = dt, SellDateTime = et,
             BuyPrice = py_round2 price, SellPrice = py_round2 (entry_price t),
             PnL = py_round2 ((entry_price t - price) * qty), ExitReason = reason,
             Type = pos_type t, Side = ''SHORT''\<rparr>])) \<and>
   (buy_run files rows buy_init = Inr s \<and> position_active s \<longrightarrow>
      (\<exists>s'. buy_next files row s = Inr s' \<and>
         summary_log s' = summary_log s @
           (case buy_exit files row s of
              None \<Rightarrow> []
            | Some (why, x) \<Rightarrow>
                [\<lparr>TradeID = total_trades_count s, ScripName = active_scrip s,
                  BuyDateTime = the (entry_time s), SellDateTime = time row,
                  BuyPrice = py_round2 (entry_price s), SellPrice = py_round2 x,
                  PnL = py_round2 ((x - entry_price s) * qty), ExitReason = why\<rparr>]))) \<and>
   (\<not> position_active s \<longrightarrow>
      (\<exists>s'. buy_next files row s = Inr s' \<and> summary_log s' = summary_log s)) \<and>
   (sell_run files rows' sell_init = Inr t \<and> position_active t \<and>
    mk_date (expiry_year row') (expiry_month row') (expiry_day row') = Inr ed \<longrightarrow>
      (\<exists>t'. sell_next files row' t = Inr t' \<and>
         summary_log t' = summary_log t @
           (case sell_exit files row' t of
              None \<Rightarrow> []
            | Some (why, x) \<Rightarrow>
                [\<lparr>TradeID = total_trades_count t, ScripName = active_scrip t,
                  BuyDateTime = time row', SellDateTime = the (entry_time t),
                  BuyPrice = py_round2 x, SellPrice = py_round2 (entry_price t),
                  PnL = py_round2 ((entry_price t - x) * qty), ExitReason = why,
                  Type = pos_type t, Side = ''SHORT''\<rparr>]))) \<and>
   (\<not> position_active t \<and> sell_next files row' t = Inr tn \<longrightarrow>
      summary_log tn = summary_log t) \<and>
   (fst (get_option_price files (leg_scrip ty row) (time row) s) = Some p \<and> p \<noteq> 0 \<longrightarrow>
      entry_price (entry_setup files ty row s) = p) \<and>
   entry_price (open_trade ty k p dt t) = p \<and>
   current_sl_price (tsl_trigger dt c v s) =
     (if sl_mode s = NONE \<and> 3000 \<le> v then entry_price s else current_sl_price s) \<and>
   current_sl_price (tsl_step dt c v s) =
     (let hw = max (max_pnl_reached s) v;
          new_sl = entry_price s + of_int \<lfloor>(hw - 3000) / 500\<rfloor> * 500 / 120
      in if sl_mode s \<noteq> NONE \<and> 500 \<le> hw - 3000 \<and> current_sl_price s < new_sl
         then new_sl else current_sl_price s)"
proof -
  have a: "entry_time s = Some et \<longrightarrow>
      (\<exists>s'. buy_close_trade reason dt price s = Inr s' \<and>
         summary_log s' = summary_log s @
           [\<lparr>TradeID = total_trades_count s, ScripName = active_scrip s,
             BuyDateTime = et, SellDateTime = dt,
             BuyPrice = py_round2 (entry_price s), SellPrice = py_round2 price,
             PnL = py_round2 ((price - entry_price s) * qty), ExitReason = reason\<rparr>])"
    using buy_close_row by blast
  have b: "entry_time t = Some et \<longrightarrow>
      (\<exists>t'. sell_close_trade reason dt price t = Inr t' \<and>
         summary_log t' = summary_log t @
           [\<lparr>TradeID = total_trades_count t, ScripName = active_scrip t,
             BuyDateTime = dt, SellDateTime = et,
             BuyPrice = py_round2 price, SellPrice = py_round2 (entry_price t),
             PnL = py_round2 ((entry_price t - price) * qty), ExitReason = reason,
             Type = pos_type t, Side = ''SHORT''\<rparr>])"
    using sell_close_row by blast
  have c: "buy_run files rows buy_init = Inr s \<and> position_active s \<longrightarrow>
      (\<exists>s'. buy_next files row s = Inr s' \<and>
         summary_log s' = summary_log s @
           (case buy_exit files row s of
              None \<Rightarrow> []
            | Some (why, x) \<Rightarrow>
                [\<lparr>TradeID = total_trades_count s, ScripName = active_scrip s,
                  BuyDateTime = the (entry_time s), SellDateTime = time row,
                  BuyPrice = py_round2 (entry_price s), SellPrice = py_round2 x,
                  PnL = py_round2 ((x - entry_price s) * qty), ExitReason = why\<rparr>]))"
  proof
    assume h: "buy_run files rows buy_init = Inr s \<and> position_active s"
    then obtain et' where e: "entry_time s = Some et'"
      using buy_reachable_entry_time by blast
    from h have pa: "position_active s" by simp
    have t: "the (entry_time s) = et'" by (simp add: e)
    show "\<exists>s'. buy_next files row s = Inr s' \<and>
         summary_log s' = summary_log s @
           (case buy_exit files row s of
              None \<Rightarrow> []
            | Some (why, x) \<Rightarrow>
                [\<lparr>TradeID = total_trades_count s, ScripName = active_scrip s,
                  BuyDateTime = the (entry_time s), SellDateTime = time row,
                  BuyPrice = py_round2 (entry_price s), SellPrice = py_round2 x,
                  PnL = py_round2 ((x - entry_price s) * qty), ExitReason = why\<rparr>])"
      unfolding t by (rule buy_next_row[OF pa e])
  qed
  have d: "\<not> position_active s \<longrightarrow>
      (\<exists>s'. buy_next files row s = Inr s' \<and> summary_log s' = summary_log s)"
    using buy_next_flat_summary by blast
  have e: "sell_run files rows' sell_init = Inr t \<and> position_active t \<and>
    mk_date (expiry_year row') (expiry_month row') (expiry_day row') = Inr ed \<longrightarrow>
      (\<exists>t'. sell_next files row' t = Inr t' \<and>
         summary_log t' = summary_log t @
           (case sell_exit files row' t of
              None \<Rightarrow> []
            | Some (why, x) \<Rightarrow>
                [\<lparr>TradeID = total_trades_count t, ScripName = active_scrip t,
                  BuyDateTime = time row', SellDateTime = the (entry_time t),
                  BuyPrice = py_round2 x, SellPrice = py_round2 (entry_price t),
                  PnL = py_round2 ((entry_price t - x) * qty), ExitReason = why,
                  Type = pos_type t, Side = ''SHORT''\<rparr>]))"
  proof
    assume h: "sell_run files rows' sell_init = Inr t \<and> position_active t \<and>
      mk_date (expiry_year row') (expiry_month row') (expiry_day row') = Inr ed"
    then obtain et' where e: "entry_time t = Some et'"
      using sell_reachable_entry_time by blast
    from h have m: "mk_date (expiry_year row') (expiry_month row') (expiry_day row') = Inr ed"
      and pa: "position_active t" by simp_all
    have t: "the (entry_time t) = et'" by (simp add: e)
    show "\<exists>t'. sell_next files row' t = Inr t' \<and>
         summary_log t' = summary_log t @
           (case sell_exit files row' t of
              None \<Rightarrow> []
            | Some (why, x) \<Rightarrow>
                [\<lparr>TradeID = total_trades_count t, ScripName = active_scrip t,
                  BuyDateTime = time row', SellDateTime = the (entry_time t),
                  BuyPrice = py_round2 x, SellPrice = py_round2 (entry_price t),
                  PnL = py_round2 ((entry_price t - x) * qty), ExitReason = why,
                  Type = pos_type t, Side = ''SHORT''\<rparr>])"
      unfolding t by (rule sell_next_row[OF m pa e])
  qed
  have f: "\<not> position_active t \<and> sell_next files row' t = Inr tn \<longrightarrow>
      summary_log tn = summary_log t"
    using sell_next_flat_summary by blast
  have g: "fst (get_option_price files (leg_scrip ty row) (time row) s) = Some p \<and> p \<noteq> 0 \<longrightarrow>
      entry_price (entry_setup files ty row s) = p"
    by (simp add: entry_setup_unfold Let_def)
  have h: "entry_price (open_trade ty k p dt t) = p" by simp
  note i = tsl_trigger_stop[of dt c v s]
  note j = tsl_step_stop[of dt c v s]
  from a b c d e f g h i j show ?thesis by (intro conjI)
qed

lemma ex_short_close_step:
  "sell_next ex_folder (ex_bar 1 14 10 5) ex_short_held = Inr ex_short_closed"
proof -
  have g: "fst (get_option_indicators ex_folder (active_scrip ex_short_held)
                 (time (ex_bar 1 14 10 5)) ex_short_held)
           = Some \<lparr>high = 71, low = 69, close = 70,
               EMA19_Close = 476 / 5, EMA50_High = 257681 / 2601, EMA50_Low = 252479 / 2601\<rparr>"
    "snd (get_option_indicators ex_folder (active_scrip ex_short_held)
                 (time (ex_bar 1 14 10 5)) ex_short_held) = ex_short_held"
    by (simp_all add: ex_goi_held ex_row_1410)
  have pa: "position_active ex_short_held" by simp
  let ?u = "sell_log_trade_step (ex_on 1 14 10) ''HOLD'' 70 ((80 - 70) * qty) ''Monitoring''
              ex_short_held"
  have et: "entry_time ?u = Some (ex_on 1 14 5)" by simp
  have n: "sell_hold ex_folder (ex_bar 1 14 10 5) True ex_short_held
           = sell_close_trade ''ROLLOVER_EXIT'' (ex_on 1 14 10) 70 ?u"
    using sell_hold_held[OF g(1), of True] by (simp add: Let_def ex_goi_held)
  show ?thesis
    unfolding sell_next_rollover_open[OF ex_rollover pa] n sell_close_trade_Some[OF et]
    by (simp add: sell_log_trade_step_def ex_short_closed_def ex_short_held_def ex_short_def qty_def
          LOT_SIZE_def dtime_def)
qed

lemma ex_buy_exit_hit:
  "buy_exit ex_folder (ex_buy_bar 9 35 4 15) ex_trail = Some (''TSL_HIT'', 625 / 6)"
proof -
  have l: "held_lookup ex_folder (ex_buy_bar 9 35 4 15) ex_trail = (Some 104, ex_trail)"
    by (simp add: ex_held_lookup ex_price_ce)
  have nf: "\<not> forced_exit (ex_buy_bar 9 35 4 15)"
    by (simp add: forced_exit_def dtime_def ex_buy_bar_def ex_on_def)
  show ?thesis using nf
    by (simp add: buy_exit_def l ex_after_tsl_dip Let_def)
qed

lemma ex_sell_exit_roll:
  "sell_exit ex_folder (ex_bar 1 14 10 5) ex_short_held = Some (''ROLLOVER_EXIT'', 70)"
  using ex_rollover by (simp add: sell_exit_def ex_goi_held ex_row_1410)

theorem recorded_pnl_witness:
  "buy_run ex_folder [ex_buy_bar 9 20 4 21, ex_buy_bar 9 25 4 15, ex_buy_bar 9 30 4 15] buy_init
     = Inr ex_trail \<and>
   position_active ex_trail \<and>
   buy_exit ex_folder (ex_buy_bar 9 35 4 15) ex_trail = Some (''TSL_HIT'', 625 / 6) \<and>
   buy_next ex_folder (ex_buy_bar 9 35 4 15) ex_trail = Inr ex_hit \<and>
   summary_log ex_hit =
     [\<lparr>TradeID = 1, ScripName = ''CE1'', BuyDateTime = ex_on 1 9 20,
       SellDateTime = ex_on 1 9 35, BuyPrice = 100, SellPrice = 10417 / 100,
       PnL = py_round2 ((625 / 6 - 100) * qty), ExitReason = ''TSL_HIT''\<rparr>] \<and>
   py_round2 ((625 / 6 - 100) * qty) = 500 \<and>
   py_round2 ((py_round2 (625 / 6) - 100) * qty) = 5004 / 10 \<and>
   sell_run ex_folder [ex_bar 1 14 5 25, ex_bar 1 14 10 25] sell_init = Inr ex_short_held \<and>
   position_active ex_short_held \<and>
   mk_date (expiry_year (ex_bar 1 14 10 5)) (expiry_month (ex_bar 1 14 10 5))
     (expiry_day (ex_bar 1 14 10 5)) = Inr \<lparr>year = 2024, month = 1, day = 5\<rparr> \<and>
   sell_exit ex_folder (ex_bar 1 14 10 5) ex_short_held = Some (''ROLLOVER_EXIT'', 70) \<and>
   sell_next ex_folder (ex_bar 1 14 10 5) ex_short_held = Inr ex_short_closed \<and>
   summary_log ex_short_closed =
     [\<lparr>TradeID = 1, ScripName = ''PE1'', BuyDateTime = ex_on 1 14 10,
       SellDateTime = ex_on 1 14 5, BuyPrice = 70, SellPrice = 80,
       PnL = py_round2 ((80 - 70) * qty), ExitReason = ''ROLLOVER_EXIT'',
       Type = Some PE, Side = ''SHORT''\<rparr>] \<and>
   py_round2 ((80 - 70) * qty) = 1200 \<and>
   entry_time ex_trail = Some (ex_on 1 9 20) \<and>
   map_sum id summary_log (buy_close_trade ''TSL_HIT'' (ex_on 1 9 35) (625 / 6) ex_trail) =
     Inr [\<lparr>TradeID = 1, ScripName = ''CE1'', BuyDateTime = ex_on 1 9 20,
            SellDateTime = ex_on 1 9 35, BuyPrice = 100, SellPrice = 10417 / 100,
            PnL = 500, ExitReason = ''TSL_HIT''\<rparr>] \<and>
   entry_time ex_short_held = Some (ex_on 1 14 5) \<and>
   map_sum id summary_log
       (sell_close_trade ''ROLLOVER_EXIT'' (ex_on 1 14 10) 70 ex_short_held) =
     Inr [\<lparr>TradeID = 1, ScripName = ''PE1'', BuyDateTime = ex_on 1 14 10,
            SellDateTime = ex_on 1 14 5, BuyPrice = 70, SellPrice = 80, PnL = 1200,
            ExitReason = ''ROLLOVER_EXIT'', Type = Some PE, Side = ''SHORT''\<rparr>] \<and>
   \<not> position_active buy_init \<and>
   buy_next ex_folder (ex_buy_bar 9 20 4 21) buy_init = Inr ex_open \<and>
   summary_log ex_open = summary_log buy_init \<and>
   \<not> position_active sell_init \<and>
   sell_next ex_folder (ex_bar 1 14 5 25) sell_init = Inr ex_short \<and>
   summary_log ex_short = summary_log sell_init \<and>
   fst (get_option_price ex_folder (leg_scrip CE (ex_buy_bar 9 20 4 21))
          (time (ex_buy_bar 9 20 4 21)) buy_init) = Some 100 \<and> (100::real) \<noteq> 0 \<and>
   entry_price (entry_setup ex_folder CE (ex_buy_bar 9 20 4 21) buy_init) = 100"
proof -
  have k2: "leg_scrip CE (ex_buy_bar 9 20 4 21) = ''CE1''" by (simp add: leg_scrip_def)
  have h: "fst (get_option_price ex_folder (leg_scrip CE (ex_buy_bar 9 20 4 21))
          (time (ex_buy_bar 9 20 4 21)) buy_init) = Some 100"
    unfolding k2
    by (simp add: get_option_price_def buy_init_def ex_folder_def Let_def ex_ce_sorted ex_price_920)
  have pa: "position_active ex_trail" "position_active ex_short_held" by simp_all
  have na: "\<not> position_active buy_init" by (simp add: buy_init_def)
  have md: "mk_date (expiry_year (ex_bar 1 14 10 5)) (expiry_month (ex_bar 1 14 10 5))
     (expiry_day (ex_bar 1 14 10 5)) = Inr \<lparr>year = 2024, month = 1, day = 5\<rparr>"
    using ex_days_to_expiry[of 5 1] by simp
  have z: "(100::real) \<noteq> 0" by simp
  have r1: "py_round2 ((625 / 6 - 100) * qty) = 500"
    by (simp add: qty_def LOT_SIZE_def)
  have r2: "py_round2 ((py_round2 (625 / 6) - 100) * qty) = 5004 / 10"
    by (simp add: qty_def LOT_SIZE_def) (simp add: py_round2_def Let_def)
  have r3: "py_round2 ((80 - 70) * qty) = 1200" by (simp add: qty_def LOT_SIZE_def)
  have step1: "buy_next ex_folder (ex_buy_bar 9 20 4 21) buy_init = Inr ex_open"
    using ex_open_run by (simp split: sum.splits)
  note i1 = recorded_pnl[where files = ex_folder and s = ex_trail and row = "ex_buy_bar 9 35 4 15"
      and rows = "[ex_buy_bar 9 20 4 21, ex_buy_bar 9 25 4 15, ex_buy_bar 9 30 4 15]"
      and t = ex_short_held and row' = "ex_bar 1 14 10 5"
      and rows' = "[ex_bar 1 14 5 25, ex_bar 1 14 10 25]"
      and ed = "\<lparr>year = 2024, month = 1, day = 5\<rparr>"]
  from i1 ex_trail_run pa(1)
  have "\<exists>s'. buy_next ex_folder (ex_buy_bar 9 35 4 15) ex_trail = Inr s' \<and>
         summary_log s' = summary_log ex_trail @
           (case buy_exit ex_folder (ex_buy_bar 9 35 4 15) ex_trail of
              None \<Rightarrow> []
            | Some (why, x) \<Rightarrow>
                [\<lparr>TradeID = total_trades_count ex_trail, ScripName = active_scrip ex_trail,
                  BuyDateTime = the (entry_time ex_trail), SellDateTime = time (ex_buy_bar 9 35 4 15),
                  BuyPrice = py_round2 (entry_price ex_trail), SellPrice = py_round2 x,
                  PnL = py_round2 ((x - entry_price ex_trail) * qty), ExitReason = why\<rparr>])"
    by blast
  then have b: "summary_log ex_hit =
     [\<lparr>TradeID = 1, ScripName = ''CE1'', BuyDateTime = ex_on 1 9 20,
       SellDateTime = ex_on 1 9 35, BuyPrice = 100, SellPrice = 10417 / 100,
       PnL = py_round2 ((625 / 6 - 100) * qty), ExitReason = ''TSL_HIT''\<rparr>]"
    unfolding ex_hit_step ex_buy_exit_hit by (simp add: ex_buy_bar_def)
  from i1 ex_short_run pa(2) md
  have "\<exists>t'. sell_next ex_folder (ex_bar 1 14 10 5) ex_short_held = Inr t' \<and>
         summary_log t' = summary_log ex_short_held @
           (case sell_exit ex_folder (ex_bar 1 14 10 5) ex_short_held of
              None \<Rightarrow> []
            | Some (why, x) \<Rightarrow>
                [\<lparr>TradeID = total_trades_count ex_short_held, ScripName = active_scrip ex_short_held,
                  BuyDateTime = time (ex_bar 1 14 10 5), SellDateTime = the (entry_time ex_short_held),
                  BuyPrice = py_round2 x, SellPrice = py_round2 (entry_price ex_short_held),
                  PnL = py_round2 ((entry_price ex_short_held - x) * qty), ExitReason = why,
                  Type = pos_type ex_short_held, Side = ''SHORT''\<rparr>])"
    by blast
  then have s: "summary_log ex_short_closed =
     [\<lparr>TradeID = 1, ScripName = ''PE1'', BuyDateTime = ex_on 1 14 10,
       SellDateTime = ex_on 1 14 5, BuyPrice = 70, SellPrice = 80,
       PnL = py_round2 ((80 - 70) * qty), ExitReason = ''ROLLOVER_EXIT'',
       Type = Some PE, Side = ''SHORT''\<rparr>]"
    unfolding ex_short_close_step ex_sell_exit_roll by (simp add: ex_short_held_def ex_short_def)
  from recorded_pnl[where files = ex_folder and s = buy_init and row = "ex_buy_bar 9 20 4 21"
      and ty = CE and p = 100] na step1
  have fl: "summary_log ex_open = summary_log buy_init" by auto
  have ns: "\<not> position_active sell_init" by (simp add: sell_init_def)
  from recorded_pnl[where files = ex_folder and t = sell_init and row' = "ex_bar 1 14 5 25"
      and tn = ex_short] ns ex_short_entry
  have fs: "summary_log ex_short = summary_log sell_init" by blast
  have et1: "entry_time ex_trail = Some (ex_on 1 9 20)"
    and et2: "entry_time ex_short_held = Some (ex_on 1 14 5)"
    by (simp_all add: ex_trail_def ex_cost_def ex_open_def)
  from recorded_pnl[where s = ex_trail and et = "ex_on 1 9 20" and reason = "''TSL_HIT''"
      and dt = "ex_on 1 9 35" and price = "625 / 6"] et1
  obtain s1 where "buy_close_trade ''TSL_HIT'' (ex_on 1 9 35) (625 / 6) ex_trail = Inr s1"
    "summary_log s1 = summary_log ex_trail @
       [\<lparr>TradeID = total_trades_count ex_trail, ScripName = active_scrip ex_trail,
         BuyDateTime = ex_on 1 9 20, SellDateTime = ex_on 1 9 35,
         BuyPrice = py_round2 (entry_price ex_trail), SellPrice = py_round2 (625 / 6),
         PnL = py_round2 ((625 / 6 - entry_price ex_trail) * qty), ExitReason = ''TSL_HIT''\<rparr>]"
    by blast
  then have c1: "map_sum id summary_log
       (buy_close_trade ''TSL_HIT'' (ex_on 1 9 35) (625 / 6) ex_trail) =
     Inr [\<lparr>TradeID = 1, ScripName = ''CE1'', BuyDateTime = ex_on 1 9 20,
            SellDateTime = ex_on 1 9 35, BuyPrice = 100, SellPrice = 10417 / 100,
            PnL = 500, ExitReason = ''TSL_HIT''\<rparr>]"
    using r1 by (simp add: ex_trail_def ex_cost_def ex_open_def)
  from recorded_pnl[where t = ex_short_held and et = "ex_on 1 14 5"
      and reason = "''ROLLOVER_EXIT''" and dt = "ex_on 1 14 10" and price = 70] et2
  obtain t1 where "sell_close_trade ''ROLLOVER_EXIT'' (ex_on 1 14 10) 70 ex_short_held = Inr t1"
    "summary_log t1 = summary_log ex_short_held @
       [\<lparr>TradeID = total_trades_count ex_short_held, ScripName = active_scrip ex_short_held,
         BuyDateTime = ex_on 1 14 10, SellDateTime = ex_on 1 14 5,
         BuyPrice = py_round2 70, SellPrice = py_round2 (entry_price ex_short_held),
         PnL = py_round2 ((entry_price ex_short_held - 70) * qty),
         ExitReason = ''ROLLOVER_EXIT'', Type = pos_type ex_short_held, Side = ''SHORT''\<rparr>]"
    by blast
  then have c2: "map_sum id summary_log
       (sell_close_trade ''ROLLOVER_EXIT'' (ex_on 1 14 10) 70 ex_short_held) =
     Inr [\<lparr>TradeID = 1, ScripName = ''PE1'', BuyDateTime = ex_on 1 14 10,
            SellDateTime = ex_on 1 14 5, BuyPrice = 70, SellPrice = 80, PnL = 1200,
            ExitReason = ''ROLLOVER_EXIT'', Type = Some PE, Side = ''SHORT''\<rparr>]"
    using r3 by (simp add: ex_short_held_def ex_short_def)
  from recorded_pnl[where files = ex_folder and s = buy_init and row = "ex_buy_bar 9 20 4 21"
      and ty = CE and p = 100] h
  have e: "entry_price (entry_setup ex_folder CE (ex_buy_bar 9 20 4 21) buy_init) = 100"
    by simp
  from ex_trail_run pa(1) ex_buy_exit_hit ex_hit_step b r1 r2 ex_short_run pa(2) md
    ex_sell_exit_roll ex_short_close_step s r3 et1 c1 et2 c2 na step1 fl ns ex_short_entry fs h z e
  show ?thesis by (intro conjI)
qed

end
